theory Spec2Isabelle
  imports Complex_Main
begin

section \<open>Python arithmetic\<close>

text \<open>
  The calculation core of \<^verbatim>\<open>app.py\<close> works on Python floats. It is embedded at two
  levels of detail.

  The two cycle solvers are embedded over the reals: every float is read as the real
  number it stands for, \<open>+\<close>, \<open>-\<close>, \<open>*\<close> and \<open>/\<close> are the field operations of \<open>real\<close>,
  \<^verbatim>\<open>math.log\<close> is \<open>ln\<close> and \<^verbatim>\<open>x ** y\<close> is \<open>x powr y\<close>. The rounding error of IEEE
  doubles, overflow, infinities and NaN are not modelled there. This level carries the
  reference values, the concrete scenarios and the guards of the solvers.

  The work and heat terms of \<^verbatim>\<open>brayton_cycle\<close> and the two estimators are embedded
  again in IEEE double arithmetic, every operation rounded as Python rounds it. This
  level carries the statements on equations between computed quantities, which
  rounding decides.

  What Python raises is modelled at both levels: a float division by zero,
  \<^verbatim>\<open>math.log\<close> of a non-positive number, and the comparison of a complex number (the
  value of a negative base raised to a fractional power) with an integer.
\<close>

datatype error = ZeroDivisionError | ValueError | TypeError

definition and_then :: "error + 'a \<Rightarrow> ('a \<Rightarrow> error + 'b) \<Rightarrow> error + 'b" where
  "and_then r f = (case r of Inl e \<Rightarrow> Inl e | Inr v \<Rightarrow> f v)"

text \<open>\<^verbatim>\<open>a / b\<close> on floats.\<close>

definition py_div :: "real \<Rightarrow> real \<Rightarrow> error + real" where
  "py_div a b = (if b = 0 then Inl ZeroDivisionError else Inr (a / b))"

text \<open>\<^verbatim>\<open>math.log(x)\<close>.\<close>

definition math_log :: "real \<Rightarrow> error + real" where
  "math_log x = (if x \<le> 0 then Inl ValueError else Inr (ln x))"

text \<open>
  \<^verbatim>\<open>round(x, ndigits)\<close> on a float rounds to the nearest multiple of \<open>10 ^ -ndigits\<close>,
  a tie going to the even neighbour.
\<close>

definition round_half_even :: "real \<Rightarrow> int" where
  "round_half_even x =
    (let f = \<lfloor>x\<rfloor>; d = x - of_int f in
     if d < 1 / 2 then f
     else if d > 1 / 2 then f + 1
     else if even f then f else f + 1)"

definition py_round :: "real \<Rightarrow> nat \<Rightarrow> real" where
  "py_round x ndigits = of_int (round_half_even (x * 10 ^ ndigits)) / 10 ^ ndigits"

section \<open>IEEE double arithmetic\<close>

text \<open>
  A Python float is an IEEE 754 binary64 number. The type \<open>f64\<close> holds the finite
  doubles by their exact real value, the two infinities and NaN; the two zeros are one
  value (the code never divides by a computed zero without raising, and no other
  operation it uses tells them apart). \<open>nearest x\<close> is the real \<open>x\<close> rounded to 53
  significant bits, a tie going to the even significand, with the exponent bounded below
  (gradual underflow) and not above; \<open>fin x\<close> is the double an arithmetic operation
  returns when its exact result is \<open>x\<close>, an infinity on overflow.
\<close>

definition f64_exponent :: "real \<Rightarrow> int" where
  "f64_exponent x = max \<lfloor>log 2 \<bar>x\<bar>\<rfloor> (- 1022)"

definition f64_ulp :: "real \<Rightarrow> real" where
  "f64_ulp x = 2 powr of_int (f64_exponent x - 52)"

definition nearest :: "real \<Rightarrow> real" where
  "nearest x = (if x = 0 then 0 else of_int (round_half_even (x / f64_ulp x)) * f64_ulp x)"

datatype f64 = Finite real | PInf | NInf | NaN

definition fin :: "real \<Rightarrow> f64" where
  "fin x = (if 2 ^ 1024 \<le> \<bar>nearest x\<bar> then (if x < 0 then NInf else PInf) else Finite (nearest x))"

text \<open>The reals that are doubles.\<close>

definition is_f64 :: "real \<Rightarrow> bool" where
  "is_f64 x \<longleftrightarrow> nearest x = x \<and> \<bar>x\<bar> < 2 ^ 1024"

text \<open>The unit roundoff and half the smallest subnormal: \<open>nearest x\<close> differs from \<open>x\<close> by at
  most \<open>f64_u * \<bar>x\<bar> + f64_eta\<close>.\<close>

definition f64_u :: real where
  "f64_u = 1 / 2 ^ 53"

definition f64_eta :: real where
  "f64_eta = 1 / 2 ^ 1075"

text \<open>\<^verbatim>\<open>-a\<close>, \<^verbatim>\<open>a + b\<close>, \<^verbatim>\<open>a - b\<close>, \<^verbatim>\<open>a * b\<close> on floats; none of them raises.\<close>

fun f64_neg :: "f64 \<Rightarrow> f64" where
  "f64_neg (Finite x) = Finite (- x)"
| "f64_neg PInf = NInf"
| "f64_neg NInf = PInf"
| "f64_neg NaN = NaN"

fun f64_add :: "f64 \<Rightarrow> f64 \<Rightarrow> f64" where
  "f64_add (Finite x) (Finite y) = fin (x + y)"
| "f64_add NaN b = NaN"
| "f64_add a NaN = NaN"
| "f64_add PInf NInf = NaN"
| "f64_add NInf PInf = NaN"
| "f64_add PInf b = PInf"
| "f64_add a PInf = PInf"
| "f64_add NInf b = NInf"
| "f64_add a NInf = NInf"

definition f64_sub :: "f64 \<Rightarrow> f64 \<Rightarrow> f64" where
  "f64_sub a b = f64_add a (f64_neg b)"

text \<open>\<^verbatim>\<open>a < 0\<close> and \<^verbatim>\<open>a > 0\<close>.\<close>

fun f64_negative :: "f64 \<Rightarrow> bool" where
  "f64_negative (Finite x) = (x < 0)"
| "f64_negative NInf = True"
| "f64_negative PInf = False"
| "f64_negative NaN = False"

fun f64_positive :: "f64 \<Rightarrow> bool" where
  "f64_positive (Finite x) = (0 < x)"
| "f64_positive PInf = True"
| "f64_positive NInf = False"
| "f64_positive NaN = False"

fun f64_mul :: "f64 \<Rightarrow> f64 \<Rightarrow> f64" where
  "f64_mul (Finite x) (Finite y) = fin (x * y)"
| "f64_mul NaN b = NaN"
| "f64_mul a NaN = NaN"
| "f64_mul a b =
     (if a = Finite 0 \<or> b = Finite 0 then NaN
      else if f64_negative a \<noteq> f64_negative b then NInf else PInf)"

text \<open>\<^verbatim>\<open>a / b\<close> for a divisor that is not zero (Python raises before dividing by zero).\<close>

fun f64_divide :: "f64 \<Rightarrow> f64 \<Rightarrow> f64" where
  "f64_divide (Finite x) (Finite y) = fin (x / y)"
| "f64_divide NaN b = NaN"
| "f64_divide a NaN = NaN"
| "f64_divide (Finite x) b = Finite 0"
| "f64_divide a (Finite y) = (if f64_negative a \<noteq> (y < 0) then NInf else PInf)"
| "f64_divide a b = NaN"

definition py_div_f :: "f64 \<Rightarrow> f64 \<Rightarrow> error + f64" where
  "py_div_f a b = (if b = Finite 0 then Inl ZeroDivisionError else Inr (f64_divide a b))"

text \<open>
  \<^verbatim>\<open>round(x, ndigits)\<close> on a float, for \<open>ndigits \<ge> 0\<close>: the exact value of the double is
  rounded to \<open>ndigits\<close> decimals, a tie going to the even neighbour, and the decimal
  number is converted to the nearest double. An infinity and NaN are returned unchanged.
\<close>

fun py_round_f64 :: "f64 \<Rightarrow> nat \<Rightarrow> f64" where
  "py_round_f64 (Finite x) ndigits = fin (py_round x ndigits)"
| "py_round_f64 a ndigits = a"

text \<open>
  \<^verbatim>\<open>x ** y\<close> on floats calls the \<^verbatim>\<open>pow\<close> of the C library, whose rounding IEEE 754 does
  not fix. The double model of \<^verbatim>\<open>brayton_cycle\<close> therefore takes the power function as
  a parameter, and what is proved of it holds for every such function. \<open>pow_f64\<close> is the
  correctly rounded power of a positive finite base, with the values C gives at a zero
  or infinite base for the positive exponent the code uses; concrete runs are evaluated
  with it.
\<close>

fun pow_f64 :: "f64 \<Rightarrow> f64 \<Rightarrow> f64" where
  "pow_f64 (Finite x) (Finite y) =
     (if 0 < x then fin (x powr y) else if x = 0 \<and> 0 < y then Finite 0 else NaN)"
| "pow_f64 PInf (Finite y) = (if 0 < y then PInf else NaN)"
| "pow_f64 NInf (Finite y) = (if 0 < y then PInf else NaN)"
| "pow_f64 a b = NaN"

section \<open>Thermodynamic constants\<close>

definition CP_AIR :: real where "CP_AIR = 1.005"
definition GAMMA_AIR :: real where "GAMMA_AIR = 1.4"
definition R_AIR :: real where "R_AIR = 0.287"
definition CP_STEAM :: real where "CP_STEAM = 2.01"
definition HFG_WATER :: real where "HFG_WATER = 2257.0"
definition CP_WATER :: real where "CP_WATER = 4.186"
definition BIOGAS_LHV :: real where "BIOGAS_LHV = 22.0"
definition HYDROCHAR_HHV :: real where "HYDROCHAR_HHV = 25.0"

section \<open>Result records\<close>

text \<open>
  The \<^verbatim>\<open>states\<close> dict of both cycle solvers has the keys \<^verbatim>\<open>T\<close>, \<^verbatim>\<open>h\<close>, \<^verbatim>\<open>s\<close> and
  \<^verbatim>\<open>labels\<close>, each a list of four entries; state point 1 is index 0. The \<^verbatim>\<open>metrics\<close>
  dicts and the dicts of the two estimators map a key to a number.
\<close>

record states =
  T :: "real list"
  h :: "real list"
  s :: "real list"
  labels :: "string list"

type_synonym metrics = "string \<rightharpoonup> real"

text \<open>The en dash of the labels, as its UTF-8 bytes.\<close>

definition en_dash :: string where
  "en_dash = [CHR 0xE2, CHR 0x80, CHR 0x93]"

section \<open>Brayton cycle\<close>

text \<open>The local variables of \<^verbatim>\<open>brayton_cycle\<close> up to the back-work ratio, as doubles.\<close>

record gas_work_f =
  T1 :: f64
  T3 :: f64
  T2s :: f64
  T2 :: f64
  T4s :: f64
  T4 :: f64
  w_comp :: f64
  w_turb :: f64
  w_net :: f64
  q_in :: f64
  q_out :: f64
  eta_th :: f64
  bwr :: f64

text \<open>The local variables of \<^verbatim>\<open>brayton_cycle\<close> up to the back-work ratio, before rounding.\<close>

record gas_work =
  T1 :: real
  T3 :: real
  T2s :: real
  T2 :: real
  T4s :: real
  T4 :: real
  w_comp :: real
  w_turb :: real
  w_net :: real
  q_in :: real
  q_out :: real
  eta_th :: real
  bwr :: real

text \<open>
  Lines 69 to 87 of \<^verbatim>\<open>brayton_cycle\<close>. For \<open>rp < 0\<close> the power is a non-zero complex
  number: the division by \<open>eta_c\<close> still raises for \<open>eta_c = 0\<close>, the division of
  \<open>T3\<close> by the power does not raise, and \<^verbatim>\<open>q_in > 0\<close> raises \<^verbatim>\<open>TypeError\<close>.
  For \<open>rp = 0\<close> the power is \<open>0.0\<close>, as \<open>0 powr y\<close> is.
\<close>

definition brayton_work :: "real \<Rightarrow> real \<Rightarrow> real \<Rightarrow> real \<Rightarrow> real \<Rightarrow> error + gas_work" where
  "brayton_work T1_C rp T3_C eta_c eta_t =
    (let T1 = T1_C + 273.15;
         T3 = T3_C + 273.15
     in
     if rp < 0 then (if eta_c = 0 then Inl ZeroDivisionError else Inl TypeError)
     else
       let T2s = T1 * rp powr ((GAMMA_AIR - 1) / GAMMA_AIR) in
       and_then (py_div (T2s - T1) eta_c) (\<lambda>dT2.
       let T2 = T1 + dT2 in
       and_then (py_div T3 (rp powr ((GAMMA_AIR - 1) / GAMMA_AIR))) (\<lambda>T4s.
       let T4 = T3 - (T3 - T4s) * eta_t;
           w_comp = CP_AIR * (T2 - T1);
           w_turb = CP_AIR * (T3 - T4);
           w_net = w_turb - w_comp;
           q_in = CP_AIR * (T3 - T2);
           q_out = CP_AIR * (T4 - T1);
           eta_th = (if q_in > 0 then w_net / q_in * 100 else 0);
           bwr = (if w_turb > 0 then w_comp / w_turb * 100 else 0)
       in Inr \<lparr>gas_work.T1 = T1, gas_work.T3 = T3, T2s = T2s, T2 = T2, T4s = T4s, T4 = T4,
                w_comp = w_comp, w_turb = w_turb, w_net = w_net, q_in = q_in,
                q_out = q_out, eta_th = eta_th, bwr = bwr\<rparr>)))"

text \<open>Lines 90 to 93: the entropies \<open>[s1, s2, s3, s4]\<close>, in Python's order of evaluation.\<close>

definition brayton_entropy :: "gas_work \<Rightarrow> real \<Rightarrow> error + real list" where
  "brayton_entropy w rp =
    (let s1 = 0.0 in
     and_then (py_div (T2 w) (gas_work.T1 w)) (\<lambda>r21.
     and_then (math_log r21) (\<lambda>l21.
     and_then (math_log rp) (\<lambda>lrp.
     let s2 = CP_AIR * l21 - R_AIR * lrp in
     and_then (py_div (gas_work.T3 w) (T2 w)) (\<lambda>r32.
     and_then (math_log r32) (\<lambda>l32.
     let s3 = s2 + CP_AIR * l32 in
     and_then (py_div (T4 w) (gas_work.T3 w)) (\<lambda>r43.
     and_then (math_log r43) (\<lambda>l43.
     and_then (math_log rp) (\<lambda>lrp'.
     let s4 = s3 + CP_AIR * l43 + R_AIR * lrp'
     in Inr [s1, s2, s3, s4])))))))))"

text \<open>Lines 96 to 99: the enthalpies \<open>[h1, h2, h3, h4]\<close>.\<close>

definition brayton_enthalpy :: "gas_work \<Rightarrow> real list" where
  "brayton_enthalpy w =
    (let h1 = 0.0;
         h2 = CP_AIR * (T2 w - gas_work.T1 w);
         h3 = CP_AIR * (gas_work.T3 w - gas_work.T1 w);
         h4 = CP_AIR * (T4 w - gas_work.T1 w)
     in [h1, h2, h3, h4])"

definition brayton_cycle ::
  "real \<Rightarrow> real \<Rightarrow> real \<Rightarrow> real \<Rightarrow> real \<Rightarrow> error + (states \<times> metrics)" where
  "brayton_cycle T1_C rp T3_C eta_c eta_t =
    and_then (brayton_work T1_C rp T3_C eta_c eta_t) (\<lambda>w.
    and_then (brayton_entropy w rp) (\<lambda>ss.
    Inr (\<lparr>T = [gas_work.T1 w - 273.15, T2 w - 273.15, gas_work.T3 w - 273.15, T4 w - 273.15],
          h = brayton_enthalpy w,
          s = ss,
          labels = [''1 '' @ en_dash @ '' Comp Inlet'', ''2 '' @ en_dash @ '' Comp Outlet'',
                    ''3 '' @ en_dash @ '' Turb Inlet'', ''4 '' @ en_dash @ '' Turb Outlet'']\<rparr>,
         [''w_comp'' \<mapsto> py_round (w_comp w) 2,
          ''w_turb'' \<mapsto> py_round (w_turb w) 2,
          ''w_net'' \<mapsto> py_round (w_net w) 2,
          ''q_in'' \<mapsto> py_round (q_in w) 2,
          ''q_out'' \<mapsto> py_round (q_out w) 2,
          ''eta_th'' \<mapsto> py_round (eta_th w) 2,
          ''bwr'' \<mapsto> py_round (bwr w) 2])))"

subsection \<open>The work and heat terms in double arithmetic\<close>

text \<open>
  Lines 69 to 87 of \<^verbatim>\<open>brayton_cycle\<close> again, every operation rounded as Python rounds
  it; the arguments are doubles (a Python int below \<open>2 ^ 53\<close> is converted without
  error). \<open>pow\<close> stands for \<^verbatim>\<open>**\<close>. A negative finite \<open>rp\<close> is handled as above; at
  \<open>rp = -inf\<close> the power is \<open>+inf\<close>, not a complex number.
\<close>

definition brayton_work_f ::
  "(f64 \<Rightarrow> f64 \<Rightarrow> f64) \<Rightarrow> f64 \<Rightarrow> f64 \<Rightarrow> f64 \<Rightarrow> f64 \<Rightarrow> f64 \<Rightarrow> error + gas_work_f" where
  "brayton_work_f pow T1_C rp T3_C eta_c eta_t =
    (let T1 = f64_add T1_C (fin 273.15);
         T3 = f64_add T3_C (fin 273.15)
     in
     if f64_negative rp \<and> rp \<noteq> NInf
     then (if eta_c = Finite 0 then Inl ZeroDivisionError else Inl TypeError)
     else
       let p = pow rp (f64_divide (f64_sub (fin GAMMA_AIR) (fin 1)) (fin GAMMA_AIR));
           T2s = f64_mul T1 p in
       and_then (py_div_f (f64_sub T2s T1) eta_c) (\<lambda>dT2.
       let T2 = f64_add T1 dT2 in
       and_then (py_div_f T3 p) (\<lambda>T4s.
       let T4 = f64_sub T3 (f64_mul (f64_sub T3 T4s) eta_t);
           w_comp = f64_mul (fin CP_AIR) (f64_sub T2 T1);
           w_turb = f64_mul (fin CP_AIR) (f64_sub T3 T4);
           w_net = f64_sub w_turb w_comp;
           q_in = f64_mul (fin CP_AIR) (f64_sub T3 T2);
           q_out = f64_mul (fin CP_AIR) (f64_sub T4 T1);
           eta_th = (if f64_positive q_in then f64_mul (f64_divide w_net q_in) (fin 100)
                     else Finite 0);
           bwr = (if f64_positive w_turb then f64_mul (f64_divide w_comp w_turb) (fin 100)
                  else Finite 0)
       in Inr \<lparr>gas_work_f.T1 = T1, gas_work_f.T3 = T3, gas_work_f.T2s = T2s,
                gas_work_f.T2 = T2, gas_work_f.T4s = T4s, gas_work_f.T4 = T4,
                gas_work_f.w_comp = w_comp, gas_work_f.w_turb = w_turb,
                gas_work_f.w_net = w_net, gas_work_f.q_in = q_in,
                gas_work_f.q_out = q_out, gas_work_f.eta_th = eta_th,
                gas_work_f.bwr = bwr\<rparr>)))"

text \<open>Lines 96 to 99 in double arithmetic: the list \<open>h\<close> of the state set, which is not rounded.\<close>

definition brayton_enthalpy_f :: "gas_work_f \<Rightarrow> f64 list" where
  "brayton_enthalpy_f w =
    (let h1 = fin 0.0;
         h2 = f64_mul (fin CP_AIR) (f64_sub (gas_work_f.T2 w) (gas_work_f.T1 w));
         h3 = f64_mul (fin CP_AIR) (f64_sub (gas_work_f.T3 w) (gas_work_f.T1 w));
         h4 = f64_mul (fin CP_AIR) (f64_sub (gas_work_f.T4 w) (gas_work_f.T1 w))
     in [h1, h2, h3, h4])"

section \<open>HTC steam cycle\<close>

text \<open>The local variables of \<^verbatim>\<open>htc_steam_cycle\<close>, before rounding.\<close>

record steam_vars =
  T1 :: real
  T3 :: real
  h1 :: real
  h2 :: real
  h3 :: real
  h4s :: real
  h4 :: real
  s1 :: real
  s2 :: real
  s3 :: real
  s4 :: real
  w_pump :: real
  w_turb_st :: real
  q_in_st :: real
  w_net_st :: real
  eta :: real

text \<open>
  Lines 134 to 167. The only operation that can raise is the division by
  \<open>T3 + 273.15\<close> in \<open>s3\<close>; the argument of the logarithm in \<open>s1\<close> is a positive constant.
\<close>

definition htc_steam_vars :: "real \<Rightarrow> real \<Rightarrow> error + steam_vars" where
  "htc_steam_vars T_reactor P_reactor =
    (let T1 = 45.0;
         T3 = T_reactor + 50;
         P_low = 0.1;
         P_high = P_reactor;
         h1 = CP_WATER * T1;
         h2 = h1 + 0.001 * (P_high - P_low) * 100;
         h3 = CP_WATER * 100 + HFG_WATER + CP_STEAM * (T3 - 100);
         eta_st = 0.85;
         h4s = h1 + 0.88 * HFG_WATER;
         h4 = h3 - eta_st * (h3 - h4s)
     in
     and_then (math_log ((T1 + 273.15) / 273.15)) (\<lambda>l1.
     let s1 = CP_WATER * l1;
         s2 = s1
     in
     and_then (py_div (h3 - h2) (T3 + 273.15)) (\<lambda>ds3.
     let s3 = s1 + ds3;
         s4 = s3 + 0.15;
         w_pump = h2 - h1;
         w_turb_st = h3 - h4;
         q_in_st = h3 - h2;
         w_net_st = w_turb_st - w_pump;
         eta = (if q_in_st > 0 then w_net_st / q_in_st * 100 else 0)
     in Inr \<lparr>steam_vars.T1 = T1, steam_vars.T3 = T3, h1 = h1, h2 = h2, h3 = h3, h4s = h4s,
              h4 = h4, s1 = s1, s2 = s2, s3 = s3, s4 = s4, w_pump = w_pump,
              w_turb_st = w_turb_st, q_in_st = q_in_st, w_net_st = w_net_st, eta = eta\<rparr>)))"

definition htc_steam_cycle :: "real \<Rightarrow> real \<Rightarrow> error + (states \<times> metrics)" where
  "htc_steam_cycle T_reactor P_reactor =
    and_then (htc_steam_vars T_reactor P_reactor) (\<lambda>v.
    Inr (\<lparr>T = [steam_vars.T1 v, steam_vars.T1 v + 2, steam_vars.T3 v, steam_vars.T1 v + 20],
          h = [py_round (h1 v) 1, py_round (h2 v) 1, py_round (h3 v) 1, py_round (h4 v) 1],
          s = [py_round (s1 v) 4, py_round (s2 v) 4, py_round (s3 v) 4, py_round (s4 v) 4],
          labels = [''1 '' @ en_dash @ '' Pump Inlet'', ''2 '' @ en_dash @ '' Pump Outlet'',
                    ''3 '' @ en_dash @ '' Boiler Outlet'', ''4 '' @ en_dash @ '' Turb Outlet'']\<rparr>,
         [''w_pump'' \<mapsto> py_round (w_pump v) 2,
          ''w_turb'' \<mapsto> py_round (w_turb_st v) 2,
          ''w_net'' \<mapsto> py_round (w_net_st v) 2,
          ''q_in'' \<mapsto> py_round (q_in_st v) 2,
          ''eta'' \<mapsto> py_round (eta v) 2]))"

section \<open>Anaerobic digestion and hydrothermal carbonisation estimators\<close>

text \<open>
  Both estimators are embedded in double arithmetic: every operation is rounded as Python
  rounds it, and every returned field is \<^verbatim>\<open>round(., 2)\<close> of a local variable. The
  arguments are doubles (a Python int below \<open>2 ^ 53\<close> is converted without error).
\<close>

text \<open>The local variables of \<^verbatim>\<open>ad_biogas_yield\<close>, before rounding to two decimals.\<close>

record ad_vars =
  dry_mass :: f64
  volatile_solids :: f64
  biogas_m3_h :: f64
  methane_m3_h :: f64
  biogas_energy :: f64

definition ad_biogas_vars :: "f64 \<Rightarrow> f64 \<Rightarrow> f64 \<Rightarrow> ad_vars" where
  "ad_biogas_vars feed_rate moisture_pct vs_fraction =
    (let dry_mass = f64_mul feed_rate (f64_sub (fin 1) (f64_divide moisture_pct (fin 100)));
         volatile_solids = f64_mul dry_mass vs_fraction;
         biogas_m3_h = f64_mul volatile_solids (fin 0.40);
         methane_m3_h = f64_mul biogas_m3_h (fin 0.60);
         biogas_energy = f64_mul biogas_m3_h (fin BIOGAS_LHV)
     in \<lparr>ad_vars.dry_mass = dry_mass, volatile_solids = volatile_solids,
         biogas_m3_h = biogas_m3_h, methane_m3_h = methane_m3_h,
         biogas_energy = biogas_energy\<rparr>)"

definition ad_biogas_yield :: "f64 \<Rightarrow> f64 \<Rightarrow> f64 \<Rightarrow> string \<rightharpoonup> f64" where
  "ad_biogas_yield feed_rate moisture_pct vs_fraction =
    (let v = ad_biogas_vars feed_rate moisture_pct vs_fraction in
     [''dry_mass'' \<mapsto> py_round_f64 (ad_vars.dry_mass v) 2,
      ''volatile_solids'' \<mapsto> py_round_f64 (volatile_solids v) 2,
      ''biogas_m3_h'' \<mapsto> py_round_f64 (biogas_m3_h v) 2,
      ''methane_m3_h'' \<mapsto> py_round_f64 (methane_m3_h v) 2,
      ''biogas_energy_MJ_h'' \<mapsto> py_round_f64 (biogas_energy v) 2])"

text \<open>The local variables of \<^verbatim>\<open>htc_process\<close>, before rounding to two decimals.\<close>

record htc_vars =
  dry_mass :: f64
  hydrochar_yield :: f64
  process_water :: f64
  hydrochar_energy :: f64
  energy_required :: f64

definition htc_process_vars :: "f64 \<Rightarrow> f64 \<Rightarrow> f64 \<Rightarrow> htc_vars" where
  "htc_process_vars feed_rate moisture_pct T_reactor =
    (let dry_mass = f64_mul feed_rate (f64_sub (fin 1) (f64_divide moisture_pct (fin 100)));
         hydrochar_yield = f64_mul dry_mass (fin 0.60);
         process_water = f64_sub feed_rate hydrochar_yield;
         hydrochar_energy = f64_mul hydrochar_yield (fin HYDROCHAR_HHV);
         energy_required =
           f64_divide (f64_mul (f64_mul feed_rate (fin CP_WATER)) (f64_sub T_reactor (fin 25)))
             (fin 1000)
     in \<lparr>htc_vars.dry_mass = dry_mass, hydrochar_yield = hydrochar_yield,
         process_water = process_water, hydrochar_energy = hydrochar_energy,
         energy_required = energy_required\<rparr>)"

definition htc_process :: "f64 \<Rightarrow> f64 \<Rightarrow> f64 \<Rightarrow> string \<rightharpoonup> f64" where
  "htc_process feed_rate moisture_pct T_reactor =
    (let v = htc_process_vars feed_rate moisture_pct T_reactor in
     [''dry_mass'' \<mapsto> py_round_f64 (htc_vars.dry_mass v) 2,
      ''hydrochar_kg_h'' \<mapsto> py_round_f64 (hydrochar_yield v) 2,
      ''process_water_kg_h'' \<mapsto> py_round_f64 (process_water v) 2,
      ''hydrochar_energy_MJ_h'' \<mapsto> py_round_f64 (hydrochar_energy v) 2,
      ''energy_required_MJ_h'' \<mapsto> py_round_f64 (energy_required v) 2])"

text \<open>
  Two predicates for the statements on the scaling of the feed rate. \<open>scales_within tol k q q'\<close>:
  the doubles \<open>q\<close> and \<open>q'\<close> are finite and \<open>q'\<close> is \<open>k\<close> times \<open>q\<close> up to \<open>tol\<close>.
  \<open>linear_within K f q r\<close>: the unrounded quantity \<open>q\<close> and the returned field \<open>r\<close> of a call
  with feed rate \<open>f\<close> are finite doubles that differ from \<open>f * K\<close> by a rounding error.
\<close>

definition scales_within :: "real \<Rightarrow> real \<Rightarrow> f64 \<Rightarrow> f64 \<Rightarrow> bool" where
  "scales_within tol k q q' \<longleftrightarrow> (\<exists>x x'. q = Finite x \<and> q' = Finite x' \<and> \<bar>x' - k * x\<bar> \<le> tol)"

definition linear_within :: "real \<Rightarrow> real \<Rightarrow> f64 \<Rightarrow> f64 option \<Rightarrow> bool" where
  "linear_within K f q r \<longleftrightarrow>
     (\<exists>x y. q = Finite x \<and> r = Some (Finite y) \<and>
        \<bar>x - f * K\<bar> \<le> 175 * (f64_u * \<bar>f\<bar>) + 177 * f64_eta \<and>
        \<bar>y - f * K\<bar> \<le> 1 / 200 + f64_u + 375 * (f64_u * \<bar>f\<bar>) + 355 * f64_eta)"

section \<open>Properties of the Python arithmetic\<close>

lemma and_then_Inr_iff: "and_then r f = Inr y \<longleftrightarrow> (\<exists>v. r = Inr v \<and> f v = Inr y)"
  by (cases r) (simp_all add: and_then_def)

lemma py_div_Inr_iff: "py_div a b = Inr y \<longleftrightarrow> b \<noteq> 0 \<and> y = a / b"
  by (auto simp: py_div_def)

lemma math_log_Inr_iff: "math_log x = Inr y \<longleftrightarrow> 0 < x \<and> y = ln x"
  by (auto simp: math_log_def)

lemma round_half_even_eqI:
  assumes "of_int n - 1 / 2 < x" and "x < of_int n + 1 / 2"
  shows "round_half_even x = n"
proof (cases "x < of_int n")
  case True
  then have f: "\<lfloor>x\<rfloor> = n - 1" using assms by (simp add: floor_eq_iff)
  show ?thesis using assms True by (simp add: round_half_even_def f Let_def)
next
  case False
  then have f: "\<lfloor>x\<rfloor> = n" using assms by (simp add: floor_eq_iff)
  show ?thesis using assms False by (simp add: round_half_even_def f Let_def)
qed

lemma round_half_even_nonneg: "0 \<le> x \<Longrightarrow> 0 \<le> round_half_even x"
  by (auto simp: round_half_even_def Let_def)


lemma py_round_nonneg: "0 \<le> x \<Longrightarrow> 0 \<le> py_round x n"
  by (simp add: py_round_def round_half_even_nonneg)

lemma py_round_eqI:
  assumes "of_int k - 1 / 2 < x * 10 ^ n" and "x * 10 ^ n < of_int k + 1 / 2"
  shows "py_round x n = of_int k / 10 ^ n"
  using round_half_even_eqI [OF assms] by (simp add: py_round_def)

text \<open>
  Bounds on the exponential from its Maclaurin polynomial of degree five, used to bound the
  one logarithm whose value is reported: \<open>ln ((45 + 273.15) / 273.15) = ln (707 / 607)\<close>.
\<close>

lemma exp_taylor6:
  fixes x :: real
  assumes "0 \<le> x" and "x \<le> 1"
  shows "1 + x + x^2 / 2 + x^3 / 6 + x^4 / 24 + x^5 / 120 \<le> exp x"
    and "exp x \<le> 1 + x + x^2 / 2 + x^3 / 6 + x^4 / 24 + x^5 / 120 + x^6 / 240"
proof -
  obtain t where t: "\<bar>t\<bar> \<le> \<bar>x\<bar>"
    and e: "exp x = (\<Sum>m<6. x ^ m / fact m) + exp t / fact 6 * x ^ 6"
    using Maclaurin_exp_le [of x 6] by blast
  have s6: "(\<Sum>m<6. x ^ m / fact m) = 1 + x + x^2 / 2 + x^3 / 6 + x^4 / 24 + x^5 / 120"
    by (simp add: eval_nat_numeral)
  have "t \<le> 1" using t assms by linarith
  then have "exp t \<le> exp 1" by simp
  then have et: "exp t \<le> 3" using exp_le by linarith
  have e0: "0 < exp t" by simp
  have x6: "0 \<le> x ^ 6" using assms by simp
  have f6: "fact 6 = (720::real)" by (simp add: eval_nat_numeral)
  have "0 \<le> exp t / fact 6 * x ^ 6" using e0 x6 by (simp add: f6)
  then show "1 + x + x^2 / 2 + x^3 / 6 + x^4 / 24 + x^5 / 120 \<le> exp x"
    unfolding e s6 by linarith
  have "exp t * x ^ 6 \<le> 3 * x ^ 6" using et x6 by (rule mult_right_mono)
  then have "exp t / fact 6 * x ^ 6 \<le> x ^ 6 / 240" by (simp add: f6)
  then show "exp x \<le> 1 + x + x^2 / 2 + x^3 / 6 + x^4 / 24 + x^5 / 120 + x^6 / 240"
    unfolding e s6 by linarith
qed

lemma ln_707_607:
  "61 / 400 < ln (707 / 607 :: real)" "ln (707 / 607 :: real) < 152503 / 1000000"
proof -
  have "exp (61 / 400 :: real) < 707 / 607"
    using exp_taylor6(2) [of "61 / 400"] by (simp add: power_divide)
  then have "ln (exp (61 / 400 :: real)) < ln (707 / 607)"
    by (subst ln_less_cancel_iff) simp_all
  then show "61 / 400 < ln (707 / 607 :: real)" by simp
  have "707 / 607 < exp (152503 / 1000000 :: real)"
    using exp_taylor6(1) [of "152503 / 1000000"] by (simp add: power_divide)
  then have "ln (707 / 607) < ln (exp (152503 / 1000000 :: real))"
    by (subst ln_less_cancel_iff) simp_all
  then show "ln (707 / 607 :: real) < 152503 / 1000000" by simp
qed

text \<open>
  The exponent \<open>(GAMMA_AIR - 1) / GAMMA_AIR\<close> is \<open>2 / 7\<close>, so the seventh power of
  \<open>10 ** ((GAMMA_AIR - 1) / GAMMA_AIR)\<close> is 100, which bounds it between rationals.
\<close>

lemma powr_10_bounds:
  "1930697 / 1000000 < (10::real) powr (2 / 7)" "(10::real) powr (2 / 7) < 1930698 / 1000000"
proof -
  define p :: real where "p = 10 powr (2 / 7)"
  have p0: "0 < p" by (simp add: p_def)
  have "p ^ 7 = p powr (real 7)" using p0 by (simp only: powr_realpow)
  also have "\<dots> = 10 powr 2" by (simp add: p_def powr_powr)
  also have "\<dots> = 100" by simp
  finally have p7: "p ^ 7 = 100" .
  have "(1930697 / 1000000 :: real) ^ 7 < p ^ 7" unfolding p7 by (simp add: power_divide)
  then show "1930697 / 1000000 < (10::real) powr (2 / 7)"
    unfolding p_def [symmetric] using p0 by (intro power_less_imp_less_base [of _ 7 p]) simp_all
  have "p ^ 7 < (1930698 / 1000000 :: real) ^ 7" unfolding p7 by (simp add: power_divide)
  then show "(10::real) powr (2 / 7) < 1930698 / 1000000"
    unfolding p_def [symmetric] by (rule power_less_imp_less_base) simp
qed

section \<open>Properties of the Brayton cycle\<close>



lemma brayton_cycle_InrD:
  assumes "brayton_cycle T1_C rp T3_C eta_c eta_t = Inr (st, m)"
  shows "\<exists>w ss. brayton_work T1_C rp T3_C eta_c eta_t = Inr w \<and> brayton_entropy w rp = Inr ss \<and>
           T st = [gas_work.T1 w - 273.15, T2 w - 273.15, gas_work.T3 w - 273.15, T4 w - 273.15] \<and>
           h st = brayton_enthalpy w \<and> s st = ss \<and>
           m ''w_comp'' = Some (py_round (w_comp w) 2) \<and>
           m ''w_turb'' = Some (py_round (w_turb w) 2) \<and>
           m ''w_net'' = Some (py_round (w_net w) 2) \<and>
           m ''q_in'' = Some (py_round (q_in w) 2) \<and>
           m ''q_out'' = Some (py_round (q_out w) 2) \<and>
           m ''eta_th'' = Some (py_round (eta_th w) 2) \<and>
           m ''bwr'' = Some (py_round (bwr w) 2)"
  using assms by (auto simp: brayton_cycle_def and_then_Inr_iff)

lemma brayton_entropy_InrD:
  assumes "brayton_entropy w rp = Inr ss"
  shows "\<exists>a b c. ss = [0, a, b, c]"
  using assms by (auto simp: brayton_entropy_def Let_def and_then_Inr_iff)

lemma brayton_entropy_Inr:
  assumes "0 < rp" and "0 < T2 w / gas_work.T1 w" and "0 < gas_work.T3 w / T2 w"
    and "0 < T4 w / gas_work.T3 w"
  shows "\<exists>ss. brayton_entropy w rp = Inr ss"
proof -
  from assms have "gas_work.T1 w \<noteq> 0" "T2 w \<noteq> 0" "gas_work.T3 w \<noteq> 0" by auto
  with assms show ?thesis
    by (simp add: brayton_entropy_def Let_def and_then_def py_div_def math_log_def)
qed

lemma brayton_cycle_Inr:
  assumes "brayton_work T1_C rp T3_C eta_c eta_t = Inr w" and "brayton_entropy w rp = Inr ss"
  shows "\<exists>st m. brayton_cycle T1_C rp T3_C eta_c eta_t = Inr (st, m)"
  using assms by (simp add: brayton_cycle_def and_then_def)



text \<open>
  A pressure ratio whose power is rational: \<open>128 = 2 ^ 7\<close>, and the exponent
  \<open>(GAMMA_AIR - 1) / GAMMA_AIR\<close> is \<open>2 / 7\<close>. The ideal cycle at 25 and 1200 degrees
  Celsius with this pressure ratio is used as a concrete run below.
\<close>

lemma powr_128: "(128::real) powr (2 / 7) = 4"
proof -
  have "(128::real) = 2 powr 7" by simp
  then have "(128::real) powr (2 / 7) = (2 powr 7) powr (2 / 7)" by simp
  also have "\<dots> = 2 powr 2" by (simp only: powr_powr) simp
  finally show ?thesis by simp
qed

lemma brayton_work_128:
  "brayton_work 25 128 1200 1 1 =
     Inr \<lparr>gas_work.T1 = 5963 / 20, gas_work.T3 = 29463 / 20, T2s = 5963 / 5,
          T2 = 5963 / 5, T4s = 29463 / 80, T4 = 29463 / 80,
          w_comp = 3595689 / 4000, w_turb = 17766189 / 16000,
          w_net = 3383433 / 16000, q_in = 1127811 / 4000,
          q_out = 1127811 / 16000, eta_th = 75, bwr = 2385200 / 29463\<rparr>"
  by (simp add: brayton_work_def Let_def and_then_def py_div_def GAMMA_AIR_def CP_AIR_def powr_128)

lemma brayton_cycle_128: "\<exists>st m. brayton_cycle 25 128 1200 1 1 = Inr (st, m)"
proof -
  have "\<exists>ss. brayton_entropy \<lparr>gas_work.T1 = 5963 / 20, gas_work.T3 = 29463 / 20, T2s = 5963 / 5,
          T2 = 5963 / 5, T4s = 29463 / 80, T4 = 29463 / 80,
          w_comp = 3595689 / 4000, w_turb = 17766189 / 16000,
          w_net = 3383433 / 16000, q_in = 1127811 / 4000,
          q_out = 1127811 / 16000, eta_th = 75, bwr = 2385200 / 29463\<rparr> 128 = Inr ss"
    by (rule brayton_entropy_Inr) simp_all
  then show ?thesis using brayton_work_128 brayton_cycle_Inr by blast
qed

text \<open>
  The run \<^verbatim>\<open>brayton_cycle(25, 10, 1200, 0.85, 0.90)\<close>. The power
  \<open>10 ** ((GAMMA_AIR - 1) / GAMMA_AIR)\<close> is irrational; its bounds place every
  metric strictly between two rounding ties.
\<close>

lemma brayton_scenario_values:
  "\<exists>w. brayton_work 25 10 1200 0.85 0.90 = Inr w \<and>
     0 < gas_work.T1 w \<and> 0 < T2 w \<and> 0 < gas_work.T3 w \<and> 0 < T4 w \<and>
     py_round (w_comp w) 2 = 32809 / 100 \<and>
     py_round (w_net w) 2 = 31423 / 100 \<and>
     py_round (eta_th w) 2 = 3685 / 100"
proof -
  define p :: real where "p = 10 powr (2 / 7)"
  have pl: "1930697 / 1000000 < p" and pu: "p < 1930698 / 1000000"
    unfolding p_def by (rule powr_10_bounds)+
  have p0: "0 < p" using pl by linarith
  define a :: real where "a = (29463 / 20) / p"
  have "76301420 / 100000 * p < 76301420 / 100000 * (1930698 / 1000000)"
    using pu by (intro mult_strict_left_mono) simp_all
  then have "76301420 / 100000 * p < 29463 / 20" by simp
  then have al: "76301420 / 100000 < a" unfolding a_def using p0 by (simp add: pos_less_divide_eq)
  have "76301461 / 100000 * (1930697 / 1000000) < 76301461 / 100000 * p"
    using pl by (intro mult_strict_left_mono) simp_all
  then have "29463 / 20 < 76301461 / 100000 * p" by simp
  then have au: "a < 76301461 / 100000" unfolding a_def using p0 by (simp add: pos_divide_less_eq)
  define w where "w = \<lparr>gas_work.T1 = 5963 / 20, gas_work.T3 = 29463 / 20,
      T2s = 5963 / 20 * p,
      T2 = 5963 / 20 + (5963 / 20 * p - 5963 / 20) / (85 / 100),
      T4s = a,
      T4 = 29463 / 20 - (29463 / 20 - a) * (9 / 10),
      w_comp = 1005 / 1000 * ((5963 / 20 * p - 5963 / 20) / (85 / 100)),
      w_turb = 1005 / 1000 * ((29463 / 20 - a) * (9 / 10)),
      w_net = 1005 / 1000 * ((29463 / 20 - a) * (9 / 10)) -
        1005 / 1000 * ((5963 / 20 * p - 5963 / 20) / (85 / 100)),
      q_in = 1005 / 1000 * (29463 / 20 - (5963 / 20 + (5963 / 20 * p - 5963 / 20) / (85 / 100))),
      q_out = 1005 / 1000 * (29463 / 20 - (29463 / 20 - a) * (9 / 10) - 5963 / 20),
      eta_th = (1005 / 1000 * ((29463 / 20 - a) * (9 / 10)) -
        1005 / 1000 * ((5963 / 20 * p - 5963 / 20) / (85 / 100))) /
        (1005 / 1000 * (29463 / 20 - (5963 / 20 + (5963 / 20 * p - 5963 / 20) / (85 / 100)))) * 100,
      bwr = 1005 / 1000 * ((5963 / 20 * p - 5963 / 20) / (85 / 100)) /
        (1005 / 1000 * ((29463 / 20 - a) * (9 / 10))) * 100\<rparr>"
  have qpos: "0 < 1005 / 1000 * (29463 / 20 - (5963 / 20 + (5963 / 20 * p - 5963 / 20) / (85 / 100)))"
    using pu by simp
  have tpos: "0 < 1005 / 1000 * ((29463 / 20 - a) * (9 / 10))"
    using au by simp
  have pe: "10 powr ((GAMMA_AIR - 1) / GAMMA_AIR) = p"
    by (simp add: p_def GAMMA_AIR_def)
  have bw: "brayton_work 25 10 1200 0.85 0.90 = Inr w"
    unfolding brayton_work_def Let_def and_then_def py_div_def pe CP_AIR_def w_def
    using qpos tpos p0 by (simp add: a_def)
  have wc: "py_round (w_comp w) 2 = 32809 / 100"
  proof -
    have "of_int 32809 - 1 / 2 < w_comp w * 10 ^ 2" and "w_comp w * 10 ^ 2 < of_int 32809 + 1 / 2"
      using pl pu by (simp_all add: w_def)
    then show ?thesis using py_round_eqI [of 32809 "w_comp w" 2] by simp
  qed
  have wn: "py_round (w_net w) 2 = 31423 / 100"
  proof -
    have "of_int 31423 - 1 / 2 < w_net w * 10 ^ 2"
      using pl pu al au by (simp add: w_def; argo)
    moreover have "w_net w * 10 ^ 2 < of_int 31423 + 1 / 2"
      using pl pu al au by (simp add: w_def; argo)
    ultimately show ?thesis using py_round_eqI [of 31423 "w_net w" 2] by simp
  qed
  have et: "py_round (eta_th w) 2 = 3685 / 100"
  proof -
    define n where "n = w_net w"
    define d where "d = q_in w"
    have d0: "0 < d" unfolding d_def using qpos by (simp add: w_def)
    have e: "eta_th w = n / d * 100" by (simp add: n_def d_def w_def)
    have "(of_int 3685 - 1 / 2) * d < n * 100 * 10 ^ 2"
      using pl pu al au by (simp add: n_def d_def w_def; argo)
    moreover have "n * 100 * 10 ^ 2 < (of_int 3685 + 1 / 2) * d"
      using pl pu al au by (simp add: n_def d_def w_def; argo)
    ultimately have "of_int 3685 - 1 / 2 < eta_th w * 10 ^ 2"
      and "eta_th w * 10 ^ 2 < of_int 3685 + 1 / 2"
      unfolding e using d0 by (simp_all add: field_simps)
    then show ?thesis using py_round_eqI [of 3685 "eta_th w" 2] by simp
  qed
  have "0 < gas_work.T1 w" and "0 < gas_work.T3 w" by (simp_all add: w_def)
  moreover have "0 < T2 w" using pl by (simp add: w_def; argo)
  moreover have "0 < T4 w" using al by (simp add: w_def; argo)
  ultimately show ?thesis using bw wc wn et by blast
qed

lemma brayton_cycle_scenario:
  "\<exists>st m. brayton_cycle 25 10 1200 0.85 0.90 = Inr (st, m) \<and>
     m ''w_comp'' = Some (32809 / 100) \<and> m ''w_net'' = Some (31423 / 100) \<and>
     m ''eta_th'' = Some (3685 / 100)"
proof -
  from brayton_scenario_values obtain w
    where w: "brayton_work 25 10 1200 0.85 0.90 = Inr w"
      and pos: "0 < gas_work.T1 w" "0 < T2 w" "0 < gas_work.T3 w" "0 < T4 w"
      and r: "py_round (w_comp w) 2 = 32809 / 100" "py_round (w_net w) 2 = 31423 / 100"
        "py_round (eta_th w) 2 = 3685 / 100"
    by blast
  have "\<exists>ss. brayton_entropy w 10 = Inr ss"
    using pos by (intro brayton_entropy_Inr) simp_all
  then obtain ss where ss: "brayton_entropy w 10 = Inr ss" ..
  show ?thesis
    unfolding brayton_cycle_def w using ss r by (simp add: and_then_def)
qed

text \<open>
  Claim C3, as amended. \<^verbatim>\<open>brayton_cycle(25, 10, 1200, 0.85, 0.90)\<close> returns, with
  compressor work \<^verbatim>\<open>w_comp\<close> 328.09 kJ/kg, a strictly positive net work \<^verbatim>\<open>w_net\<close>
  (314.23) and a thermal efficiency \<^verbatim>\<open>eta_th\<close> strictly between 0 and 60 (36.85).
\<close>

theorem brayton_scenario:
  "\<exists>st m. brayton_cycle 25 10 1200 0.85 0.90 = Inr (st, m) \<and>
     m ''w_comp'' = Some (32809 / 100) \<and>
     m ''w_net'' = Some (31423 / 100) \<and> (0 :: real) < 31423 / 100 \<and>
     m ''eta_th'' = Some (3685 / 100) \<and> (0 :: real) < 3685 / 100 \<and> (3685 / 100 :: real) < 60"
proof -
  obtain st m where "brayton_cycle 25 10 1200 0.85 0.90 = Inr (st, m)"
    and "m ''w_comp'' = Some (32809 / 100)" and "m ''w_net'' = Some (31423 / 100)"
    and "m ''eta_th'' = Some (3685 / 100)"
    using brayton_cycle_scenario by blast
  then show ?thesis by simp
qed

text \<open>
  The compressor work of that run is not approximately 307.83: the returned value is
  328.09, more than 20 kJ/kg away.
\<close>

theorem brayton_scenario_counterexample:
  "\<not> isl (brayton_cycle 25 10 1200 0.85 0.90) \<and>
   snd (projr (brayton_cycle 25 10 1200 0.85 0.90)) ''w_comp'' = Some (32809 / 100) \<and>
   (20 :: real) < \<bar>32809 / 100 - 30783 / 100\<bar>"
proof -
  obtain st m where "brayton_cycle 25 10 1200 0.85 0.90 = Inr (st, m)"
    and "m ''w_comp'' = Some (32809 / 100)"
    using brayton_cycle_scenario by blast
  then show ?thesis by simp
qed

section \<open>Properties of the HTC steam cycle\<close>

lemma htc_steam_vars_InrD:
  assumes "htc_steam_vars T_reactor P_reactor = Inr v"
  shows "T_reactor + 50 + 273.15 \<noteq> 0"
    and "h1 v = CP_WATER * 45"
    and "s1 v = CP_WATER * ln ((45 + 273.15) / 273.15)"
  using assms
  by (auto simp: htc_steam_vars_def Let_def and_then_Inr_iff py_div_Inr_iff math_log_Inr_iff)


lemma htc_steam_cycle_InrD:
  assumes "htc_steam_cycle T_reactor P_reactor = Inr (st, m)"
  shows "\<exists>v. htc_steam_vars T_reactor P_reactor = Inr v \<and>
           T st = [steam_vars.T1 v, steam_vars.T1 v + 2, steam_vars.T3 v, steam_vars.T1 v + 20] \<and>
           h st = [py_round (h1 v) 1, py_round (h2 v) 1, py_round (h3 v) 1, py_round (h4 v) 1] \<and>
           s st = [py_round (s1 v) 4, py_round (s2 v) 4, py_round (s3 v) 4, py_round (s4 v) 4] \<and>
           m ''w_pump'' = Some (py_round (w_pump v) 2) \<and>
           m ''w_turb'' = Some (py_round (w_turb_st v) 2) \<and>
           m ''w_net'' = Some (py_round (w_net_st v) 2) \<and>
           m ''q_in'' = Some (py_round (q_in_st v) 2) \<and>
           m ''eta'' = Some (py_round (eta v) 2)"
  using assms by (auto simp: htc_steam_cycle_def and_then_Inr_iff)


text \<open>State point 1 does not depend on the arguments.\<close>

lemma htc_state1_enthalpy: "py_round (CP_WATER * 45) 1 = 1884 / 10"
  using py_round_eqI [of 1884 "CP_WATER * 45" 1] by (simp add: CP_WATER_def)

lemma htc_state1_entropy: "py_round (CP_WATER * ln ((45 + 273.15) / 273.15)) 4 = 6384 / 10000"
proof -
  have "of_int 6384 - 1 / 2 < CP_WATER * ln ((45 + 273.15) / 273.15) * 10 ^ 4"
    and "CP_WATER * ln ((45 + 273.15) / 273.15) * 10 ^ 4 < of_int 6384 + 1 / 2"
    using ln_707_607 by (simp_all add: CP_WATER_def)
  then show ?thesis using py_round_eqI [of 6384 _ 4] by simp
qed

text \<open>The run \<^verbatim>\<open>htc_steam_cycle(T_reactor=200, P_reactor=20)\<close>.\<close>

lemma htc_steam_vars_200_20:
  "htc_steam_vars 200 20 =
     Inr \<lparr>steam_vars.T1 = 45, steam_vars.T3 = 250, h1 = 18837 / 100, h2 = 4759 / 25,
          h3 = 29771 / 10, h4s = 217453 / 100, h4 = 4589831 / 2000,
          s1 = CP_WATER * ln ((45 + 273.15) / 273.15),
          s2 = CP_WATER * ln ((45 + 273.15) / 273.15),
          s3 = CP_WATER * ln ((45 + 273.15) / 273.15) + 278674 / 52315,
          s4 = CP_WATER * ln ((45 + 273.15) / 273.15) + 278674 / 52315 + 3 / 20,
          w_pump = 199 / 100, w_turb_st = 1364369 / 2000, q_in_st = 139337 / 50,
          w_net_st = 1360389 / 2000, eta = 6801945 / 278674\<rparr>"
  by (simp add: htc_steam_vars_def Let_def and_then_def py_div_def math_log_def
      CP_WATER_def HFG_WATER_def CP_STEAM_def)

lemma htc_eta_200_20: "py_round (6801945 / 278674) 2 = 2441 / 100"
  using py_round_eqI [of 2441 "6801945 / 278674" 2] by simp

lemma htc_steam_cycle_200_20:
  "\<exists>st m. htc_steam_cycle 200 20 = Inr (st, m) \<and> h st ! 0 = 1884 / 10 \<and>
     s st ! 0 = 6384 / 10000 \<and> m ''eta'' = Some (2441 / 100)"
  using htc_state1_enthalpy htc_state1_entropy htc_eta_200_20
  by (simp add: htc_steam_cycle_def htc_steam_vars_200_20 and_then_def CP_WATER_def)

text \<open>
  Claim C2, as amended. \<^verbatim>\<open>htc_steam_cycle(T_reactor=200, P_reactor=20)\<close> returns. It
  computes \<open>h1 = 188.37\<close> and reports it, rounded to one decimal, as 188.4. Its state-1
  entropy is \<open>CP_WATER * ln ((45 + 273.15) / 273.15)\<close>, reported as 0.6384. The reported
  efficiency \<^verbatim>\<open>eta\<close> is 24.41, strictly between 0 and 100.
\<close>

theorem htc_scenario:
  "\<exists>v st m. htc_steam_vars 200 20 = Inr v \<and> htc_steam_cycle 200 20 = Inr (st, m) \<and>
     h1 v = 18837 / 100 \<and> h st ! 0 = 1884 / 10 \<and>
     s1 v = CP_WATER * ln ((45 + 273.15) / 273.15) \<and> s st ! 0 = 6384 / 10000 \<and>
     m ''eta'' = Some (2441 / 100) \<and> (0 :: real) < 2441 / 100 \<and> (2441 / 100 :: real) < 100"
  using htc_steam_cycle_200_20 by (auto simp: htc_steam_vars_200_20)

text \<open>
  The reported state-1 entropy of that run is 0.6384 and not 0.2975, and the reported
  state-1 enthalpy is 188.4 and not 188.37.
\<close>

theorem htc_scenario_counterexample:
  "\<not> isl (htc_steam_cycle 200 20) \<and>
   s (fst (projr (htc_steam_cycle 200 20))) ! 0 = 6384 / 10000 \<and>
   h (fst (projr (htc_steam_cycle 200 20))) ! 0 = 1884 / 10 \<and>
   (6384 / 10000 :: real) \<noteq> 2975 / 10000 \<and> (1884 / 10 :: real) \<noteq> 18837 / 100"
proof -
  obtain st m where "htc_steam_cycle 200 20 = Inr (st, m)" and "h st ! 0 = 1884 / 10"
    and "s st ! 0 = 6384 / 10000"
    using htc_steam_cycle_200_20 by blast
  then show ?thesis by simp
qed

section \<open>Properties of both cycle solvers\<close>

text \<open>
  Claim C1, as amended. In every state set that \<^verbatim>\<open>brayton_cycle\<close> returns, the enthalpy
  and the entropy at state point 1 are exactly 0. In every state set that
  \<^verbatim>\<open>htc_steam_cycle\<close> returns they are not 0 but the constants 188.4 and 0.6384, the
  roundings of \<open>CP_WATER * 45\<close> and of \<open>CP_WATER * ln ((45 + 273.15) / 273.15)\<close>, whatever
  the reactor temperature and pressure.
\<close>

theorem reference_point:
  "(\<forall>st m. brayton_cycle T1_C rp T3_C eta_c eta_t = Inr (st, m) \<longrightarrow>
      h st ! 0 = 0 \<and> s st ! 0 = 0) \<and>
   (\<forall>st m. htc_steam_cycle T_reactor P_reactor = Inr (st, m) \<longrightarrow>
      h st ! 0 = 1884 / 10 \<and> s st ! 0 = 6384 / 10000)"
proof (intro conjI allI impI)
  fix st m
  assume "brayton_cycle T1_C rp T3_C eta_c eta_t = Inr (st, m)"
  from brayton_cycle_InrD [OF this] obtain w ss
    where ss: "brayton_entropy w rp = Inr ss" and hs: "h st = brayton_enthalpy w" and "s st = ss"
    by blast
  from brayton_entropy_InrD [OF ss] \<open>s st = ss\<close> show "s st ! 0 = 0" by auto
  from hs show "h st ! 0 = 0" by (simp add: brayton_enthalpy_def)
next
  fix st m
  assume "htc_steam_cycle T_reactor P_reactor = Inr (st, m)"
  from htc_steam_cycle_InrD [OF this] obtain v
    where v: "htc_steam_vars T_reactor P_reactor = Inr v"
      and hs: "h st = [py_round (h1 v) 1, py_round (h2 v) 1, py_round (h3 v) 1, py_round (h4 v) 1]"
      and ss: "s st = [py_round (s1 v) 4, py_round (s2 v) 4, py_round (s3 v) 4, py_round (s4 v) 4]"
    by blast
  from hs show "h st ! 0 = 1884 / 10"
    by (simp only: htc_steam_vars_InrD(2) [OF v] htc_state1_enthalpy nth_Cons_0)
  from ss show "s st ! 0 = 6384 / 10000"
    by (simp only: htc_steam_vars_InrD(3) [OF v] htc_state1_entropy nth_Cons_0)
qed

theorem reference_point_witness:
  "\<exists>st m st' m'. brayton_cycle 25 128 1200 1 1 = Inr (st, m) \<and> h st ! 0 = 0 \<and> s st ! 0 = 0 \<and>
     htc_steam_cycle 200 20 = Inr (st', m') \<and> h st' ! 0 = 1884 / 10 \<and> s st' ! 0 = 6384 / 10000"
  using brayton_cycle_128 htc_steam_cycle_200_20 reference_point [of 25 128 1200 1 1 200 20]
  by blast

text \<open>
  The state set of \<^verbatim>\<open>htc_steam_cycle(200, 20)\<close> has neither enthalpy nor entropy 0 at
  state point 1.
\<close>

theorem reference_point_counterexample:
  "\<not> isl (htc_steam_cycle 200 20) \<and>
   h (fst (projr (htc_steam_cycle 200 20))) ! 0 \<noteq> 0 \<and>
   s (fst (projr (htc_steam_cycle 200 20))) ! 0 \<noteq> 0"
proof -
  obtain st m where "htc_steam_cycle 200 20 = Inr (st, m)" and "h st ! 0 = 1884 / 10"
    and "s st ! 0 = 6384 / 10000"
    using htc_steam_cycle_200_20 by blast
  then show ?thesis by simp
qed










section \<open>Properties of the double arithmetic\<close>

lemma round_half_even_bounds: "\<bar>of_int (round_half_even x) - x\<bar> \<le> 1 / 2"
  unfolding round_half_even_def Let_def by (auto; linarith)

lemma f64_exponent_eqI:
  assumes "2 powr of_int e \<le> \<bar>x\<bar>" and "\<bar>x\<bar> < 2 powr of_int (e + 1)" and "- 1022 \<le> e"
  shows "f64_exponent x = e"
proof -
  have x0: "0 < \<bar>x\<bar>" using assms(1) by (smt (verit) powr_gt_zero)
  have "of_int e \<le> log 2 \<bar>x\<bar>" using assms(1) x0 by (simp add: le_log_iff)
  moreover have "log 2 \<bar>x\<bar> < of_int (e + 1)" using assms(2) x0 by (simp add: log_less_iff)
  ultimately have "\<lfloor>log 2 \<bar>x\<bar>\<rfloor> = e" by (simp add: floor_eq_iff)
  then show ?thesis using assms(3) by (simp add: f64_exponent_def)
qed

lemma nearest_eqI:
  assumes "2 powr of_int e \<le> \<bar>x\<bar>" and "\<bar>x\<bar> < 2 powr of_int (e + 1)" and "- 1022 \<le> e"
    and "of_int k - 1 / 2 < x / 2 powr of_int (e - 52)"
    and "x / 2 powr of_int (e - 52) < of_int k + 1 / 2"
    and "y = of_int k * 2 powr of_int (e - 52)"
  shows "nearest x = y"
proof -
  have x0: "x \<noteq> 0" using assms(1) by (smt (verit) powr_gt_zero)
  have e: "f64_exponent x = e" using assms(1-3) by (rule f64_exponent_eqI)
  have "round_half_even (x / 2 powr of_int (e - 52)) = k"
    using assms(4,5) by (rule round_half_even_eqI)
  then show ?thesis using x0 by (simp add: nearest_def f64_ulp_def e assms(6))
qed

lemma f64_ulp_pos: "0 < f64_ulp x"
  by (simp add: f64_ulp_def)

lemma nearest_error_ulp: "\<bar>nearest x - x\<bar> \<le> f64_ulp x / 2"
proof (cases "x = 0")
  case True
  then show ?thesis using f64_ulp_pos [of x] by (simp add: nearest_def)
next
  case False
  define z where "z = x / f64_ulp x"
  have x: "x = z * f64_ulp x" using f64_ulp_pos [of x] by (simp add: z_def)
  have "nearest x - x = (of_int (round_half_even z) - z) * f64_ulp x"
    using False by (simp add: nearest_def z_def [symmetric] algebra_simps) (subst x, simp)
  then have "\<bar>nearest x - x\<bar> = \<bar>of_int (round_half_even z) - z\<bar> * f64_ulp x"
    using f64_ulp_pos [of x] by (simp add: abs_mult)
  also have "\<dots> \<le> 1 / 2 * f64_ulp x"
    using round_half_even_bounds [of z] f64_ulp_pos [of x] by (intro mult_right_mono) simp_all
  finally show ?thesis by simp
qed

lemma f64_ulp_le:
  assumes x0: "x \<noteq> 0"
  shows "f64_ulp x / 2 \<le> \<bar>x\<bar> / 2 ^ 53 + 1 / 2 ^ 1075"
proof (cases "\<lfloor>log 2 \<bar>x\<bar>\<rfloor> \<le> - 1022")
  case True
  then have "f64_exponent x = - 1022" by (simp add: f64_exponent_def)
  then have "f64_ulp x = 2 powr (- 1074)" by (simp add: f64_ulp_def)
  also have "\<dots> = 1 / 2 ^ 1074" by (simp add: powr_minus divide_simps)
  finally have "f64_ulp x / 2 = 1 / 2 ^ 1075" by simp
  then show ?thesis by simp
next
  case False
  then have e: "f64_exponent x = \<lfloor>log 2 \<bar>x\<bar>\<rfloor>" by (simp add: f64_exponent_def)
  have "2 powr of_int \<lfloor>log 2 \<bar>x\<bar>\<rfloor> \<le> 2 powr (log 2 \<bar>x\<bar>)"
    by (intro powr_mono) simp_all
  also have "\<dots> = \<bar>x\<bar>" using x0 by simp
  finally have le: "2 powr of_int \<lfloor>log 2 \<bar>x\<bar>\<rfloor> \<le> \<bar>x\<bar>" .
  have "f64_ulp x = 2 powr of_int \<lfloor>log 2 \<bar>x\<bar>\<rfloor> * 2 powr (- 52)"
    by (simp add: f64_ulp_def e powr_diff powr_minus divide_simps)
  also have "\<dots> \<le> \<bar>x\<bar> * 2 powr (- 52)" using le by (intro mult_right_mono) simp_all
  also have "\<dots> = \<bar>x\<bar> / 2 ^ 52" by (simp add: powr_minus divide_simps)
  finally have "f64_ulp x / 2 \<le> \<bar>x\<bar> / 2 ^ 53" by simp
  then show ?thesis by (smt (verit) divide_nonneg_nonneg zero_le_numeral zero_le_power)
qed

text \<open>
  The standard error bound of rounding to nearest.
\<close>

lemma nearest_error: "\<bar>nearest x - x\<bar> \<le> f64_u * \<bar>x\<bar> + f64_eta"
proof (cases "x = 0")
  case True
  then show ?thesis by (simp add: nearest_def f64_eta_def)
next
  case False
  then show ?thesis using nearest_error_ulp [of x] f64_ulp_le [of x]
    unfolding f64_u_def f64_eta_def by (simp add: field_simps)
qed

lemma f64_u_pos: "0 < f64_u"
  by (simp add: f64_u_def)

lemma f64_u_small: "f64_u \<le> 1 / 2 ^ 53"
  by (simp add: f64_u_def)

lemma f64_eta_pos: "0 < f64_eta"
  by (simp add: f64_eta_def)

lemma f64_eta_le_u: "f64_eta \<le> f64_u"
  unfolding f64_u_def f64_eta_def by (intro divide_left_mono power_increasing) simp_all

lemma round_half_even_le: "x \<le> of_int k \<Longrightarrow> round_half_even x \<le> k"
  unfolding round_half_even_def Let_def by (auto simp: floor_le_iff le_floor_iff; linarith)

lemma round_half_even_ge: "of_int k \<le> x \<Longrightarrow> k \<le> round_half_even x"
  unfolding round_half_even_def Let_def by (auto simp: floor_le_iff le_floor_iff; linarith)

lemma nearest_nonneg: "0 \<le> x \<Longrightarrow> 0 \<le> nearest x"
  using round_half_even_ge [of 0 "x / f64_ulp x"] f64_ulp_pos [of x] by (simp add: nearest_def)

lemma f64_exponent_mono: "0 < x \<Longrightarrow> x \<le> y \<Longrightarrow> f64_exponent x \<le> f64_exponent y"
  unfolding f64_exponent_def by (intro max.mono floor_mono) simp_all

lemma nearest_le_representable:
  assumes "0 \<le> x" and "x \<le> y" and "nearest y = y"
  shows "nearest x \<le> y"
proof (cases "x = 0")
  case True
  then show ?thesis using assms by (simp add: nearest_def)
next
  case False
  then have x0: "0 < x" and y0: "y \<noteq> 0" using assms by auto
  define n where "n = nat (f64_exponent y - f64_exponent x)"
  have le: "f64_exponent x \<le> f64_exponent y" using x0 assms(2) by (rule f64_exponent_mono)
  then have "of_int (f64_exponent y - 52) = of_int (f64_exponent x - 52) + real n"
    by (simp add: n_def)
  then have "f64_ulp y = f64_ulp x * 2 powr real n"
    unfolding f64_ulp_def by (simp add: powr_add [symmetric] algebra_simps)
  also have "\<dots> = f64_ulp x * 2 ^ n" by (simp add: powr_realpow)
  finally have u: "f64_ulp y = f64_ulp x * 2 ^ n" .
  define m where "m = round_half_even (y / f64_ulp y)"
  define k where "k = m * 2 ^ n"
  have "y = of_int m * f64_ulp y"
    using assms(3) y0 by (simp add: nearest_def m_def)
  then have "y = of_int m * (f64_ulp x * 2 ^ n)" by (simp only: u)
  then have y: "y = of_int k * f64_ulp x" by (simp add: k_def)
  have "x / f64_ulp x \<le> of_int k"
    using assms(2) f64_ulp_pos [of x] by (subst (asm) y) (simp add: field_simps)
  then have "round_half_even (x / f64_ulp x) \<le> k" by (rule round_half_even_le)
  then have "of_int (round_half_even (x / f64_ulp x)) * f64_ulp x \<le> of_int k * f64_ulp x"
    using f64_ulp_pos [of x] by (intro mult_right_mono) simp_all
  then show ?thesis using False y by (simp add: nearest_def)
qed

lemma fin_Finite: "\<bar>nearest x\<bar> < 2 ^ 1024 \<Longrightarrow> fin x = Finite (nearest x)"
  by (simp add: fin_def)

lemma nearest_1: "nearest 1 = 1"
  by (rule nearest_eqI [where e = 0 and k = "2 ^ 52"]) (simp_all add: powr_minus)

lemma nearest_100: "nearest 100 = 100"
  by (rule nearest_eqI [where e = 6 and k = "100 * 2 ^ 46"]) (simp_all add: powr_minus)

lemma fin_1: "fin 1 = Finite 1"
  by (simp add: fin_def nearest_1)

lemma fin_100: "fin 100 = Finite 100"
  by (simp add: fin_def nearest_100)

lemma nearest_unit_interval:
  assumes "0 \<le> x" and "x \<le> 1"
  shows "0 \<le> nearest x" and "nearest x \<le> 1" and "fin x = Finite (nearest x)"
proof -
  show 1: "0 \<le> nearest x" using assms(1) by (rule nearest_nonneg)
  show 2: "nearest x \<le> 1" using assms nearest_1 by (rule nearest_le_representable)
  have "\<bar>nearest x\<bar> \<le> 1" using 1 2 by simp
  also have "(1::real) < 2 ^ 1024" by simp
  finally show "fin x = Finite (nearest x)" by (rule fin_Finite)
qed

lemma round_half_even_tie:
  assumes "x = of_int f + 1 / 2"
  shows "round_half_even x = (if even f then f else f + 1)"
proof -
  have "\<lfloor>x\<rfloor> = f" unfolding assms by (simp add: floor_eq_iff)
  then show ?thesis unfolding round_half_even_def Let_def by (simp add: assms)
qed

lemma nearest_tie_eqI:
  assumes "2 powr of_int e \<le> \<bar>x\<bar>" and "\<bar>x\<bar> < 2 powr of_int (e + 1)" and "- 1022 \<le> e"
    and "x / 2 powr of_int (e - 52) = of_int f + 1 / 2"
    and "y = of_int (if even f then f else f + 1) * 2 powr of_int (e - 52)"
  shows "nearest x = y"
proof -
  have x0: "x \<noteq> 0" using assms(1) by (smt (verit) powr_gt_zero)
  have e: "f64_exponent x = e" using assms(1-3) by (rule f64_exponent_eqI)
  have "round_half_even (x / 2 powr of_int (e - 52)) = (if even f then f else f + 1)"
    using assms(4) by (rule round_half_even_tie)
  then show ?thesis using x0 by (simp add: nearest_def f64_ulp_def e assms(5))
qed

text \<open>
  Evaluation of \<open>fin\<close> at a rational number: the exponent \<open>e\<close> and the integer
  significand \<open>k\<close> of the result are given, and checked by the simplifier.
\<close>

lemma fin_eqI:
  assumes "2 powr of_int e \<le> \<bar>x\<bar>" and "\<bar>x\<bar> < 2 powr of_int (e + 1)" and "- 1022 \<le> e"
    and "of_int k - 1 / 2 < x / 2 powr of_int (e - 52)"
    and "x / 2 powr of_int (e - 52) < of_int k + 1 / 2"
    and "y = of_int k * 2 powr of_int (e - 52)"
    and "\<bar>y\<bar> < 2 ^ 1024"
  shows "fin x = Finite y"
  using nearest_eqI [OF assms(1-6)] assms(7) by (simp add: fin_def)

lemma fin_tie_eqI:
  assumes "2 powr of_int e \<le> \<bar>x\<bar>" and "\<bar>x\<bar> < 2 powr of_int (e + 1)" and "- 1022 \<le> e"
    and "x / 2 powr of_int (e - 52) = of_int f + 1 / 2"
    and "y = of_int (if even f then f else f + 1) * 2 powr of_int (e - 52)"
    and "\<bar>y\<bar> < 2 ^ 1024"
  shows "fin x = Finite y"
  using nearest_tie_eqI [OF assms(1-5)] assms(6) by (simp add: fin_def)

lemma f64_add_FiniteD:
  assumes "f64_add a b = Finite z"
  shows "\<exists>x y. a = Finite x \<and> b = Finite y \<and> z = nearest (x + y)"
  using assms by (cases a; cases b) (auto simp: fin_def split: if_splits)

lemma f64_sub_FiniteD:
  assumes "f64_sub a b = Finite z"
  shows "\<exists>x y. a = Finite x \<and> b = Finite y \<and> z = nearest (x - y)"
proof -
  from f64_add_FiniteD [OF assms [unfolded f64_sub_def]]
  obtain x y where "a = Finite x" "f64_neg b = Finite y" "z = nearest (x + y)" by blast
  then show ?thesis by (cases b) auto
qed

lemma f64_mul_FiniteD:
  assumes "f64_mul a b = Finite z"
  shows "\<exists>x y. a = Finite x \<and> b = Finite y \<and> z = nearest (x * y)"
  using assms by (cases a; cases b) (auto simp: fin_def split: if_splits)

lemma f64_divide_FiniteD:
  assumes "f64_divide (Finite x) (Finite y) = Finite z"
  shows "z = nearest (x / y)"
  using assms by (auto simp: fin_def split: if_splits)

text \<open>
  The rounding error of \<open>c * (a - b)\<close> computed in two operations.
\<close>

lemma sub_mul_error:
  "\<bar>nearest (c * nearest (a - b)) - c * (a - b)\<bar>
     \<le> 3 * f64_u * \<bar>c\<bar> * (\<bar>a\<bar> + \<bar>b\<bar>) + (2 * \<bar>c\<bar> + 1) * f64_eta"
proof -
  define d where "d = nearest (a - b)"
  define s where "s = \<bar>a\<bar> + \<bar>b\<bar>"
  have s0: "0 \<le> s" by (simp add: s_def)
  have u1: "f64_u \<le> 1" using f64_u_small by (smt (verit) divide_le_eq_1_pos zero_less_power one_le_power)
  have "\<bar>d - (a - b)\<bar> \<le> f64_u * \<bar>a - b\<bar> + f64_eta" unfolding d_def by (rule nearest_error)
  moreover have "f64_u * \<bar>a - b\<bar> \<le> f64_u * s"
    using f64_u_pos by (intro mult_left_mono) (simp_all add: s_def)
  ultimately have e1: "\<bar>d - (a - b)\<bar> \<le> f64_u * s + f64_eta" by linarith
  have "\<bar>a - b\<bar> \<le> s" by (simp add: s_def)
  then have dm: "\<bar>d\<bar> \<le> s + f64_u * s + f64_eta" using e1 by linarith
  have e2: "\<bar>nearest (c * d) - c * d\<bar> \<le> f64_u * \<bar>c * d\<bar> + f64_eta" by (rule nearest_error)
  have "f64_u * s \<le> 1 * s" using u1 s0 by (intro mult_right_mono)
  then have dm2: "\<bar>d\<bar> \<le> 2 * s + f64_eta" using dm by simp
  have cd: "\<bar>c\<bar> * \<bar>d\<bar> \<le> \<bar>c\<bar> * (2 * s + f64_eta)" by (rule mult_left_mono [OF dm2]) simp
  have u0: "0 \<le> f64_u" using f64_u_pos by simp
  have "f64_u * (\<bar>c\<bar> * \<bar>d\<bar>) \<le> f64_u * (\<bar>c\<bar> * (2 * s + f64_eta))"
    by (rule mult_left_mono [OF cd u0])
  also have "\<dots> = 2 * f64_u * \<bar>c\<bar> * s + f64_u * (\<bar>c\<bar> * f64_eta)" by (simp add: algebra_simps)
  also have "f64_u * (\<bar>c\<bar> * f64_eta) \<le> 1 * (\<bar>c\<bar> * f64_eta)"
    using u1 f64_eta_pos by (intro mult_right_mono) simp_all
  finally have e3: "f64_u * \<bar>c * d\<bar> \<le> 2 * f64_u * \<bar>c\<bar> * s + \<bar>c\<bar> * f64_eta"
    by (simp add: abs_mult)
  have "\<bar>c * (d - (a - b))\<bar> \<le> \<bar>c\<bar> * (f64_u * s + f64_eta)"
    unfolding abs_mult by (rule mult_left_mono [OF e1]) simp
  then have e4: "\<bar>c * d - c * (a - b)\<bar> \<le> f64_u * \<bar>c\<bar> * s + \<bar>c\<bar> * f64_eta"
    by (simp add: algebra_simps)
  have "\<bar>nearest (c * d) - c * (a - b)\<bar> \<le> \<bar>nearest (c * d) - c * d\<bar> + \<bar>c * d - c * (a - b)\<bar>"
    by linarith
  also have "\<dots> \<le> 3 * f64_u * \<bar>c\<bar> * s + (2 * \<bar>c\<bar> + 1) * f64_eta"
    using e2 e3 e4 by (simp add: algebra_simps)
  finally show ?thesis unfolding d_def s_def .
qed

section \<open>Properties of the Brayton cycle in double arithmetic\<close>

lemma fin_CP_AIR: "fin CP_AIR = Finite (nearest CP_AIR)"
  and nearest_CP_AIR: "0 \<le> nearest CP_AIR" "nearest CP_AIR \<le> 2"
proof -
  have 2: "nearest 2 = 2"
    by (rule nearest_eqI [where e = 1 and k = "2 ^ 52"]) (simp_all add: powr_minus)
  show a: "0 \<le> nearest CP_AIR" by (rule nearest_nonneg) (simp add: CP_AIR_def)
  show b: "nearest CP_AIR \<le> 2"
    by (rule nearest_le_representable [OF _ _ 2]) (simp_all add: CP_AIR_def)
  have "\<bar>nearest CP_AIR\<bar> \<le> 2" using a b by simp
  also have "(2::real) < 2 ^ 1024" by simp
  finally show "fin CP_AIR = Finite (nearest CP_AIR)" by (rule fin_Finite)
qed

lemma cp_diff_FiniteD:
  assumes "f64_mul (fin CP_AIR) (f64_sub a b) = Finite q"
  shows "\<exists>x y. a = Finite x \<and> b = Finite y \<and>
           \<bar>q - nearest CP_AIR * (x - y)\<bar> \<le> 6 * f64_u * (\<bar>x\<bar> + \<bar>y\<bar>) + 5 * f64_eta"
proof -
  define c where "c = nearest CP_AIR"
  have c: "0 \<le> c" "c \<le> 2" unfolding c_def by (rule nearest_CP_AIR)+
  from f64_mul_FiniteD [OF assms [unfolded fin_CP_AIR]]
  obtain d where d: "f64_sub a b = Finite d" and q: "q = nearest (c * d)"
    unfolding c_def by auto
  from f64_sub_FiniteD [OF d] obtain x y
    where x: "a = Finite x" and y: "b = Finite y" and dd: "d = nearest (x - y)"
    by blast
  have e: "\<bar>q - c * (x - y)\<bar> \<le> 3 * f64_u * \<bar>c\<bar> * (\<bar>x\<bar> + \<bar>y\<bar>) + (2 * \<bar>c\<bar> + 1) * f64_eta"
    unfolding q dd by (rule sub_mul_error)
  have u0: "0 \<le> 3 * f64_u * (\<bar>x\<bar> + \<bar>y\<bar>)" using f64_u_pos by simp
  have "3 * f64_u * (\<bar>x\<bar> + \<bar>y\<bar>) * \<bar>c\<bar> \<le> 3 * f64_u * (\<bar>x\<bar> + \<bar>y\<bar>) * 2"
    using c by (intro mult_left_mono [OF _ u0]) simp
  moreover have "(2 * \<bar>c\<bar> + 1) * f64_eta \<le> 5 * f64_eta"
    using c f64_eta_pos by (intro mult_right_mono) simp_all
  ultimately have "\<bar>q - c * (x - y)\<bar> \<le> 6 * f64_u * (\<bar>x\<bar> + \<bar>y\<bar>) + 5 * f64_eta"
    using e by (simp add: algebra_simps)
  with x y show ?thesis unfolding c_def by blast
qed

lemma brayton_work_f_fields:
  assumes "brayton_work_f pow T1_C rp T3_C eta_c eta_t = Inr w"
  shows "gas_work_f.w_comp w = f64_mul (fin CP_AIR) (f64_sub (gas_work_f.T2 w) (gas_work_f.T1 w))"
    and "gas_work_f.w_turb w = f64_mul (fin CP_AIR) (f64_sub (gas_work_f.T3 w) (gas_work_f.T4 w))"
    and "gas_work_f.w_net w = f64_sub (gas_work_f.w_turb w) (gas_work_f.w_comp w)"
    and "gas_work_f.q_in w = f64_mul (fin CP_AIR) (f64_sub (gas_work_f.T3 w) (gas_work_f.T2 w))"
    and "gas_work_f.q_out w = f64_mul (fin CP_AIR) (f64_sub (gas_work_f.T4 w) (gas_work_f.T1 w))"
  using assms
  by (auto simp: brayton_work_f_def Let_def and_then_Inr_iff split: if_splits)

lemma f64_u_le_sixteenth: "f64_u \<le> 1 / 16"
proof -
  have "(1::real) / 2 ^ 53 \<le> 1 / 2 ^ 4" by (intro divide_left_mono power_increasing) simp_all
  then show ?thesis by (simp add: f64_u_def)
qed

lemma scaled_le:
  fixes x :: real
  assumes "0 \<le> x"
  shows "f64_u * x \<le> x / 16"
  using mult_right_mono [OF f64_u_le_sixteenth assms] by simp

lemma c5_core:
  fixes c :: real
  assumes qi: "\<bar>qi - c * (t3 - t2)\<bar> \<le> 6 * f64_u * (\<bar>t3\<bar> + \<bar>t2\<bar>) + 5 * f64_eta"
    and qo: "\<bar>qo - c * (t4 - t1)\<bar> \<le> 6 * f64_u * (\<bar>t4\<bar> + \<bar>t1\<bar>) + 5 * f64_eta"
    and wt: "\<bar>wt - c * (t3 - t4)\<bar> \<le> 6 * f64_u * (\<bar>t3\<bar> + \<bar>t4\<bar>) + 5 * f64_eta"
    and wc: "\<bar>wc - c * (t2 - t1)\<bar> \<le> 6 * f64_u * (\<bar>t2\<bar> + \<bar>t1\<bar>) + 5 * f64_eta"
    and c: "0 \<le> c" "c \<le> 2"
  shows "\<bar>qi - qo - nearest (wt - wc)\<bar>
           \<le> 16 * f64_u * (\<bar>t1\<bar> + \<bar>t2\<bar> + \<bar>t3\<bar> + \<bar>t4\<bar>) + 32 * f64_eta"
proof -
  define S where "S = \<bar>t1\<bar> + \<bar>t2\<bar> + \<bar>t3\<bar> + \<bar>t4\<bar>"
  define U where "U = f64_u * S"
  define e32 where "e32 = 6 * f64_u * (\<bar>t3\<bar> + \<bar>t2\<bar>)"
  define e41 where "e41 = 6 * f64_u * (\<bar>t4\<bar> + \<bar>t1\<bar>)"
  define e34 where "e34 = 6 * f64_u * (\<bar>t3\<bar> + \<bar>t4\<bar>)"
  define e21 where "e21 = 6 * f64_u * (\<bar>t2\<bar> + \<bar>t1\<bar>)"
  define x34 where "x34 = c * (t3 - t4)"
  define x21 where "x21 = c * (t2 - t1)"
  define x32 where "x32 = c * (t3 - t2)"
  define x41 where "x41 = c * (t4 - t1)"
  have S0: "0 \<le> S" by (simp add: S_def)
  have U0: "0 \<le> U" unfolding U_def using f64_u_pos S0 by simp
  have US: "U \<le> S / 16" unfolding U_def using S0 by (rule scaled_le)
  have eta: "0 < f64_eta" by (rule f64_eta_pos)
  have ue: "f64_u * f64_eta \<le> f64_eta / 16" using eta by (intro scaled_le) simp
  have sum: "e32 + e41 + e34 + e21 = 12 * U"
    by (simp add: U_def S_def e32_def e41_def e34_def e21_def algebra_simps)
  have sum2: "e34 + e21 = 6 * U"
    by (simp add: U_def S_def e34_def e21_def algebra_simps)
  have id: "x32 - x41 = x34 - x21"
    by (simp add: x32_def x41_def x34_def x21_def algebra_simps)
  note b = qi [folded e32_def x32_def] qo [folded e41_def x41_def]
    wt [folded e34_def x34_def] wc [folded e21_def x21_def]
  have main: "\<bar>qi - qo - (wt - wc)\<bar> \<le> 12 * U + 20 * f64_eta"
    using b id sum by linarith
  have ct: "\<bar>x34\<bar> \<le> 2 * (\<bar>t3\<bar> + \<bar>t4\<bar>)"
  proof -
    have "\<bar>x34\<bar> = c * \<bar>t3 - t4\<bar>" using c by (simp add: abs_mult x34_def)
    also have "\<dots> \<le> 2 * \<bar>t3 - t4\<bar>" using c by (intro mult_right_mono) simp_all
    also have "\<dots> \<le> 2 * (\<bar>t3\<bar> + \<bar>t4\<bar>)" using abs_triangle_ineq4 [of t3 t4] by simp
    finally show ?thesis .
  qed
  have cc: "\<bar>x21\<bar> \<le> 2 * (\<bar>t2\<bar> + \<bar>t1\<bar>)"
  proof -
    have "\<bar>x21\<bar> = c * \<bar>t2 - t1\<bar>" using c by (simp add: abs_mult x21_def)
    also have "\<dots> \<le> 2 * \<bar>t2 - t1\<bar>" using c by (intro mult_right_mono) simp_all
    also have "\<dots> \<le> 2 * (\<bar>t2\<bar> + \<bar>t1\<bar>)" using abs_triangle_ineq4 [of t2 t1] by simp
    finally show ?thesis .
  qed
  have "\<bar>x34\<bar> + \<bar>x21\<bar> \<le> 2 * S" using ct cc unfolding S_def by simp
  then have mag: "\<bar>wt - wc\<bar> \<le> 2 * S + 6 * U + 10 * f64_eta"
    using b(3,4) sum2 by linarith
  then have mag2: "\<bar>wt - wc\<bar> \<le> 3 * S + 10 * f64_eta" using US S0 by linarith
  have "\<bar>nearest (wt - wc) - (wt - wc)\<bar> \<le> f64_u * \<bar>wt - wc\<bar> + f64_eta" by (rule nearest_error)
  moreover have "f64_u * \<bar>wt - wc\<bar> \<le> f64_u * (3 * S + 10 * f64_eta)"
    using f64_u_pos by (intro mult_left_mono [OF mag2]) simp
  moreover have "f64_u * (3 * S + 10 * f64_eta) = 3 * U + 10 * (f64_u * f64_eta)"
    by (simp add: U_def algebra_simps)
  ultimately have r: "\<bar>nearest (wt - wc) - (wt - wc)\<bar> \<le> 3 * U + 2 * f64_eta"
    using ue eta by linarith
  have "\<bar>qi - qo - nearest (wt - wc)\<bar> \<le> 15 * U + 22 * f64_eta"
    using main r by linarith
  then have "\<bar>qi - qo - nearest (wt - wc)\<bar> \<le> 16 * U + 32 * f64_eta"
    using U0 eta by linarith
  then show ?thesis unfolding U_def S_def by (simp add: algebra_simps)
qed

text \<open>
  Claim C5, as amended. In double arithmetic, whenever lines 69 to 87 of
  \<^verbatim>\<open>brayton_cycle\<close> complete with finite work and heat terms, \<open>w_net\<close> is the double
  \<open>w_turb - w_comp\<close>, and \<open>q_in - q_out\<close> (taken exactly on the computed doubles) differs
  from \<open>w_net\<close> by at most \<open>16 * f64_u * (\<bar>T1\<bar> + \<bar>T2\<bar> + \<bar>T3\<bar> + \<bar>T4\<bar>) + 32 * f64_eta\<close>, for
  every power function and whatever the sign of \<open>q_in\<close>. The equation \<open>q_in - q_out = w_net\<close>
  itself is not a property of the doubles.
\<close>

theorem brayton_first_law:
  assumes w: "brayton_work_f pow T1_C rp T3_C eta_c eta_t = Inr w"
    and qi: "gas_work_f.q_in w = Finite qi" and qo: "gas_work_f.q_out w = Finite qo"
    and wt: "gas_work_f.w_turb w = Finite wt" and wc: "gas_work_f.w_comp w = Finite wc"
    and wn: "gas_work_f.w_net w = Finite wn"
  shows "gas_work_f.w_net w = f64_sub (gas_work_f.w_turb w) (gas_work_f.w_comp w) \<and>
    (\<exists>t1 t2 t3 t4. gas_work_f.T1 w = Finite t1 \<and> gas_work_f.T2 w = Finite t2 \<and>
       gas_work_f.T3 w = Finite t3 \<and> gas_work_f.T4 w = Finite t4 \<and>
       \<bar>qi - qo - wn\<bar> \<le> 16 * f64_u * (\<bar>t1\<bar> + \<bar>t2\<bar> + \<bar>t3\<bar> + \<bar>t4\<bar>) + 32 * f64_eta)"
proof -
  note f = brayton_work_f_fields [OF w]
  from cp_diff_FiniteD [OF qi [unfolded f(4)]] obtain t3 t2
    where t3: "gas_work_f.T3 w = Finite t3" and t2: "gas_work_f.T2 w = Finite t2"
      and e1: "\<bar>qi - nearest CP_AIR * (t3 - t2)\<bar> \<le> 6 * f64_u * (\<bar>t3\<bar> + \<bar>t2\<bar>) + 5 * f64_eta"
    by blast
  from cp_diff_FiniteD [OF qo [unfolded f(5)]] obtain t4 t1
    where t4: "gas_work_f.T4 w = Finite t4" and t1: "gas_work_f.T1 w = Finite t1"
      and e2: "\<bar>qo - nearest CP_AIR * (t4 - t1)\<bar> \<le> 6 * f64_u * (\<bar>t4\<bar> + \<bar>t1\<bar>) + 5 * f64_eta"
    by blast
  from cp_diff_FiniteD [OF wt [unfolded f(2)]] t3 t4
  have e3: "\<bar>wt - nearest CP_AIR * (t3 - t4)\<bar> \<le> 6 * f64_u * (\<bar>t3\<bar> + \<bar>t4\<bar>) + 5 * f64_eta"
    by auto
  from cp_diff_FiniteD [OF wc [unfolded f(1)]] t2 t1
  have e4: "\<bar>wc - nearest CP_AIR * (t2 - t1)\<bar> \<le> 6 * f64_u * (\<bar>t2\<bar> + \<bar>t1\<bar>) + 5 * f64_eta"
    by auto
  from wn [unfolded f(3) wt wc] have n: "wn = nearest (wt - wc)"
    using f64_sub_FiniteD by blast
  have "\<bar>qi - qo - wn\<bar> \<le> 16 * f64_u * (\<bar>t1\<bar> + \<bar>t2\<bar> + \<bar>t3\<bar> + \<bar>t4\<bar>) + 32 * f64_eta"
    unfolding n using e1 e2 e3 e4 nearest_CP_AIR by (rule c5_core)
  with f(3) t1 t2 t3 t4 show ?thesis by blast
qed

lemma fin_0: "fin 0 = Finite 0"
  by (simp add: fin_def nearest_def)

lemma c9_core:
  fixes c :: real
  assumes qi: "\<bar>qi - c * (t3 - t2)\<bar> \<le> 6 * f64_u * (\<bar>t3\<bar> + \<bar>t2\<bar>) + 5 * f64_eta"
    and hc: "\<bar>hc - c * (t3 - t1)\<bar> \<le> 6 * f64_u * (\<bar>t3\<bar> + \<bar>t1\<bar>) + 5 * f64_eta"
    and hb: "\<bar>hb - c * (t2 - t1)\<bar> \<le> 6 * f64_u * (\<bar>t2\<bar> + \<bar>t1\<bar>) + 5 * f64_eta"
  shows "\<bar>qi - (hc - hb)\<bar> \<le> 16 * f64_u * (\<bar>t1\<bar> + \<bar>t2\<bar> + \<bar>t3\<bar>) + 16 * f64_eta"
proof -
  define S where "S = \<bar>t1\<bar> + \<bar>t2\<bar> + \<bar>t3\<bar>"
  define U where "U = f64_u * S"
  define e32 where "e32 = 6 * f64_u * (\<bar>t3\<bar> + \<bar>t2\<bar>)"
  define e31 where "e31 = 6 * f64_u * (\<bar>t3\<bar> + \<bar>t1\<bar>)"
  define e21 where "e21 = 6 * f64_u * (\<bar>t2\<bar> + \<bar>t1\<bar>)"
  define x32 where "x32 = c * (t3 - t2)"
  define x31 where "x31 = c * (t3 - t1)"
  define x21 where "x21 = c * (t2 - t1)"
  have S0: "0 \<le> S" by (simp add: S_def)
  have U0: "0 \<le> U" unfolding U_def using f64_u_pos S0 by simp
  have eta: "0 < f64_eta" by (rule f64_eta_pos)
  have sum: "e32 + e31 + e21 = 12 * U"
    by (simp add: U_def S_def e32_def e31_def e21_def algebra_simps)
  have id: "x32 = x31 - x21" by (simp add: x32_def x31_def x21_def algebra_simps)
  note b = qi [folded e32_def x32_def] hc [folded e31_def x31_def] hb [folded e21_def x21_def]
  have "\<bar>qi - (hc - hb)\<bar> \<le> 12 * U + 15 * f64_eta" using b id sum by linarith
  then have "\<bar>qi - (hc - hb)\<bar> \<le> 16 * U + 16 * f64_eta" using U0 eta by linarith
  then show ?thesis unfolding U_def S_def by (simp add: algebra_simps)
qed

text \<open>
  Claim C9, as amended. In double arithmetic, whenever lines 69 to 87 of
  \<^verbatim>\<open>brayton_cycle\<close> complete, the unrounded enthalpy list has \<open>h1 = 0\<close>, \<open>h2\<close> is the
  same double as \<open>w_comp\<close> and \<open>h4\<close> (which is \<open>h4 - h1\<close>) the same double as \<open>q_out\<close>; when
  \<open>q_in\<close>, \<open>h2\<close> and \<open>h3\<close> are finite, \<open>q_in\<close> differs from \<open>h3 - h2\<close> (taken exactly on the
  computed doubles) by at most \<open>16 * f64_u * (\<bar>T1\<bar> + \<bar>T2\<bar> + \<bar>T3\<bar>) + 16 * f64_eta\<close>, for
  every power function. The equation \<open>q_in = h3 - h2\<close> itself is not a property of the
  doubles.
\<close>

theorem brayton_enthalpy_coupling:
  assumes w: "brayton_work_f pow T1_C rp T3_C eta_c eta_t = Inr w"
    and qi: "gas_work_f.q_in w = Finite qi"
    and hb: "brayton_enthalpy_f w ! 1 = Finite h2v"
    and hc: "brayton_enthalpy_f w ! 2 = Finite h3v"
  shows "brayton_enthalpy_f w ! 0 = Finite 0 \<and>
    brayton_enthalpy_f w ! 1 = gas_work_f.w_comp w \<and>
    brayton_enthalpy_f w ! 3 = gas_work_f.q_out w \<and>
    (\<exists>t1 t2 t3. gas_work_f.T1 w = Finite t1 \<and> gas_work_f.T2 w = Finite t2 \<and>
       gas_work_f.T3 w = Finite t3 \<and>
       \<bar>qi - (h3v - h2v)\<bar> \<le> 16 * f64_u * (\<bar>t1\<bar> + \<bar>t2\<bar> + \<bar>t3\<bar>) + 16 * f64_eta)"
proof -
  note f = brayton_work_f_fields [OF w]
  have l: "brayton_enthalpy_f w =
      [Finite 0, f64_mul (fin CP_AIR) (f64_sub (gas_work_f.T2 w) (gas_work_f.T1 w)),
       f64_mul (fin CP_AIR) (f64_sub (gas_work_f.T3 w) (gas_work_f.T1 w)),
       f64_mul (fin CP_AIR) (f64_sub (gas_work_f.T4 w) (gas_work_f.T1 w))]"
    by (simp add: brayton_enthalpy_f_def Let_def fin_0)
  from cp_diff_FiniteD [OF qi [unfolded f(4)]] obtain t3 t2
    where t3: "gas_work_f.T3 w = Finite t3" and t2: "gas_work_f.T2 w = Finite t2"
      and e1: "\<bar>qi - nearest CP_AIR * (t3 - t2)\<bar> \<le> 6 * f64_u * (\<bar>t3\<bar> + \<bar>t2\<bar>) + 5 * f64_eta"
    by blast
  have "f64_mul (fin CP_AIR) (f64_sub (gas_work_f.T2 w) (gas_work_f.T1 w)) = Finite h2v"
    using hb by (simp add: l)
  from cp_diff_FiniteD [OF this] t2 obtain t1
    where t1: "gas_work_f.T1 w = Finite t1"
      and e2: "\<bar>h2v - nearest CP_AIR * (t2 - t1)\<bar> \<le> 6 * f64_u * (\<bar>t2\<bar> + \<bar>t1\<bar>) + 5 * f64_eta"
    by auto
  have "f64_mul (fin CP_AIR) (f64_sub (gas_work_f.T3 w) (gas_work_f.T1 w)) = Finite h3v"
    using hc by (simp add: l)
  from cp_diff_FiniteD [OF this] t3 t1
  have e3: "\<bar>h3v - nearest CP_AIR * (t3 - t1)\<bar> \<le> 6 * f64_u * (\<bar>t3\<bar> + \<bar>t1\<bar>) + 5 * f64_eta"
    by auto
  have "\<bar>qi - (h3v - h2v)\<bar> \<le> 16 * f64_u * (\<bar>t1\<bar> + \<bar>t2\<bar> + \<bar>t3\<bar>) + 16 * f64_eta"
    using e1 e3 e2 by (rule c9_core)
  moreover have "brayton_enthalpy_f w ! 0 = Finite 0"
    "brayton_enthalpy_f w ! 1 = gas_work_f.w_comp w"
    "brayton_enthalpy_f w ! 3 = gas_work_f.q_out w"
    by (simp_all add: l f(1) f(5))
  ultimately show ?thesis using t1 t2 t3 by blast
qed

text \<open>
  The rounding error of \<open>a + (b - a) / 1\<close> and of \<open>a - (a - b) * 1\<close>, each computed in three
  operations.
\<close>

lemma add_back_error:
  "\<bar>nearest (a + nearest (nearest (b - a))) - b\<bar> \<le> 8 * f64_u * (\<bar>a\<bar> + \<bar>b\<bar>) + 8 * f64_eta"
proof -
  define s where "s = \<bar>a\<bar> + \<bar>b\<bar>"
  define U where "U = f64_u * s"
  define d where "d = nearest (b - a)"
  define d' where "d' = nearest d"
  define r where "r = nearest (a + d')"
  have s0: "0 \<le> s" by (simp add: s_def)
  have U0: "0 \<le> U" unfolding U_def using f64_u_pos s0 by simp
  have US: "U \<le> s / 16" unfolding U_def using s0 by (rule scaled_le)
  have eta: "0 < f64_eta" by (rule f64_eta_pos)
  have ue: "f64_u * f64_eta \<le> f64_eta / 16" using eta by (intro scaled_le) simp
  have u0: "0 \<le> f64_u" using f64_u_pos by simp
  have ba: "\<bar>b - a\<bar> \<le> s" unfolding s_def by (rule abs_triangle_ineq4 [of b a, simplified add.commute])
  have "\<bar>d - (b - a)\<bar> \<le> f64_u * \<bar>b - a\<bar> + f64_eta" unfolding d_def by (rule nearest_error)
  moreover have "f64_u * \<bar>b - a\<bar> \<le> f64_u * s" by (rule mult_left_mono [OF ba u0])
  ultimately have e1: "\<bar>d - (b - a)\<bar> \<le> U + f64_eta" unfolding U_def by linarith
  have dm: "\<bar>d\<bar> \<le> 2 * s + f64_eta" using e1 ba US by linarith
  have "\<bar>d' - d\<bar> \<le> f64_u * \<bar>d\<bar> + f64_eta" unfolding d'_def by (rule nearest_error)
  moreover have "f64_u * \<bar>d\<bar> \<le> f64_u * (2 * s + f64_eta)" by (rule mult_left_mono [OF dm u0])
  moreover have "f64_u * (2 * s + f64_eta) = 2 * U + f64_u * f64_eta" by (simp add: U_def algebra_simps)
  ultimately have e2: "\<bar>d' - d\<bar> \<le> 2 * U + 2 * f64_eta" using ue eta by linarith
  have am: "\<bar>a\<bar> \<le> s" by (simp add: s_def)
  have sm: "\<bar>a + d'\<bar> \<le> 4 * s + 3 * f64_eta" using e2 dm am US by linarith
  have "\<bar>r - (a + d')\<bar> \<le> f64_u * \<bar>a + d'\<bar> + f64_eta" unfolding r_def by (rule nearest_error)
  moreover have "f64_u * \<bar>a + d'\<bar> \<le> f64_u * (4 * s + 3 * f64_eta)" by (rule mult_left_mono [OF sm u0])
  moreover have "f64_u * (4 * s + 3 * f64_eta) = 4 * U + 3 * (f64_u * f64_eta)"
    by (simp add: U_def algebra_simps)
  ultimately have e3: "\<bar>r - (a + d')\<bar> \<le> 4 * U + 2 * f64_eta" using ue eta by linarith
  have "\<bar>r - b\<bar> \<le> 7 * U + 5 * f64_eta" using e1 e2 e3 by linarith
  then have "\<bar>r - b\<bar> \<le> 8 * U + 8 * f64_eta" using U0 eta by linarith
  then show ?thesis unfolding r_def d'_def d_def U_def s_def by (simp add: algebra_simps)
qed

lemma sub_back_error:
  "\<bar>nearest (a - nearest (nearest (a - b))) - b\<bar> \<le> 8 * f64_u * (\<bar>a\<bar> + \<bar>b\<bar>) + 8 * f64_eta"
proof -
  define s where "s = \<bar>a\<bar> + \<bar>b\<bar>"
  define U where "U = f64_u * s"
  define d where "d = nearest (a - b)"
  define d' where "d' = nearest d"
  define r where "r = nearest (a - d')"
  have s0: "0 \<le> s" by (simp add: s_def)
  have U0: "0 \<le> U" unfolding U_def using f64_u_pos s0 by simp
  have US: "U \<le> s / 16" unfolding U_def using s0 by (rule scaled_le)
  have eta: "0 < f64_eta" by (rule f64_eta_pos)
  have ue: "f64_u * f64_eta \<le> f64_eta / 16" using eta by (intro scaled_le) simp
  have u0: "0 \<le> f64_u" using f64_u_pos by simp
  have ba: "\<bar>a - b\<bar> \<le> s" unfolding s_def by (rule abs_triangle_ineq4)
  have "\<bar>d - (a - b)\<bar> \<le> f64_u * \<bar>a - b\<bar> + f64_eta" unfolding d_def by (rule nearest_error)
  moreover have "f64_u * \<bar>a - b\<bar> \<le> f64_u * s" by (rule mult_left_mono [OF ba u0])
  ultimately have e1: "\<bar>d - (a - b)\<bar> \<le> U + f64_eta" unfolding U_def by linarith
  have dm: "\<bar>d\<bar> \<le> 2 * s + f64_eta" using e1 ba US by linarith
  have "\<bar>d' - d\<bar> \<le> f64_u * \<bar>d\<bar> + f64_eta" unfolding d'_def by (rule nearest_error)
  moreover have "f64_u * \<bar>d\<bar> \<le> f64_u * (2 * s + f64_eta)" by (rule mult_left_mono [OF dm u0])
  moreover have "f64_u * (2 * s + f64_eta) = 2 * U + f64_u * f64_eta" by (simp add: U_def algebra_simps)
  ultimately have e2: "\<bar>d' - d\<bar> \<le> 2 * U + 2 * f64_eta" using ue eta by linarith
  have am: "\<bar>a\<bar> \<le> s" by (simp add: s_def)
  have sm: "\<bar>a - d'\<bar> \<le> 4 * s + 3 * f64_eta" using e2 dm am US by linarith
  have "\<bar>r - (a - d')\<bar> \<le> f64_u * \<bar>a - d'\<bar> + f64_eta" unfolding r_def by (rule nearest_error)
  moreover have "f64_u * \<bar>a - d'\<bar> \<le> f64_u * (4 * s + 3 * f64_eta)" by (rule mult_left_mono [OF sm u0])
  moreover have "f64_u * (4 * s + 3 * f64_eta) = 4 * U + 3 * (f64_u * f64_eta)"
    by (simp add: U_def algebra_simps)
  ultimately have e3: "\<bar>r - (a - d')\<bar> \<le> 4 * U + 2 * f64_eta" using ue eta by linarith
  have "\<bar>r - b\<bar> \<le> 7 * U + 5 * f64_eta" using e1 e2 e3 by linarith
  then have "\<bar>r - b\<bar> \<le> 8 * U + 8 * f64_eta" using U0 eta by linarith
  then show ?thesis unfolding r_def d'_def d_def U_def s_def by (simp add: algebra_simps)
qed

lemma brayton_work_f_temps:
  assumes "brayton_work_f pow T1_C rp T3_C eta_c eta_t = Inr w"
  shows "gas_work_f.T1 w = f64_add T1_C (fin 273.15)"
    and "gas_work_f.T3 w = f64_add T3_C (fin 273.15)"
    and "gas_work_f.T2s w = f64_mul (gas_work_f.T1 w)
           (pow rp (f64_divide (f64_sub (fin GAMMA_AIR) (fin 1)) (fin GAMMA_AIR)))"
    and "gas_work_f.T2 w = f64_add (gas_work_f.T1 w)
           (f64_divide (f64_sub (gas_work_f.T2s w) (gas_work_f.T1 w)) eta_c)"
    and "gas_work_f.T4s w = f64_divide (gas_work_f.T3 w)
           (pow rp (f64_divide (f64_sub (fin GAMMA_AIR) (fin 1)) (fin GAMMA_AIR)))"
    and "gas_work_f.T4 w = f64_sub (gas_work_f.T3 w)
           (f64_mul (f64_sub (gas_work_f.T3 w) (gas_work_f.T4s w)) eta_t)"
  using assms
  by (auto simp: brayton_work_f_def Let_def and_then_Inr_iff py_div_f_def split: if_splits)

lemma f64_divide_one_FiniteD:
  assumes "f64_divide a (Finite 1) = Finite z"
  shows "\<exists>x. a = Finite x \<and> z = nearest x"
  using assms by (cases a) (auto simp: fin_def split: if_splits)

lemma f64_mul_one_FiniteD:
  assumes "f64_mul a (Finite 1) = Finite z"
  shows "\<exists>x. a = Finite x \<and> z = nearest x"
  using assms by (cases a) (auto simp: fin_def split: if_splits)

text \<open>
  Claim C6, as amended. In double arithmetic, whenever lines 69 to 87 of
  \<^verbatim>\<open>brayton_cycle\<close> complete with \<open>eta_c = eta_t = 1\<close> and finite outlet temperatures, the
  isentropic temperatures are the doubles \<open>T1 * rp ** ((GAMMA_AIR - 1) / GAMMA_AIR)\<close> and
  \<open>T3 / rp ** ((GAMMA_AIR - 1) / GAMMA_AIR)\<close>, and the actual outlet temperatures differ
  from them by at most \<open>8 * f64_u * (\<bar>T1\<bar> + \<bar>T2s\<bar>) + 8 * f64_eta\<close> and
  \<open>8 * f64_u * (\<bar>T3\<bar> + \<bar>T4s\<bar>) + 8 * f64_eta\<close>, for every power function and every \<open>rp\<close>.
  The equations \<open>T2 = T2s\<close> and \<open>T4 = T4s\<close> themselves are not properties of the doubles:
  \<open>T1 + (T2s - T1)\<close> and \<open>T3 - (T3 - T4s)\<close> are rounded twice.
\<close>

theorem brayton_ideal_cycle:
  assumes w: "brayton_work_f pow T1_C rp T3_C (Finite 1) (Finite 1) = Inr w"
    and t2: "gas_work_f.T2 w = Finite t2" and t4: "gas_work_f.T4 w = Finite t4"
  shows "gas_work_f.T2s w = f64_mul (gas_work_f.T1 w)
           (pow rp (f64_divide (f64_sub (fin GAMMA_AIR) (fin 1)) (fin GAMMA_AIR))) \<and>
    gas_work_f.T4s w = f64_divide (gas_work_f.T3 w)
           (pow rp (f64_divide (f64_sub (fin GAMMA_AIR) (fin 1)) (fin GAMMA_AIR))) \<and>
    (\<exists>t1 t3 t2s t4s. gas_work_f.T1 w = Finite t1 \<and> gas_work_f.T3 w = Finite t3 \<and>
       gas_work_f.T2s w = Finite t2s \<and> gas_work_f.T4s w = Finite t4s \<and>
       \<bar>t2 - t2s\<bar> \<le> 8 * f64_u * (\<bar>t1\<bar> + \<bar>t2s\<bar>) + 8 * f64_eta \<and>
       \<bar>t4 - t4s\<bar> \<le> 8 * f64_u * (\<bar>t3\<bar> + \<bar>t4s\<bar>) + 8 * f64_eta)"
proof -
  note f = brayton_work_f_temps [OF w]
  from f64_add_FiniteD [OF t2 [unfolded f(4)]] obtain t1 q
    where t1: "gas_work_f.T1 w = Finite t1"
      and q: "f64_divide (f64_sub (gas_work_f.T2s w) (gas_work_f.T1 w)) (Finite 1) = Finite q"
      and r2: "t2 = nearest (t1 + q)"
    by blast
  from f64_divide_one_FiniteD [OF q] obtain d
    where d: "f64_sub (gas_work_f.T2s w) (gas_work_f.T1 w) = Finite d" and qd: "q = nearest d"
    by blast
  from f64_sub_FiniteD [OF d] t1 obtain t2s
    where t2s: "gas_work_f.T2s w = Finite t2s" and dd: "d = nearest (t2s - t1)"
    by auto
  have b2: "\<bar>t2 - t2s\<bar> \<le> 8 * f64_u * (\<bar>t1\<bar> + \<bar>t2s\<bar>) + 8 * f64_eta"
    unfolding r2 qd dd by (rule add_back_error)
  from f64_sub_FiniteD [OF t4 [unfolded f(6)]] obtain t3 m
    where t3: "gas_work_f.T3 w = Finite t3"
      and m: "f64_mul (f64_sub (gas_work_f.T3 w) (gas_work_f.T4s w)) (Finite 1) = Finite m"
      and r4: "t4 = nearest (t3 - m)"
    by blast
  from f64_mul_one_FiniteD [OF m] obtain g
    where g: "f64_sub (gas_work_f.T3 w) (gas_work_f.T4s w) = Finite g" and mg: "m = nearest g"
    by blast
  from f64_sub_FiniteD [OF g] t3 obtain t4s
    where t4s: "gas_work_f.T4s w = Finite t4s" and gg: "g = nearest (t3 - t4s)"
    by auto
  have b4: "\<bar>t4 - t4s\<bar> \<le> 8 * f64_u * (\<bar>t3\<bar> + \<bar>t4s\<bar>) + 8 * f64_eta"
    unfolding r4 mg gg by (rule sub_back_error)
  show ?thesis using f(3) f(5) t1 t3 t2s t4s b2 b4 by blast
qed

subsection \<open>Concrete runs\<close>

text \<open>
  The exponent \<open>(GAMMA_AIR - 1) / GAMMA_AIR\<close> as a double, and the power of 128 with this
  exponent: \<open>128 = 2 ^ 7\<close>, and seven times the exponent is \<open>2 - 9 / 2 ^ 54\<close>, so that
  the power is \<open>4 / exp (9 / 2 ^ 54 * ln 2)\<close>. Its correct rounding is
  3.9999999999999987, the value of \<^verbatim>\<open>128 ** ((1.4 - 1) / 1.4)\<close> in CPython.
\<close>

lemma gamma_exponent_f64:
  "f64_divide (f64_sub (fin GAMMA_AIR) (fin 1)) (fin GAMMA_AIR) =
     Finite (5146971002709137 / 18014398509481984)"
proof -
  have g1: "fin (7 / 5) = Finite (3152519739159347 / 2251799813685248)"
    by (rule fin_eqI [where e = "0" and k = "6305039478318694"]) (simp_all add: powr_minus)
  have g2: "fin (900719925474099 / 2251799813685248) = Finite (900719925474099 / 2251799813685248)"
    by (rule fin_eqI [where e = "(- 2)" and k = "7205759403792792"]) (simp_all add: powr_minus)
  have g3: "fin (900719925474099 / 3152519739159347) = Finite (5146971002709137 / 18014398509481984)"
    by (rule fin_eqI [where e = "(- 2)" and k = "5146971002709137"]) (simp_all add: powr_minus)
  show ?thesis by (simp add: GAMMA_AIR_def f64_sub_def fin_1 g1 g2 g3)
qed

lemma ln_2_lower: "69 / 100 < ln (2::real)"
proof -
  have "exp (69 / 100 :: real) < 2"
    using exp_taylor6(2) [of "69 / 100"] by (simp add: power_divide)
  then have "ln (exp (69 / 100 :: real)) < ln 2"
    by (subst ln_less_cancel_iff) simp_all
  then show ?thesis by simp
qed

lemma ln_2_upper: "ln (2::real) < 7 / 10"
proof -
  have "2 < exp (7 / 10 :: real)"
    using exp_taylor6(1) [of "7 / 10"] by (simp add: power_divide)
  then have "ln 2 < ln (exp (7 / 10 :: real))"
    by (subst ln_less_cancel_iff) simp_all
  then show ?thesis by simp
qed

lemma pow_128_bracket:
  "18014398509481977 / 4503599627370496 < (128::real) powr (5146971002709137 / 18014398509481984)"
  "(128::real) powr (5146971002709137 / 18014398509481984) < 18014398509481979 / 4503599627370496"
proof -
  define x :: real where "x = 9 / 18014398509481984 * ln 2"
  have x0: "0 < x" by (simp add: x_def)
  have xl: "9 / 18014398509481984 * (69 / 100) < x"
    unfolding x_def using ln_2_lower by (intro mult_strict_left_mono) simp_all
  have xu: "x < 9 / 18014398509481984 * (7 / 10)"
    unfolding x_def using ln_2_upper by (intro mult_strict_left_mono) simp_all
  have "(128::real) = 2 powr 7" by simp
  then have "(128::real) powr (5146971002709137 / 18014398509481984) =
      (2 powr 7) powr (5146971002709137 / 18014398509481984)" by simp
  also have "\<dots> = 2 powr (2 - 9 / 18014398509481984)" by (simp only: powr_powr) simp
  also have "\<dots> = 2 powr 2 / 2 powr (9 / 18014398509481984)" by (rule powr_diff)
  also have "2 powr (9 / 18014398509481984 :: real) = exp x" by (simp add: powr_def x_def mult.commute)
  finally have v: "(128::real) powr (5146971002709137 / 18014398509481984) = 4 / exp x" by simp
  have e1: "1 + x \<le> exp x" by (rule exp_ge_add_one_self)
  have "exp (- x) \<ge> 1 + (- x)" by (rule exp_ge_add_one_self)
  then have e2: "1 - x \<le> 1 / exp x" by (simp add: exp_minus inverse_eq_divide)
  have ex: "0 < exp x" by simp
  have "4 / exp x \<le> 4 / (1 + x)" using e1 x0 by (intro divide_left_mono) simp_all
  also have "\<dots> < 18014398509481979 / 4503599627370496"
    using xl x0 by (simp add: field_simps)
  finally show "(128::real) powr (5146971002709137 / 18014398509481984)
      < 18014398509481979 / 4503599627370496" unfolding v .
  have "18014398509481977 / 4503599627370496 < 4 * (1 - x)" using xu by simp
  also have "\<dots> \<le> 4 * (1 / exp x)" using e2 by simp
  finally show "18014398509481977 / 4503599627370496
      < (128::real) powr (5146971002709137 / 18014398509481984)" unfolding v by simp
qed

lemma pow_f64_128:
  "pow_f64 (Finite 128) (Finite (5146971002709137 / 18014398509481984)) =
     Finite (9007199254740989 / 2251799813685248)"
proof -
  define x :: real where "x = 128 powr (5146971002709137 / 18014398509481984)"
  note b = pow_128_bracket [folded x_def]
  have "fin x = Finite (9007199254740989 / 2251799813685248)"
  proof (rule fin_eqI [where e = 1 and k = 9007199254740989])
    show "2 powr of_int 1 \<le> \<bar>x\<bar>" using b(1) by simp
    show "\<bar>x\<bar> < 2 powr of_int (1 + 1)" using b by simp
    show "of_int 9007199254740989 - 1 / 2 < x / 2 powr of_int (1 - 52)"
      using b(1) by (simp add: powr_minus field_simps)
    show "x / 2 powr of_int (1 - 52) < of_int 9007199254740989 + 1 / 2"
      using b(2) by (simp add: powr_minus field_simps)
  qed (simp_all add: powr_minus)
  then show ?thesis by (simp add: x_def)
qed

text \<open>
  The runs \<^verbatim>\<open>brayton_cycle(25, 128, 1200, 1, 1)\<close> and \<^verbatim>\<open>brayton_cycle(25, 128, 1450, 1, 1)\<close>
  in double arithmetic, operation by operation.
\<close>

lemma brayton_work_f_128_1200:
  "brayton_work_f pow_f64 (Finite 25) (Finite 128) (Finite 1200) (Finite 1) (Finite 1) =
     Inr \<lparr>gas_work_f.T1 = Finite (2622555134571315 / 8796093022208),
       gas_work_f.T3 = Finite (3239491108916429 / 2199023255552),
       gas_work_f.T2s = Finite (1311277567285657 / 1099511627776),
       gas_work_f.T2 = Finite (1311277567285657 / 1099511627776),
       gas_work_f.T4s = Finite (1619745554458215 / 4398046511104),
       gas_work_f.T4 = Finite (1619745554458215 / 4398046511104),
       gas_work_f.w_comp = Finite (3953501865366255 / 4398046511104),
       gas_work_f.w_turb = Finite (1220883211672879 / 1099511627776),
       gas_work_f.w_net = Finite (930030981325261 / 4398046511104),
       gas_work_f.q_in = Finite (1240041308433681 / 4398046511104),
       gas_work_f.q_out = Finite (1240041308433681 / 17592186044416),
       gas_work_f.eta_th = Finite (2638827906662401 / 35184372088832),
       gas_work_f.bwr = Finite (2848378111742933 / 35184372088832)\<rparr>"
proof -
  have f1: "fin (5463 / 20) = Finite (2402652809016115 / 8796093022208)"
    by (rule fin_eqI [where e = "8" and k = "4805305618032230"]) (simp_all add: powr_minus)
  have f2: "fin (201 / 200) = Finite (1131529406376837 / 1125899906842624)"
    by (rule fin_eqI [where e = "0" and k = "4526117625507348"]) (simp_all add: powr_minus)
  have f3: "fin (2622555134571315 / 8796093022208) = Finite (2622555134571315 / 8796093022208)"
    by (rule fin_eqI [where e = "8" and k = "5245110269142630"]) (simp_all add: powr_minus)
  have f4: "fin (12957964435665715 / 8796093022208) = Finite (3239491108916429 / 2199023255552)"
    by (rule fin_tie_eqI [where e = "10" and f = "6478982217832857"]) (simp_all add: powr_minus)
  have f5: "fin (23621876653627902584409874130535 / 19807040628566084398385987584) = Finite (1311277567285657 / 1099511627776)"
    by (rule fin_eqI [where e = "10" and k = "5245110269142628"]) (simp_all add: powr_minus)
  have f6: "fin (7867665403713941 / 8796093022208) = Finite (7867665403713941 / 8796093022208)"
    by (rule fin_eqI [where e = "9" and k = "7867665403713941"]) (simp_all add: powr_minus)
  have f7: "fin (1311277567285657 / 1099511627776) = Finite (1311277567285657 / 1099511627776)"
    by (rule fin_eqI [where e = "10" and k = "5245110269142628"]) (simp_all add: powr_minus)
  have f8: "fin (3317238895530423296 / 9007199254740989) = Finite (1619745554458215 / 4398046511104)"
    by (rule fin_eqI [where e = "8" and k = "6478982217832860"]) (simp_all add: powr_minus)
  have f9: "fin (4859236663374643 / 4398046511104) = Finite (4859236663374643 / 4398046511104)"
    by (rule fin_eqI [where e = "10" and k = "4859236663374643"]) (simp_all add: powr_minus)
  have f10: "fin (1619745554458215 / 4398046511104) = Finite (1619745554458215 / 4398046511104)"
    by (rule fin_eqI [where e = "8" and k = "6478982217832860"]) (simp_all add: powr_minus)
  have f11: "fin (8902494763836013281388396384617 / 9903520314283042199192993792) = Finite (3953501865366255 / 4398046511104)"
    by (rule fin_eqI [where e = "9" and k = "7907003730732510"]) (simp_all add: powr_minus)
  have f12: "fin (5498369177152871915768168344191 / 4951760157141521099596496896) = Finite (1220883211672879 / 1099511627776)"
    by (rule fin_eqI [where e = "10" and k = "4883532846691516"]) (simp_all add: powr_minus)
  have f13: "fin (930030981325261 / 4398046511104) = Finite (930030981325261 / 4398046511104)"
    by (rule fin_eqI [where e = "7" and k = "7440247850602088"]) (simp_all add: powr_minus)
  have f14: "fin (616935974345115 / 2199023255552) = Finite (616935974345115 / 2199023255552)"
    by (rule fin_eqI [where e = "8" and k = "4935487794760920"]) (simp_all add: powr_minus)
  have f15: "fin (698081196823243516715980101255 / 2475880078570760549798248448) = Finite (1240041308433681 / 4398046511104)"
    by (rule fin_eqI [where e = "8" and k = "4960165233734724"]) (simp_all add: powr_minus)
  have f16: "fin (616935974345115 / 8796093022208) = Finite (616935974345115 / 8796093022208)"
    by (rule fin_eqI [where e = "6" and k = "4935487794760920"]) (simp_all add: powr_minus)
  have f17: "fin (698081196823243516715980101255 / 9903520314283042199192993792) = Finite (1240041308433681 / 17592186044416)"
    by (rule fin_eqI [where e = "6" and k = "4960165233734724"]) (simp_all add: powr_minus)
  have f18: "fin (930030981325261 / 1240041308433681) = Finite (3377699720527873 / 4503599627370496)"
    by (rule fin_eqI [where e = "(- 1)" and k = "6755399441055746"]) (simp_all add: powr_minus)
  have f19: "fin (100) = Finite (100)"
    by (rule fin_eqI [where e = "6" and k = "7036874417766400"]) (simp_all add: powr_minus)
  have f20: "fin (84442493013196825 / 1125899906842624) = Finite (2638827906662401 / 35184372088832)"
    by (rule fin_eqI [where e = "6" and k = "5277655813324802"]) (simp_all add: powr_minus)
  have f21: "fin (3953501865366255 / 4883532846691516) = Finite (7291847966061909 / 9007199254740992)"
    by (rule fin_eqI [where e = "(- 1)" and k = "7291847966061909"]) (simp_all add: powr_minus)
  have f22: "fin (182296199151547725 / 2251799813685248) = Finite (2848378111742933 / 35184372088832)"
    by (rule fin_eqI [where e = "6" and k = "5696756223485866"]) (simp_all add: powr_minus)
  show ?thesis
    unfolding brayton_work_f_def gamma_exponent_f64 pow_f64_128
    by (simp add: Let_def and_then_def py_div_f_def f64_sub_def CP_AIR_def fin_0
        f1 f2 f3 f4 f5 f6 f7 f8 f9 f10 f11 f12 f13 f14 f15 f16 f17 f18 f19 f20 f21 f22)
qed

lemma brayton_work_f_128_1450:
  "brayton_work_f pow_f64 (Finite 25) (Finite 128) (Finite 1450) (Finite 1) (Finite 1) =
     Inr \<lparr>gas_work_f.T1 = Finite (2622555134571315 / 8796093022208),
       gas_work_f.T3 = Finite (3789246922804429 / 2199023255552),
       gas_work_f.T2s = Finite (1311277567285657 / 1099511627776),
       gas_work_f.T2 = Finite (1311277567285657 / 1099511627776),
       gas_work_f.T4s = Finite (7578493845608861 / 17592186044416),
       gas_work_f.T4 = Finite (1894623461402215 / 4398046511104),
       gas_work_f.w_comp = Finite (3953501865366255 / 4398046511104),
       gas_work_f.w_turb = Finite (1428072434031919 / 1099511627776),
       gas_work_f.w_net = Finite (1758787870761421 / 4398046511104),
       gas_work_f.q_in = Finite (2345050494348561 / 4398046511104),
       gas_work_f.q_out = Finite (2345050494348561 / 17592186044416),
       gas_work_f.eta_th = Finite (5277655813324801 / 70368744177664),
       gas_work_f.bwr = Finite (4870252984724605 / 70368744177664)\<rparr>"
proof -
  have f1: "fin (5463 / 20) = Finite (2402652809016115 / 8796093022208)"
    by (rule fin_eqI [where e = "8" and k = "4805305618032230"]) (simp_all add: powr_minus)
  have f2: "fin (201 / 200) = Finite (1131529406376837 / 1125899906842624)"
    by (rule fin_eqI [where e = "0" and k = "4526117625507348"]) (simp_all add: powr_minus)
  have f3: "fin (2622555134571315 / 8796093022208) = Finite (2622555134571315 / 8796093022208)"
    by (rule fin_eqI [where e = "8" and k = "5245110269142630"]) (simp_all add: powr_minus)
  have f4: "fin (15156987691217715 / 8796093022208) = Finite (3789246922804429 / 2199023255552)"
    by (rule fin_tie_eqI [where e = "10" and f = "7578493845608857"]) (simp_all add: powr_minus)
  have f5: "fin (23621876653627902584409874130535 / 19807040628566084398385987584) = Finite (1311277567285657 / 1099511627776)"
    by (rule fin_eqI [where e = "10" and k = "5245110269142628"]) (simp_all add: powr_minus)
  have f6: "fin (7867665403713941 / 8796093022208) = Finite (7867665403713941 / 8796093022208)"
    by (rule fin_eqI [where e = "9" and k = "7867665403713941"]) (simp_all add: powr_minus)
  have f7: "fin (1311277567285657 / 1099511627776) = Finite (1311277567285657 / 1099511627776)"
    by (rule fin_eqI [where e = "10" and k = "5245110269142628"]) (simp_all add: powr_minus)
  have f8: "fin (3880188848951735296 / 9007199254740989) = Finite (7578493845608861 / 17592186044416)"
    by (rule fin_eqI [where e = "8" and k = "7578493845608861"]) (simp_all add: powr_minus)
  have f9: "fin (22735481536826571 / 17592186044416) = Finite (5683870384206643 / 4398046511104)"
    by (rule fin_eqI [where e = "10" and k = "5683870384206643"]) (simp_all add: powr_minus)
  have f10: "fin (5683870384206643 / 4398046511104) = Finite (5683870384206643 / 4398046511104)"
    by (rule fin_eqI [where e = "10" and k = "5683870384206643"]) (simp_all add: powr_minus)
  have f11: "fin (1894623461402215 / 4398046511104) = Finite (1894623461402215 / 4398046511104)"
    by (rule fin_eqI [where e = "8" and k = "7578493845608860"]) (simp_all add: powr_minus)
  have f12: "fin (8902494763836013281388396384617 / 9903520314283042199192993792) = Finite (3953501865366255 / 4398046511104)"
    by (rule fin_eqI [where e = "9" and k = "7907003730732510"]) (simp_all add: powr_minus)
  have f13: "fin (6431466481764227199017336728191 / 4951760157141521099596496896) = Finite (1428072434031919 / 1099511627776)"
    by (rule fin_eqI [where e = "10" and k = "5712289736127676"]) (simp_all add: powr_minus)
  have f14: "fin (1758787870761421 / 4398046511104) = Finite (1758787870761421 / 4398046511104)"
    by (rule fin_eqI [where e = "8" and k = "7035151483045684"]) (simp_all add: powr_minus)
  have f15: "fin (1166691788233115 / 2199023255552) = Finite (1166691788233115 / 2199023255552)"
    by (rule fin_eqI [where e = "9" and k = "4666767152932460"]) (simp_all add: powr_minus)
  have f16: "fin (1320146066564147038882092357255 / 2475880078570760549798248448) = Finite (2345050494348561 / 4398046511104)"
    by (rule fin_eqI [where e = "9" and k = "4690100988697122"]) (simp_all add: powr_minus)
  have f17: "fin (1166691788233115 / 8796093022208) = Finite (1166691788233115 / 8796093022208)"
    by (rule fin_eqI [where e = "7" and k = "4666767152932460"]) (simp_all add: powr_minus)
  have f18: "fin (1320146066564147038882092357255 / 9903520314283042199192993792) = Finite (2345050494348561 / 17592186044416)"
    by (rule fin_eqI [where e = "7" and k = "4690100988697122"]) (simp_all add: powr_minus)
  have f19: "fin (1758787870761421 / 2345050494348561) = Finite (6755399441055745 / 9007199254740992)"
    by (rule fin_eqI [where e = "(- 1)" and k = "6755399441055745"]) (simp_all add: powr_minus)
  have f20: "fin (100) = Finite (100)"
    by (rule fin_eqI [where e = "6" and k = "7036874417766400"]) (simp_all add: powr_minus)
  have f21: "fin (168884986026393625 / 2251799813685248) = Finite (5277655813324801 / 70368744177664)"
    by (rule fin_eqI [where e = "6" and k = "5277655813324801"]) (simp_all add: powr_minus)
  have f22: "fin (3953501865366255 / 5712289736127676) = Finite (6233923820447495 / 9007199254740992)"
    by (rule fin_eqI [where e = "(- 1)" and k = "6233923820447495"]) (simp_all add: powr_minus)
  have f23: "fin (155848095511187375 / 2251799813685248) = Finite (4870252984724605 / 70368744177664)"
    by (rule fin_eqI [where e = "6" and k = "4870252984724605"]) (simp_all add: powr_minus)
  show ?thesis
    unfolding brayton_work_f_def gamma_exponent_f64 pow_f64_128
    by (simp add: Let_def and_then_def py_div_f_def f64_sub_def CP_AIR_def fin_0
        f1 f2 f3 f4 f5 f6 f7 f8 f9 f10 f11 f12 f13 f14 f15 f16 f17 f18 f19 f20 f21 f22 f23)
qed

text \<open>
  The run \<^verbatim>\<open>brayton_cycle(25, 128, 1200, 1, 1)\<close> satisfies the hypotheses and the bound.
\<close>

theorem brayton_first_law_witness:
  "\<exists>w qi qo wn t1 t2 t3 t4.
     brayton_work_f pow_f64 (Finite 25) (Finite 128) (Finite 1200) (Finite 1) (Finite 1) = Inr w \<and>
     gas_work_f.q_in w = Finite qi \<and> gas_work_f.q_out w = Finite qo \<and>
     gas_work_f.w_net w = Finite wn \<and>
     gas_work_f.w_net w = f64_sub (gas_work_f.w_turb w) (gas_work_f.w_comp w) \<and>
     gas_work_f.T1 w = Finite t1 \<and> gas_work_f.T2 w = Finite t2 \<and>
     gas_work_f.T3 w = Finite t3 \<and> gas_work_f.T4 w = Finite t4 \<and>
     \<bar>qi - qo - wn\<bar> \<le> 16 * f64_u * (\<bar>t1\<bar> + \<bar>t2\<bar> + \<bar>t3\<bar> + \<bar>t4\<bar>) + 32 * f64_eta"
proof -
  define w where "w = projr (brayton_work_f pow_f64 (Finite 25) (Finite 128) (Finite 1200) (Finite 1) (Finite 1))"
  have w: "brayton_work_f pow_f64 (Finite 25) (Finite 128) (Finite 1200) (Finite 1) (Finite 1) = Inr w"
    by (simp add: w_def brayton_work_f_128_1200)
  have qi: "gas_work_f.q_in w = Finite (1240041308433681 / 4398046511104)"
    and qo: "gas_work_f.q_out w = Finite (1240041308433681 / 17592186044416)"
    and wt: "gas_work_f.w_turb w = Finite (1220883211672879 / 1099511627776)"
    and wc: "gas_work_f.w_comp w = Finite (3953501865366255 / 4398046511104)"
    and wn: "gas_work_f.w_net w = Finite (930030981325261 / 4398046511104)"
    by (simp_all add: w_def brayton_work_f_128_1200)
  from brayton_first_law [OF w qi qo wt wc wn] w qi qo wn show ?thesis by blast
qed

text \<open>
  In that run \<open>q_in\<close> is positive, \<open>q_in - q_out\<close> is 211.46456250000045 when it is computed
  in doubles and \<open>w_net\<close> is 211.4645625000005; the exact difference of the two doubles is
  not \<open>w_net\<close> either.
\<close>

theorem brayton_first_law_counterexample:
  "\<not> isl (brayton_work_f pow_f64 (Finite 25) (Finite 128) (Finite 1200) (Finite 1) (Finite 1)) \<and>
   f64_positive (gas_work_f.q_in (projr (brayton_work_f pow_f64 (Finite 25) (Finite 128) (Finite 1200) (Finite 1) (Finite 1)))) \<and>
   gas_work_f.q_in (projr (brayton_work_f pow_f64 (Finite 25) (Finite 128) (Finite 1200) (Finite 1) (Finite 1))) = Finite (1240041308433681 / 4398046511104) \<and>
   gas_work_f.q_out (projr (brayton_work_f pow_f64 (Finite 25) (Finite 128) (Finite 1200) (Finite 1) (Finite 1))) = Finite (1240041308433681 / 17592186044416) \<and>
   gas_work_f.w_net (projr (brayton_work_f pow_f64 (Finite 25) (Finite 128) (Finite 1200) (Finite 1) (Finite 1))) = Finite (930030981325261 / 4398046511104) \<and>
   f64_sub (Finite (1240041308433681 / 4398046511104)) (Finite (1240041308433681 / 17592186044416)) = Finite (3720123925301043 / 17592186044416) \<and>
   (3720123925301043 / 17592186044416 :: real) \<noteq> 930030981325261 / 4398046511104 \<and>
   (1240041308433681 / 4398046511104 :: real) - 1240041308433681 / 17592186044416 \<noteq> 930030981325261 / 4398046511104"
proof -
  have g1: "fin (3720123925301043 / 17592186044416) = Finite (3720123925301043 / 17592186044416)"
    by (rule fin_eqI [where e = "7" and k = "7440247850602086"]) (simp_all add: powr_minus)
  show ?thesis by (simp add: brayton_work_f_128_1200 f64_sub_def g1)
qed

lemma brayton_enthalpy_f_128_1200:
  "brayton_enthalpy_f (projr (brayton_work_f pow_f64 (Finite 25) (Finite 128) (Finite 1200) (Finite 1) (Finite 1))) =
     [Finite 0, Finite (3953501865366255 / 4398046511104), Finite (5193543173799935 / 4398046511104), Finite (1240041308433681 / 17592186044416)]"
proof -
  have g1: "fin (201 / 200) = Finite (1131529406376837 / 1125899906842624)"
    by (rule fin_eqI [where e = "0" and k = "4526117625507348"]) (simp_all add: powr_minus)
  have g2: "fin (7867665403713941 / 8796093022208) = Finite (7867665403713941 / 8796093022208)"
    by (rule fin_eqI [where e = "9" and k = "7867665403713941"]) (simp_all add: powr_minus)
  have g3: "fin (8902494763836013281388396384617 / 9903520314283042199192993792) = Finite (3953501865366255 / 4398046511104)"
    by (rule fin_eqI [where e = "9" and k = "7907003730732510"]) (simp_all add: powr_minus)
  have g4: "fin (10335409301094401 / 8796093022208) = Finite (1175)"
    by (rule fin_tie_eqI [where e = "10" and f = "5167704650547200"]) (simp_all add: powr_minus)
  have g5: "fin (1329547052492783475 / 1125899906842624) = Finite (5193543173799935 / 4398046511104)"
    by (rule fin_eqI [where e = "10" and k = "5193543173799935"]) (simp_all add: powr_minus)
  have g6: "fin (616935974345115 / 8796093022208) = Finite (616935974345115 / 8796093022208)"
    by (rule fin_eqI [where e = "6" and k = "4935487794760920"]) (simp_all add: powr_minus)
  have g7: "fin (698081196823243516715980101255 / 9903520314283042199192993792) = Finite (1240041308433681 / 17592186044416)"
    by (rule fin_eqI [where e = "6" and k = "4960165233734724"]) (simp_all add: powr_minus)
  show ?thesis
    by (simp add: brayton_work_f_128_1200 brayton_enthalpy_f_def Let_def f64_sub_def CP_AIR_def fin_0 g1 g2 g3 g4 g5 g6 g7)
qed

text \<open>
  The run \<^verbatim>\<open>brayton_cycle(25, 128, 1200, 1, 1)\<close> satisfies the hypotheses and the bound.
\<close>

theorem brayton_enthalpy_coupling_witness:
  "\<exists>w qi h2v h3v t1 t2 t3.
     brayton_work_f pow_f64 (Finite 25) (Finite 128) (Finite 1200) (Finite 1) (Finite 1) = Inr w \<and>
     gas_work_f.q_in w = Finite qi \<and>
     brayton_enthalpy_f w ! 0 = Finite 0 \<and>
     brayton_enthalpy_f w ! 1 = Finite h2v \<and> brayton_enthalpy_f w ! 1 = gas_work_f.w_comp w \<and>
     brayton_enthalpy_f w ! 2 = Finite h3v \<and>
     brayton_enthalpy_f w ! 3 = gas_work_f.q_out w \<and>
     gas_work_f.T1 w = Finite t1 \<and> gas_work_f.T2 w = Finite t2 \<and> gas_work_f.T3 w = Finite t3 \<and>
     \<bar>qi - (h3v - h2v)\<bar> \<le> 16 * f64_u * (\<bar>t1\<bar> + \<bar>t2\<bar> + \<bar>t3\<bar>) + 16 * f64_eta"
proof -
  define w where "w = projr (brayton_work_f pow_f64 (Finite 25) (Finite 128) (Finite 1200) (Finite 1) (Finite 1))"
  have w: "brayton_work_f pow_f64 (Finite 25) (Finite 128) (Finite 1200) (Finite 1) (Finite 1) = Inr w"
    by (simp add: w_def brayton_work_f_128_1200)
  have qi: "gas_work_f.q_in w = Finite (1240041308433681 / 4398046511104)"
    by (simp add: w_def brayton_work_f_128_1200)
  have hb: "brayton_enthalpy_f w ! 1 = Finite (3953501865366255 / 4398046511104)"
    and hc: "brayton_enthalpy_f w ! 2 = Finite (5193543173799935 / 4398046511104)"
    unfolding w_def brayton_enthalpy_f_128_1200 by simp_all
  from brayton_enthalpy_coupling [OF w qi hb hc] w qi hb hc show ?thesis by blast
qed

text \<open>
  In that run \<open>q_in\<close> is 281.9527500000006 and \<open>h3 - h2\<close> is 281.9527500000004 when it is
  computed in doubles; the exact difference of the two doubles is not \<open>q_in\<close> either.
\<close>

theorem brayton_enthalpy_coupling_counterexample:
  "\<not> isl (brayton_work_f pow_f64 (Finite 25) (Finite 128) (Finite 1200) (Finite 1) (Finite 1)) \<and>
   gas_work_f.q_in (projr (brayton_work_f pow_f64 (Finite 25) (Finite 128) (Finite 1200) (Finite 1) (Finite 1))) = Finite (1240041308433681 / 4398046511104) \<and>
   brayton_enthalpy_f (projr (brayton_work_f pow_f64 (Finite 25) (Finite 128) (Finite 1200) (Finite 1) (Finite 1))) ! 1 = Finite (3953501865366255 / 4398046511104) \<and>
   brayton_enthalpy_f (projr (brayton_work_f pow_f64 (Finite 25) (Finite 128) (Finite 1200) (Finite 1) (Finite 1))) ! 2 = Finite (5193543173799935 / 4398046511104) \<and>
   f64_sub (Finite (5193543173799935 / 4398046511104)) (Finite (3953501865366255 / 4398046511104)) = Finite (77502581777105 / 274877906944) \<and>
   (1240041308433681 / 4398046511104 :: real) \<noteq> 77502581777105 / 274877906944 \<and>
   (1240041308433681 / 4398046511104 :: real) \<noteq> 5193543173799935 / 4398046511104 - 3953501865366255 / 4398046511104"
proof -
  have g8: "fin (77502581777105 / 274877906944) = Finite (77502581777105 / 274877906944)"
    by (rule fin_eqI [where e = "8" and k = "4960165233734720"]) (simp_all add: powr_minus)
  show ?thesis unfolding brayton_enthalpy_f_128_1200
    by (simp add: brayton_work_f_128_1200 f64_sub_def g8)
qed

text \<open>
  The run \<^verbatim>\<open>brayton_cycle(25, 128, 1450, 1, 1)\<close> satisfies the hypotheses and the bounds.
\<close>

theorem brayton_ideal_cycle_witness:
  "\<exists>w t1 t2 t3 t4 t2s t4s.
     brayton_work_f pow_f64 (Finite 25) (Finite 128) (Finite 1450) (Finite 1) (Finite 1) = Inr w \<and>
     gas_work_f.T2 w = Finite t2 \<and> gas_work_f.T4 w = Finite t4 \<and>
     gas_work_f.T2s w = f64_mul (gas_work_f.T1 w)
        (pow_f64 (Finite 128) (f64_divide (f64_sub (fin GAMMA_AIR) (fin 1)) (fin GAMMA_AIR))) \<and>
     gas_work_f.T4s w = f64_divide (gas_work_f.T3 w)
        (pow_f64 (Finite 128) (f64_divide (f64_sub (fin GAMMA_AIR) (fin 1)) (fin GAMMA_AIR))) \<and>
     gas_work_f.T1 w = Finite t1 \<and> gas_work_f.T3 w = Finite t3 \<and>
     gas_work_f.T2s w = Finite t2s \<and> gas_work_f.T4s w = Finite t4s \<and>
     \<bar>t2 - t2s\<bar> \<le> 8 * f64_u * (\<bar>t1\<bar> + \<bar>t2s\<bar>) + 8 * f64_eta \<and>
     \<bar>t4 - t4s\<bar> \<le> 8 * f64_u * (\<bar>t3\<bar> + \<bar>t4s\<bar>) + 8 * f64_eta"
proof -
  define w where "w = projr (brayton_work_f pow_f64 (Finite 25) (Finite 128) (Finite 1450) (Finite 1) (Finite 1))"
  have w: "brayton_work_f pow_f64 (Finite 25) (Finite 128) (Finite 1450) (Finite 1) (Finite 1) = Inr w"
    by (simp add: w_def brayton_work_f_128_1450)
  have t2: "gas_work_f.T2 w = Finite (1311277567285657 / 1099511627776)"
    and t4: "gas_work_f.T4 w = Finite (1894623461402215 / 4398046511104)"
    by (simp_all add: w_def brayton_work_f_128_1450)
  from brayton_ideal_cycle [OF w t2 t4] w t2 t4 show ?thesis by blast
qed

text \<open>
  In that run \<open>T4\<close> is 430.78750000000014 and \<open>T4s\<close> is 430.7875000000002.
\<close>

theorem brayton_ideal_cycle_counterexample:
  "\<not> isl (brayton_work_f pow_f64 (Finite 25) (Finite 128) (Finite 1450) (Finite 1) (Finite 1)) \<and>
   gas_work_f.T4 (projr (brayton_work_f pow_f64 (Finite 25) (Finite 128) (Finite 1450) (Finite 1) (Finite 1))) = Finite (1894623461402215 / 4398046511104) \<and>
   gas_work_f.T4s (projr (brayton_work_f pow_f64 (Finite 25) (Finite 128) (Finite 1450) (Finite 1) (Finite 1))) = Finite (7578493845608861 / 17592186044416) \<and>
   (1894623461402215 / 4398046511104 :: real) \<noteq> 7578493845608861 / 17592186044416"
  by (simp add: brayton_work_f_128_1450)

section \<open>Properties of the estimators\<close>

text \<open>
  The dry mass \<^verbatim>\<open>feed_rate * (1 - moisture_pct / 100)\<close>, which both estimators compute
  first.
\<close>

lemma dry_mass_f64:
  assumes "is_f64 feed_rate" and "0 \<le> feed_rate" and "0 \<le> moisture_pct" and "moisture_pct \<le> 100"
  defines "b \<equiv> nearest (1 - nearest (moisture_pct / 100))"
  shows "f64_mul (Finite feed_rate) (f64_sub (fin 1) (f64_divide (Finite moisture_pct) (fin 100))) =
           Finite (nearest (feed_rate * b))"
    and "0 \<le> nearest (feed_rate * b)" and "nearest (feed_rate * b) \<le> feed_rate"
    and "\<bar>nearest (feed_rate * b) + feed_rate * moisture_pct / 100 - feed_rate\<bar>
           \<le> 5 * f64_u * feed_rate + f64_eta"
proof -
  define a where "a = nearest (moisture_pct / 100)"
  have m: "0 \<le> moisture_pct / 100" "moisture_pct / 100 \<le> 1" using assms(3,4) by simp_all
  note A = nearest_unit_interval [OF m, folded a_def]
  have "0 \<le> 1 - a" "1 - a \<le> 1" using A by simp_all
  note B = nearest_unit_interval [OF this, folded b_def [unfolded a_def [symmetric]]]
  have fb: "0 \<le> feed_rate * b" using assms(2) B(1) by simp
  have "feed_rate * b \<le> feed_rate * 1" using assms(2) B(2) by (intro mult_left_mono)
  then have fb1: "feed_rate * b \<le> feed_rate" by simp
  have rep: "nearest feed_rate = feed_rate" and big: "\<bar>feed_rate\<bar> < 2 ^ 1024"
    using assms(1) by (simp_all add: is_f64_def)
  show d0: "0 \<le> nearest (feed_rate * b)" using fb by (rule nearest_nonneg)
  show d1: "nearest (feed_rate * b) \<le> feed_rate" using fb fb1 rep by (rule nearest_le_representable)
  have "\<bar>nearest (feed_rate * b)\<bar> < 2 ^ 1024" using d0 d1 big by linarith
  then have D: "fin (feed_rate * b) = Finite (nearest (feed_rate * b))" by (rule fin_Finite)
  show "f64_mul (Finite feed_rate) (f64_sub (fin 1) (f64_divide (Finite moisture_pct) (fin 100))) =
           Finite (nearest (feed_rate * b))"
    using A(3) B(3) D by (simp add: fin_1 fin_100 f64_sub_def)
  have ea: "\<bar>a - moisture_pct / 100\<bar> \<le> f64_u + f64_eta"
  proof -
    have "\<bar>a - moisture_pct / 100\<bar> \<le> f64_u * \<bar>moisture_pct / 100\<bar> + f64_eta"
      unfolding a_def by (rule nearest_error)
    moreover have "f64_u * \<bar>moisture_pct / 100\<bar> \<le> f64_u * 1"
      using m f64_u_pos by (intro mult_left_mono) simp_all
    ultimately show ?thesis by simp
  qed
  have eb: "\<bar>b - (1 - a)\<bar> \<le> f64_u + f64_eta"
  proof -
    have "\<bar>b - (1 - a)\<bar> \<le> f64_u * \<bar>1 - a\<bar> + f64_eta"
      unfolding b_def a_def by (rule nearest_error)
    moreover have "f64_u * \<bar>1 - a\<bar> \<le> f64_u * 1"
      using A f64_u_pos by (intro mult_left_mono) simp_all
    ultimately show ?thesis by simp
  qed
  have ed: "\<bar>nearest (feed_rate * b) - feed_rate * b\<bar> \<le> f64_u * feed_rate + f64_eta"
  proof -
    have "\<bar>nearest (feed_rate * b) - feed_rate * b\<bar> \<le> f64_u * \<bar>feed_rate * b\<bar> + f64_eta"
      by (rule nearest_error)
    moreover have "f64_u * \<bar>feed_rate * b\<bar> \<le> f64_u * feed_rate"
      using fb fb1 f64_u_pos by (intro mult_left_mono) simp_all
    ultimately show ?thesis by simp
  qed
  have p1: "\<bar>feed_rate * (b - (1 - a))\<bar> \<le> feed_rate * (f64_u + f64_eta)"
    unfolding abs_mult using eb assms(2) by (simp add: mult_left_mono)
  have p2: "\<bar>feed_rate * (moisture_pct / 100 - a)\<bar> \<le> feed_rate * (f64_u + f64_eta)"
    unfolding abs_mult using ea assms(2) by (simp add: mult_left_mono abs_minus_commute)
  have p3: "feed_rate * f64_eta \<le> feed_rate * f64_u"
    using f64_eta_le_u assms(2) by (rule mult_left_mono)
  have split: "nearest (feed_rate * b) + feed_rate * moisture_pct / 100 - feed_rate =
      (nearest (feed_rate * b) - feed_rate * b) + feed_rate * (b - (1 - a)) +
      feed_rate * (moisture_pct / 100 - a)"
    by (simp add: algebra_simps)
  have "\<bar>nearest (feed_rate * b) + feed_rate * moisture_pct / 100 - feed_rate\<bar>
      \<le> (f64_u * feed_rate + f64_eta) + feed_rate * (f64_u + f64_eta) + feed_rate * (f64_u + f64_eta)"
    unfolding split using ed p1 p2 by linarith
  also have "\<dots> \<le> 5 * f64_u * feed_rate + f64_eta"
    using p3 by (simp add: algebra_simps)
  finally show "\<bar>nearest (feed_rate * b) + feed_rate * moisture_pct / 100 - feed_rate\<bar>
           \<le> 5 * f64_u * feed_rate + f64_eta" .
qed

lemma fin_34_100: "fin (17 / 50) = Finite (6124895493223875 / 18014398509481984)"
  by (rule fin_eqI [where e = "(- 2)" and k = "6124895493223875"]) (simp_all add: powr_minus)

lemma fin_c7_b: "fin (11889503016258109 / 18014398509481984) = Finite (2972375754064527 / 4503599627370496)"
  by (rule fin_tie_eqI [where e = "(- 1)" and f = "5944751508129054"]) (simp_all add: powr_minus)

lemma fin_c7_d: "fin (74309393851613175 / 1125899906842624) = Finite (4644337115725823 / 70368744177664)"
  by (rule fin_eqI [where e = "6" and k = "4644337115725823"]) (simp_all add: powr_minus)

lemma c7_eval:
  "ad_vars.dry_mass (ad_biogas_vars (Finite 100) (Finite 34) vs_fraction) = Finite (4644337115725823 / 70368744177664)"
  by (simp add: ad_biogas_vars_def Let_def f64_sub_def fin_1 fin_100 fin_34_100 fin_c7_b fin_c7_d)

lemma fin_060: "fin (3 / 5) = Finite (5404319552844595 / 9007199254740992)"
  by (rule fin_eqI [where e = "- 1" and k = 5404319552844595]) (simp_all add: powr_minus)

lemma py_round_of_int: "py_round (of_int j) n = of_int j"
proof -
  have "round_half_even (of_int (j * 10 ^ n)) = j * 10 ^ n"
    by (rule round_half_even_eqI) simp_all
  then have "round_half_even (of_int j * 10 ^ n) = j * 10 ^ n" by simp
  then show ?thesis by (simp add: py_round_def)
qed

lemma py_round_le: "py_round x n \<le> x + 1"
proof -
  have p: "(0::real) < 10 ^ n" by simp
  have o: "(1::real) \<le> 10 ^ n" by simp
  have "of_int (round_half_even (x * 10 ^ n)) \<le> x * 10 ^ n + 1 / 2"
    using round_half_even_bounds [of "x * 10 ^ n"] by linarith
  also have "\<dots> \<le> x * 10 ^ n + 1 * 10 ^ n" using o by linarith
  finally have "of_int (round_half_even (x * 10 ^ n)) \<le> (x + 1) * 10 ^ n"
    by (simp add: algebra_simps)
  then show ?thesis unfolding py_round_def using p by (simp add: pos_divide_le_eq)
qed

lemma nearest_large_int:
  assumes "2 ^ 53 \<le> t"
  shows "\<exists>j::int. nearest t = of_int j"
proof -
  have t0: "0 < t" using assms by (smt (verit) zero_less_power)
  have "(53::real) = log 2 (2 ^ 53)" by (simp only: log_pow_cancel)
  also have "\<dots> \<le> log 2 t" using assms t0 by (subst log_le_cancel_iff) simp_all
  finally have "53 \<le> \<lfloor>log 2 \<bar>t\<bar>\<rfloor>" using t0 by (simp add: le_floor_iff)
  then have e: "53 \<le> f64_exponent t" by (simp add: f64_exponent_def)
  define n where "n = nat (f64_exponent t - 52)"
  have "of_int (f64_exponent t - 52) = (of_nat n :: real)" using e by (simp add: n_def)
  then have "f64_ulp t = 2 powr of_nat n" by (simp add: f64_ulp_def)
  also have "\<dots> = 2 ^ n" by (simp add: powr_realpow)
  finally have u: "f64_ulp t = 2 ^ n" .
  have "nearest t = of_int (round_half_even (t / 2 ^ n) * 2 ^ n)"
    using t0 by (simp add: nearest_def u)
  then show ?thesis by blast
qed

lemma nearest_pow2_53: "nearest (2 ^ 53) = 2 ^ 53"
  by (rule nearest_eqI [where e = 53 and k = "2 ^ 52"]) (simp_all add: powr_minus)

lemma nearest_pow2_54: "nearest (2 ^ 54) = 2 ^ 54"
  by (rule nearest_eqI [where e = 54 and k = "2 ^ 52"]) (simp_all add: powr_minus)

text \<open>
  Rounding a non-negative double to two decimals gives a finite non-negative double.
\<close>

lemma py_round_f64_nonneg:
  assumes t: "0 \<le> t" and y: "nearest t \<le> y" "is_f64 y"
  shows "\<exists>r. py_round_f64 (Finite (nearest t)) 2 = Finite r \<and> 0 \<le> r"
proof -
  define p where "p = nearest t"
  define z where "z = py_round p 2"
  have p0: "0 \<le> p" unfolding p_def using t by (rule nearest_nonneg)
  have z0: "0 \<le> z" unfolding z_def using p0 by (rule py_round_nonneg)
  have n0: "0 \<le> nearest z" using z0 by (rule nearest_nonneg)
  have "nearest z < 2 ^ 1024"
  proof (cases "t < 2 ^ 53")
    case True
    then have "p \<le> 2 ^ 53"
      unfolding p_def using t nearest_pow2_53 by (intro nearest_le_representable) simp_all
    moreover have "z \<le> p + 1" unfolding z_def by (rule py_round_le)
    ultimately have "z \<le> 2 ^ 54" by simp
    with z0 have "nearest z \<le> 2 ^ 54" using nearest_pow2_54 by (rule nearest_le_representable)
    also have "(2::real) ^ 54 < 2 ^ 1024" by simp
    finally show ?thesis .
  next
    case False
    then obtain j :: int where "p = of_int j" unfolding p_def using nearest_large_int [of t] by auto
    then have "z = p" by (simp add: z_def py_round_of_int)
    then have "z \<le> y" using y(1) by (simp add: p_def)
    with z0 have "nearest z \<le> y" using y(2) by (intro nearest_le_representable) (simp_all add: is_f64_def)
    moreover have "\<bar>y\<bar> < 2 ^ 1024" using y(2) unfolding is_f64_def by blast
    ultimately show ?thesis by linarith
  qed
  then have "fin z = Finite (nearest z)" using n0 by (intro fin_Finite) simp
  then show ?thesis using n0 by (simp add: p_def z_def)
qed

text \<open>
  Claim C10, as amended. For every double \<open>feed_rate \<ge> 0\<close> and every \<open>moisture_pct\<close> in
  \<open>[0, 100]\<close>, the unrounded process water of \<^verbatim>\<open>htc_process\<close> is a finite double \<open>pw\<close> with
  \<open>pw \<ge> 0\<close> and \<open>pw \<ge> (0.4 - 2 * f64_u) * feed_rate - 2 * f64_eta\<close>, and the returned
  \<^verbatim>\<open>process_water_kg_h\<close> is a finite double that is not negative. The bound
  \<open>pw \<ge> 0.4 * feed_rate\<close> itself is not a property of the doubles.
\<close>

theorem htc_process_water_nonneg:
  assumes "is_f64 feed_rate" and "0 \<le> feed_rate" and "0 \<le> moisture_pct" and "moisture_pct \<le> 100"
  shows "\<exists>pw r. htc_vars.process_water
             (htc_process_vars (Finite feed_rate) (Finite moisture_pct) T_reactor) = Finite pw \<and>
           0 \<le> pw \<and> (4 / 10 - 2 * f64_u) * feed_rate - 2 * f64_eta \<le> pw \<and>
           htc_process (Finite feed_rate) (Finite moisture_pct) T_reactor ''process_water_kg_h'' =
             Some (Finite r) \<and> 0 \<le> r"
proof -
  define b where "b = nearest (1 - nearest (moisture_pct / 100))"
  define d where "d = nearest (feed_rate * b)"
  define c where "c = (5404319552844595 / 9007199254740992 :: real)"
  define hc where "hc = nearest (d * c)"
  define pw where "pw = nearest (feed_rate - hc)"
  note D = dry_mass_f64 [OF assms, folded b_def, folded d_def]
  have rep: "nearest feed_rate = feed_rate" and big: "\<bar>feed_rate\<bar> < 2 ^ 1024"
    using assms(1) by (simp_all add: is_f64_def)
  have c: "0 \<le> c" "c \<le> 6 / 10" "c \<le> 1" by (simp_all add: c_def)
  have dc0: "0 \<le> d * c" using D(2) c(1) by simp
  have "d * c \<le> d * 1" using D(2) c(3) by (intro mult_left_mono)
  then have dc1: "d * c \<le> feed_rate" using D(3) by simp
  have "d * c \<le> feed_rate * c" using D(3) c(1) by (intro mult_right_mono)
  also have "\<dots> \<le> feed_rate * (6 / 10)" using assms(2) c(2) by (intro mult_left_mono)
  finally have dc6: "d * c \<le> 6 / 10 * feed_rate" by simp
  have h0: "0 \<le> hc" unfolding hc_def using dc0 by (rule nearest_nonneg)
  have h1: "hc \<le> feed_rate" unfolding hc_def using dc0 dc1 rep by (rule nearest_le_representable)
  have "\<bar>hc\<bar> < 2 ^ 1024" using h0 h1 big by linarith
  then have H: "fin (d * c) = Finite hc" unfolding hc_def by (rule fin_Finite)
  have p0: "0 \<le> pw" unfolding pw_def using h1 by (intro nearest_nonneg) simp
  have p1: "pw \<le> feed_rate" unfolding pw_def
    using h0 h1 rep by (intro nearest_le_representable) simp_all
  have "\<bar>pw\<bar> < 2 ^ 1024" using p0 p1 big by linarith
  then have P: "fin (feed_rate - hc) = Finite pw" unfolding pw_def by (rule fin_Finite)
  have val: "htc_vars.process_water
      (htc_process_vars (Finite feed_rate) (Finite moisture_pct) T_reactor) = Finite pw"
    using D(1) H P by (simp add: htc_process_vars_def Let_def fin_060 f64_sub_def c_def)
  have u0: "0 \<le> f64_u" using f64_u_pos by simp
  define UF where "UF = f64_u * feed_rate"
  have UF0: "0 \<le> UF" unfolding UF_def using u0 assms(2) by simp
  have eh: "\<bar>hc - d * c\<bar> \<le> f64_u * \<bar>d * c\<bar> + f64_eta" unfolding hc_def by (rule nearest_error)
  have "f64_u * \<bar>d * c\<bar> \<le> f64_u * (6 / 10 * feed_rate)"
    using dc0 dc6 by (intro mult_left_mono [OF _ u0]) simp
  also have "\<dots> = 6 / 10 * UF" by (simp add: UF_def)
  finally have "f64_u * \<bar>d * c\<bar> \<le> 6 / 10 * UF" .
  then have hub: "hc \<le> 6 / 10 * feed_rate + 6 / 10 * UF + f64_eta"
    using eh dc6 by linarith
  have ep: "\<bar>pw - (feed_rate - hc)\<bar> \<le> f64_u * \<bar>feed_rate - hc\<bar> + f64_eta"
    unfolding pw_def by (rule nearest_error)
  have "f64_u * \<bar>feed_rate - hc\<bar> \<le> f64_u * feed_rate"
    using h0 h1 by (intro mult_left_mono [OF _ u0]) simp
  then have "feed_rate - hc - UF - f64_eta \<le> pw" using ep unfolding UF_def by linarith
  then have "4 / 10 * feed_rate - 2 * UF - 2 * f64_eta \<le> pw"
    using hub UF0 by linarith
  then have "(4 / 10 - 2 * f64_u) * feed_rate - 2 * f64_eta \<le> pw"
    by (simp add: UF_def algebra_simps)
  then have low: "(4 / 10 - 2 * f64_u) * feed_rate - 2 * f64_eta \<le> pw" .
  have "0 \<le> feed_rate - hc" using h1 by simp
  moreover have "nearest (feed_rate - hc) \<le> feed_rate" using p1 by (simp add: pw_def)
  ultimately obtain r where r: "py_round_f64 (Finite (nearest (feed_rate - hc))) 2 = Finite r"
    and r0: "0 \<le> r"
    using py_round_f64_nonneg [OF _ _ assms(1)] by blast
  have "htc_process (Finite feed_rate) (Finite moisture_pct) T_reactor ''process_water_kg_h'' =
      Some (py_round_f64 (htc_vars.process_water
        (htc_process_vars (Finite feed_rate) (Finite moisture_pct) T_reactor)) 2)"
    by (simp add: htc_process_def Let_def)
  then have "htc_process (Finite feed_rate) (Finite moisture_pct) T_reactor ''process_water_kg_h'' =
      Some (Finite r)"
    using r by (simp add: val pw_def)
  with val p0 low r0 show ?thesis by blast
qed

lemma is_f64_7: "is_f64 7"
  unfolding is_f64_def
  by (rule conjI, rule nearest_eqI [where e = 2 and k = "7 * 2 ^ 50"]) (simp_all add: powr_minus)

lemma is_f64_100: "is_f64 100"
  by (simp add: is_f64_def nearest_100)

lemma htc_process_vars_7:
  "htc_vars.process_water (htc_process_vars (Finite 7) (Finite 0) T_reactor) =
     Finite (3152519739159347 / 1125899906842624)"
proof -
  have f1: "fin (7) = Finite (7)"
    by (rule fin_eqI [where e = "2" and k = "7881299347898368"]) (simp_all add: powr_minus)
  have f3: "fin (37830236869912165 / 9007199254740992) = Finite (4728779608739021 / 1125899906842624)"
    by (rule fin_eqI [where e = "2" and k = "4728779608739021"]) (simp_all add: powr_minus)
  have f4: "fin (3152519739159347 / 1125899906842624) = Finite (3152519739159347 / 1125899906842624)"
    by (rule fin_eqI [where e = "1" and k = "6305039478318694"]) (simp_all add: powr_minus)
  show ?thesis
    by (simp add: htc_process_vars_def Let_def f64_sub_def fin_0 fin_1 fin_100 fin_060 f1 f3 f4)
qed

text \<open>
  Feed rate 7 and moisture 0 satisfy the hypotheses and the conclusions.
\<close>

theorem htc_process_water_nonneg_witness:
  "\<exists>pw r. htc_vars.process_water (htc_process_vars (Finite 7) (Finite 0) (Finite 200)) = Finite pw \<and>
     0 \<le> pw \<and> (4 / 10 - 2 * f64_u) * 7 - 2 * f64_eta \<le> pw \<and>
     htc_process (Finite 7) (Finite 0) (Finite 200) ''process_water_kg_h'' = Some (Finite r) \<and>
     0 \<le> r"
  using htc_process_water_nonneg [OF is_f64_7, of 0 "Finite 200"] by simp

text \<open>
  At feed rate 7 and moisture 0 the unrounded process water is the double nearest to 2.8,
  which is below \<open>0.4 * 7\<close>, taken exactly or in doubles (2.8000000000000003).
\<close>

theorem htc_process_water_nonneg_counterexample:
  "htc_vars.process_water (htc_process_vars (Finite 7) (Finite 0) (Finite 200)) =
     Finite (3152519739159347 / 1125899906842624) \<and>
   (3152519739159347 / 1125899906842624 :: real) < 4 / 10 * 7 \<and>
   f64_mul (fin 0.4) (Finite 7) = Finite (6305039478318695 / 2251799813685248) \<and>
   (3152519739159347 / 1125899906842624 :: real) < 6305039478318695 / 2251799813685248"
proof -
  have f5: "fin (2 / 5) = Finite (3602879701896397 / 9007199254740992)"
    by (rule fin_eqI [where e = "(- 2)" and k = "7205759403792794"]) (simp_all add: powr_minus)
  have f6: "fin (25220157913274779 / 9007199254740992) = Finite (6305039478318695 / 2251799813685248)"
    by (rule fin_eqI [where e = "1" and k = "6305039478318695"]) (simp_all add: powr_minus)
  show ?thesis by (simp add: htc_process_vars_7 f5 f6)
qed

text \<open>
  Claim C7, as amended. For every double \<open>feed_rate \<ge> 0\<close> and every \<open>moisture_pct\<close> in
  \<open>[0, 100]\<close>, both estimators compute the same dry mass \<open>d\<close>, a finite double with
  \<open>0 \<le> d \<le> feed_rate\<close>, and \<open>d + feed_rate * moisture_pct / 100\<close> (taken exactly) differs from
  \<open>feed_rate\<close> by at most \<open>5 * f64_u * feed_rate + f64_eta\<close>; the field \<^verbatim>\<open>dry_mass\<close> that
  both return is \<^verbatim>\<open>round(d, 2)\<close>. The balance itself is not a property of the doubles.
\<close>

theorem dry_mass_balance:
  assumes "is_f64 feed_rate" and "0 \<le> feed_rate" and "0 \<le> moisture_pct" and "moisture_pct \<le> 100"
  shows "\<exists>d. ad_vars.dry_mass (ad_biogas_vars (Finite feed_rate) (Finite moisture_pct) vs_fraction) =
             Finite d \<and>
           htc_vars.dry_mass (htc_process_vars (Finite feed_rate) (Finite moisture_pct) T_reactor) =
             Finite d \<and>
           0 \<le> d \<and> d \<le> feed_rate \<and>
           \<bar>d + feed_rate * moisture_pct / 100 - feed_rate\<bar> \<le> 5 * f64_u * feed_rate + f64_eta \<and>
           ad_biogas_yield (Finite feed_rate) (Finite moisture_pct) vs_fraction ''dry_mass'' =
             Some (py_round_f64 (Finite d) 2) \<and>
           htc_process (Finite feed_rate) (Finite moisture_pct) T_reactor ''dry_mass'' =
             Some (py_round_f64 (Finite d) 2)"
proof -
  define d where "d = nearest (feed_rate * nearest (1 - nearest (moisture_pct / 100)))"
  note D = dry_mass_f64 [OF assms, folded d_def]
  have a: "ad_vars.dry_mass (ad_biogas_vars (Finite feed_rate) (Finite moisture_pct) vs_fraction) =
      Finite d"
    using D(1) by (simp add: ad_biogas_vars_def Let_def)
  have b: "htc_vars.dry_mass (htc_process_vars (Finite feed_rate) (Finite moisture_pct) T_reactor) =
      Finite d"
    using D(1) by (simp add: htc_process_vars_def Let_def)
  have "ad_biogas_yield (Finite feed_rate) (Finite moisture_pct) vs_fraction ''dry_mass'' =
      Some (py_round_f64 (Finite d) 2)"
    unfolding ad_biogas_yield_def Let_def a by simp
  moreover have "htc_process (Finite feed_rate) (Finite moisture_pct) T_reactor ''dry_mass'' =
      Some (py_round_f64 (Finite d) 2)"
    unfolding htc_process_def Let_def b by simp
  ultimately show ?thesis using a b D(2-4) by blast
qed

text \<open>
  Feed rate 100 and moisture 34 satisfy the hypotheses and the bound.
\<close>

theorem dry_mass_balance_witness:
  "\<exists>d. ad_vars.dry_mass (ad_biogas_vars (Finite 100) (Finite 34) (fin 0.8)) = Finite d \<and>
       htc_vars.dry_mass (htc_process_vars (Finite 100) (Finite 34) (Finite 200)) = Finite d \<and>
       0 \<le> d \<and> d \<le> 100 \<and>
       \<bar>d + 100 * 34 / 100 - 100\<bar> \<le> 5 * f64_u * 100 + f64_eta \<and>
       ad_biogas_yield (Finite 100) (Finite 34) (fin 0.8) ''dry_mass'' =
         Some (py_round_f64 (Finite d) 2) \<and>
       htc_process (Finite 100) (Finite 34) (Finite 200) ''dry_mass'' =
         Some (py_round_f64 (Finite d) 2)"
  using dry_mass_balance [OF is_f64_100, of 34 "fin 0.8" "Finite 200"] by simp

lemma htc_dry_mass_100_34:
  "htc_vars.dry_mass (htc_process_vars (Finite 100) (Finite 34) T_reactor) =
     Finite (4644337115725823 / 70368744177664)"
  by (simp add: htc_process_vars_def Let_def f64_sub_def fin_1 fin_100 fin_34_100 fin_c7_b fin_c7_d)

text \<open>
  At feed rate 100 and moisture 34 both estimators compute the dry mass 65.99999999999999;
  adding \<open>100 * 34 / 100\<close> gives 99.99999999999999 in doubles, and not 100 exactly either.
\<close>

theorem dry_mass_balance_counterexample:
  "ad_vars.dry_mass (ad_biogas_vars (Finite 100) (Finite 34) (fin 0.8)) =
     Finite (4644337115725823 / 70368744177664) \<and>
   htc_vars.dry_mass (htc_process_vars (Finite 100) (Finite 34) (Finite 200)) =
     Finite (4644337115725823 / 70368744177664) \<and>
   (4644337115725823 / 70368744177664 :: real) + 100 * 34 / 100 \<noteq> 100 \<and>
   f64_add (Finite (4644337115725823 / 70368744177664))
     (f64_divide (f64_mul (Finite 100) (Finite 34)) (Finite 100)) =
     Finite (7036874417766399 / 70368744177664) \<and>
   (7036874417766399 / 70368744177664 :: real) \<noteq> 100"
proof -
  have f4: "fin (3400) = Finite (3400)"
    by (rule fin_eqI [where e = "11" and k = "7476679068876800"]) (simp_all add: powr_minus)
  have f5: "fin (34) = Finite (34)"
    by (rule fin_eqI [where e = "5" and k = "4785074604081152"]) (simp_all add: powr_minus)
  have f6: "fin (7036874417766399 / 70368744177664) = Finite (7036874417766399 / 70368744177664)"
    by (rule fin_eqI [where e = "6" and k = "7036874417766399"]) (simp_all add: powr_minus)
  show ?thesis by (simp add: c7_eval htc_dry_mass_100_34 f4 f5 f6)
qed

subsection \<open>Scaling of the feed rate\<close>

lemma f64_u_le_one: "f64_u \<le> 1"
  using f64_u_le_sixteenth by simp

lemma f64_eta_le_one: "f64_eta \<le> 1"
  using f64_eta_le_u f64_u_le_one by simp

lemma nearest_abs_le: "\<bar>nearest x\<bar> \<le> 2 * \<bar>x\<bar> + 1"
proof -
  have "f64_u * \<bar>x\<bar> \<le> 1 * \<bar>x\<bar>" using f64_u_le_one by (intro mult_right_mono) simp_all
  then show ?thesis using nearest_error [of x] f64_eta_le_one by linarith
qed

lemma fin_bounded:
  assumes "\<bar>x\<bar> \<le> 2 ^ 1020"
  shows "fin x = Finite (nearest x)"
proof -
  have "\<bar>nearest x\<bar> \<le> 2 * \<bar>x\<bar> + 1" by (rule nearest_abs_le)
  also have "\<dots> \<le> 2 * 2 ^ 1020 + 1" using assms by simp
  also have "\<dots> < (2::real) ^ 1024" by simp
  finally show ?thesis by (rule fin_Finite)
qed

text \<open>
  Forward error analysis of a chain of operations on a value proportional to the feed
  rate. A computed \<open>x'\<close> tracks an exact \<open>X\<close> with the constants \<open>a\<close>, \<open>b\<close>, \<open>g\<close> when
  \<open>\<bar>x' - X\<bar> \<le> a * (f64_u * F) + b * f64_eta\<close> and \<open>\<bar>X\<bar> \<le> g * F\<close>, where \<open>F\<close> is the magnitude
  of the feed rate. The three lemmas give the constants after a multiplication by a
  bounded factor, after the subtraction from the feed rate, and after \<^verbatim>\<open>round(., 2)\<close>.
\<close>

lemma mul_stage:
  fixes a b g C F :: real
  assumes e: "\<bar>x' - X\<bar> \<le> a * (f64_u * F) + b * f64_eta"
    and X: "\<bar>X\<bar> \<le> g * F" and c: "\<bar>c\<bar> \<le> C"
    and a0: "0 \<le> a" and b0: "0 \<le> b" and g0: "0 \<le> g" and F0: "0 \<le> F"
    and F1: "F \<le> 2 ^ 1000" and cap: "C * (g + a + b) \<le> 2 ^ 20"
  shows "fin (x' * c) = Finite (nearest (x' * c))"
    and "\<bar>nearest (x' * c) - X * c\<bar> \<le> (C * (g + 2 * a)) * (f64_u * F) + (1 + 2 * C * b) * f64_eta"
    and "\<bar>X * c\<bar> \<le> (C * g) * F"
proof -
  define U where "U = f64_u * F"
  define E where "E = f64_eta"
  define S :: real where "S = 2 ^ 1000"
  have u0: "0 \<le> f64_u" using f64_u_pos by simp
  have u1: "f64_u \<le> 1" by (rule f64_u_le_one)
  have E0: "0 \<le> E" unfolding E_def using f64_eta_pos by simp
  have E1: "E \<le> 1" unfolding E_def by (rule f64_eta_le_one)
  have U0: "0 \<le> U" unfolding U_def using u0 F0 by simp
  have "f64_u * F \<le> 1 * F" using u1 F0 by (rule mult_right_mono)
  then have U1: "U \<le> F" by (simp add: U_def)
  have C0: "0 \<le> C" using c by linarith
  have S1: "1 \<le> S" by (simp add: S_def)
  have FS: "F \<le> S" using F1 by (simp add: S_def)
  define W where "W = g * F + a * U + b * E"
  have aU: "0 \<le> a * U" using a0 U0 by simp
  have bE: "0 \<le> b * E" using b0 E0 by simp
  have gF: "0 \<le> g * F" using g0 F0 by simp
  have W0: "0 \<le> W" unfolding W_def using aU bE gF by linarith
  have xb: "\<bar>x'\<bar> \<le> W" using e X unfolding W_def U_def E_def by linarith
  have "\<bar>x' * c\<bar> = \<bar>x'\<bar> * \<bar>c\<bar>" by (rule abs_mult)
  also have "\<dots> \<le> W * C" using xb c W0 by (intro mult_mono) simp_all
  finally have xc: "\<bar>x' * c\<bar> \<le> W * C" .
  have "\<bar>X * c\<bar> = \<bar>X\<bar> * \<bar>c\<bar>" by (rule abs_mult)
  also have "\<dots> \<le> (g * F) * C" using X c gF by (intro mult_mono) simp_all
  finally show 3: "\<bar>X * c\<bar> \<le> (C * g) * F" by (simp add: mult_ac)
  have "a * U \<le> a * S" using U1 FS a0 by (intro mult_left_mono) simp_all
  moreover have "b * E \<le> b * S" using E1 S1 b0 by (intro mult_left_mono) simp_all
  moreover have "g * F \<le> g * S" using FS g0 by (intro mult_left_mono)
  ultimately have "W \<le> (g + a + b) * S" unfolding W_def by (simp add: algebra_simps)
  then have "W * C \<le> ((g + a + b) * S) * C" using C0 by (rule mult_right_mono)
  also have "\<dots> = (C * (g + a + b)) * S" by (simp add: mult_ac)
  also have "\<dots> \<le> 2 ^ 20 * S" using cap S1 by (intro mult_right_mono) simp_all
  also have "\<dots> = 2 ^ 1020" unfolding S_def by (simp only: power_add [symmetric]) simp
  finally have "\<bar>x' * c\<bar> \<le> 2 ^ 1020" using xc by linarith
  then show "fin (x' * c) = Finite (nearest (x' * c))" by (rule fin_bounded)
  define P1 where "P1 = C * g * U"
  define P2 where "P2 = C * a * U"
  define P3 where "P3 = C * b * E"
  have P2_0: "0 \<le> P2" unfolding P2_def using C0 a0 U0 by simp
  have P3_0: "0 \<le> P3" unfolding P3_def using C0 b0 E0 by simp
  have ne: "\<bar>nearest (x' * c) - x' * c\<bar> \<le> f64_u * \<bar>x' * c\<bar> + E"
    unfolding E_def by (rule nearest_error)
  have "f64_u * \<bar>x' * c\<bar> \<le> f64_u * (W * C)" using xc u0 by (rule mult_left_mono)
  also have "\<dots> = P1 + f64_u * P2 + f64_u * P3"
    by (simp add: W_def U_def P1_def P2_def P3_def algebra_simps)
  finally have r1: "f64_u * \<bar>x' * c\<bar> \<le> P1 + f64_u * P2 + f64_u * P3" .
  have q2: "f64_u * P2 \<le> P2" using P2_0 u0 u1 by (rule mult_left_le_one_le)
  have q3: "f64_u * P3 \<le> P3" using P3_0 u0 u1 by (rule mult_left_le_one_le)
  have "\<bar>x' * c - X * c\<bar> = \<bar>x' - X\<bar> * \<bar>c\<bar>" by (simp add: abs_mult [symmetric] algebra_simps)
  also have "\<dots> \<le> (a * U + b * E) * C"
    using e [folded U_def E_def] c aU bE by (intro mult_mono) simp_all
  also have "\<dots> = P2 + P3" by (simp add: P2_def P3_def algebra_simps)
  finally have d: "\<bar>x' * c - X * c\<bar> \<le> P2 + P3" .
  have "\<bar>nearest (x' * c) - X * c\<bar> \<le> P1 + 2 * P2 + 2 * P3 + E"
    using ne r1 q2 q3 d by linarith
  also have "\<dots> = (C * (g + 2 * a)) * U + (1 + 2 * C * b) * E"
    by (simp add: P1_def P2_def P3_def algebra_simps)
  finally show "\<bar>nearest (x' * c) - X * c\<bar>
      \<le> (C * (g + 2 * a)) * (f64_u * F) + (1 + 2 * C * b) * f64_eta"
    by (simp only: U_def E_def)
qed

lemma sub_stage:
  fixes a b g F :: real
  assumes e: "\<bar>h' - H\<bar> \<le> a * (f64_u * F) + b * f64_eta"
    and H: "\<bar>H\<bar> \<le> g * F" and f: "\<bar>f\<bar> \<le> F"
    and a0: "0 \<le> a" and b0: "0 \<le> b" and g0: "0 \<le> g"
    and F1: "F \<le> 2 ^ 1000" and cap: "1 + g + a + b \<le> 2 ^ 20"
  shows "fin (f - h') = Finite (nearest (f - h'))"
    and "\<bar>nearest (f - h') - (f - H)\<bar> \<le> (1 + g + 2 * a) * (f64_u * F) + (1 + 2 * b) * f64_eta"
    and "\<bar>f - H\<bar> \<le> (1 + g) * F"
proof -
  define U where "U = f64_u * F"
  define E where "E = f64_eta"
  define S :: real where "S = 2 ^ 1000"
  have F0: "0 \<le> F" using f by linarith
  have u0: "0 \<le> f64_u" using f64_u_pos by simp
  have u1: "f64_u \<le> 1" by (rule f64_u_le_one)
  have E0: "0 \<le> E" unfolding E_def using f64_eta_pos by simp
  have E1: "E \<le> 1" unfolding E_def by (rule f64_eta_le_one)
  have U0: "0 \<le> U" unfolding U_def using u0 F0 by simp
  have "f64_u * F \<le> 1 * F" using u1 F0 by (rule mult_right_mono)
  then have U1: "U \<le> F" by (simp add: U_def)
  have S1: "1 \<le> S" by (simp add: S_def)
  have FS: "F \<le> S" using F1 by (simp add: S_def)
  define aU where "aU = a * U"
  define bE where "bE = b * E"
  define gF where "gF = g * F"
  define gU where "gU = g * U"
  have aU0: "0 \<le> aU" unfolding aU_def using a0 U0 by simp
  have bE0: "0 \<le> bE" unfolding bE_def using b0 E0 by simp
  have gF0: "0 \<le> gF" unfolding gF_def using g0 F0 by simp
  define W where "W = F + gF + aU + bE"
  have e': "\<bar>h' - H\<bar> \<le> aU + bE" using e by (simp add: aU_def bE_def U_def E_def)
  have H': "\<bar>H\<bar> \<le> gF" using H by (simp add: gF_def)
  show "\<bar>f - H\<bar> \<le> (1 + g) * F" using H' f by (simp add: gF_def algebra_simps)
  have xb: "\<bar>f - h'\<bar> \<le> W" unfolding W_def using e' H' f by linarith
  have "aU \<le> a * S" unfolding aU_def using U1 FS a0 by (intro mult_left_mono) simp_all
  moreover have "bE \<le> b * S" unfolding bE_def using E1 S1 b0 by (intro mult_left_mono) simp_all
  moreover have "gF \<le> g * S" unfolding gF_def using FS g0 by (intro mult_left_mono)
  ultimately have "W \<le> (1 + g + a + b) * S" unfolding W_def using FS by (simp add: algebra_simps)
  also have "\<dots> \<le> 2 ^ 20 * S" using cap S1 by (intro mult_right_mono) simp_all
  also have "\<dots> = 2 ^ 1020" unfolding S_def by (simp only: power_add [symmetric]) simp
  finally have "\<bar>f - h'\<bar> \<le> 2 ^ 1020" using xb by linarith
  then show "fin (f - h') = Finite (nearest (f - h'))" by (rule fin_bounded)
  have ne: "\<bar>nearest (f - h') - (f - h')\<bar> \<le> f64_u * \<bar>f - h'\<bar> + E"
    unfolding E_def by (rule nearest_error)
  have "f64_u * \<bar>f - h'\<bar> \<le> f64_u * W" using xb u0 by (rule mult_left_mono)
  also have "\<dots> = U + gU + f64_u * aU + f64_u * bE"
    by (simp add: W_def U_def gU_def gF_def algebra_simps)
  finally have r1: "f64_u * \<bar>f - h'\<bar> \<le> U + gU + f64_u * aU + f64_u * bE" .
  have q2: "f64_u * aU \<le> aU" using aU0 u0 u1 by (rule mult_left_le_one_le)
  have q3: "f64_u * bE \<le> bE" using bE0 u0 u1 by (rule mult_left_le_one_le)
  have "\<bar>nearest (f - h') - (f - H)\<bar> \<le> U + gU + 2 * aU + 2 * bE + E"
    using ne r1 q2 q3 e' by linarith
  also have "\<dots> = (1 + g + 2 * a) * U + (1 + 2 * b) * E"
    by (simp add: gU_def aU_def bE_def algebra_simps)
  finally show "\<bar>nearest (f - h') - (f - H)\<bar>
      \<le> (1 + g + 2 * a) * (f64_u * F) + (1 + 2 * b) * f64_eta"
    by (simp only: U_def E_def)
qed

lemma py_round_error: "\<bar>py_round x 2 - x\<bar> \<le> 1 / 200"
proof -
  have "\<bar>of_int (round_half_even (x * 100)) - x * 100\<bar> \<le> 1 / 2"
    by (rule round_half_even_bounds)
  then have "\<bar>(of_int (round_half_even (x * 100)) - x * 100) / 100\<bar> \<le> (1 / 2) / 100"
    by (simp only: abs_divide) simp
  then show ?thesis by (simp add: py_round_def diff_divide_distrib)
qed

lemma round_stage:
  fixes a b g F :: real
  assumes e: "\<bar>x - X\<bar> \<le> a * (f64_u * F) + b * f64_eta"
    and X: "\<bar>X\<bar> \<le> g * F"
    and a0: "0 \<le> a" and b0: "0 \<le> b" and g0: "0 \<le> g" and F0: "0 \<le> F"
    and F1: "F \<le> 2 ^ 1000" and cap: "1 + g + a + b \<le> 2 ^ 20"
  shows "py_round_f64 (Finite x) 2 = Finite (nearest (py_round x 2))"
    and "\<bar>nearest (py_round x 2) - X\<bar>
           \<le> 1 / 200 + f64_u + (g + 2 * a) * (f64_u * F) + (1 + 2 * b) * f64_eta"
proof -
  define z where "z = py_round x 2"
  define U where "U = f64_u * F"
  define E where "E = f64_eta"
  define S :: real where "S = 2 ^ 1000"
  have u0: "0 \<le> f64_u" using f64_u_pos by simp
  have u1: "f64_u \<le> 1" by (rule f64_u_le_one)
  have E0: "0 \<le> E" unfolding E_def using f64_eta_pos by simp
  have E1: "E \<le> 1" unfolding E_def by (rule f64_eta_le_one)
  have U0: "0 \<le> U" unfolding U_def using u0 F0 by simp
  have "f64_u * F \<le> 1 * F" using u1 F0 by (rule mult_right_mono)
  then have U1: "U \<le> F" by (simp add: U_def)
  have S1: "1 \<le> S" by (simp add: S_def)
  have FS: "F \<le> S" using F1 by (simp add: S_def)
  define aU where "aU = a * U"
  define bE where "bE = b * E"
  define gF where "gF = g * F"
  define gU where "gU = g * U"
  have aU0: "0 \<le> aU" unfolding aU_def using a0 U0 by simp
  have bE0: "0 \<le> bE" unfolding bE_def using b0 E0 by simp
  have gF0: "0 \<le> gF" unfolding gF_def using g0 F0 by simp
  define W where "W = 1 + gF + aU + bE"
  have e': "\<bar>x - X\<bar> \<le> aU + bE" using e by (simp add: aU_def bE_def U_def E_def)
  have X': "\<bar>X\<bar> \<le> gF" using X by (simp add: gF_def)
  have zx: "\<bar>z - x\<bar> \<le> 1 / 200" unfolding z_def by (rule py_round_error)
  have zb: "\<bar>z\<bar> \<le> W" unfolding W_def using e' X' zx by linarith
  have "aU \<le> a * S" unfolding aU_def using U1 FS a0 by (intro mult_left_mono) simp_all
  moreover have "bE \<le> b * S" unfolding bE_def using E1 S1 b0 by (intro mult_left_mono) simp_all
  moreover have "gF \<le> g * S" unfolding gF_def using FS g0 by (intro mult_left_mono)
  ultimately have "W \<le> (1 + g + a + b) * S" unfolding W_def using S1 by (simp add: algebra_simps)
  also have "\<dots> \<le> 2 ^ 20 * S" using cap S1 by (intro mult_right_mono) simp_all
  also have "\<dots> = 2 ^ 1020" unfolding S_def by (simp only: power_add [symmetric]) simp
  finally have "\<bar>z\<bar> \<le> 2 ^ 1020" using zb by linarith
  then have "fin z = Finite (nearest z)" by (rule fin_bounded)
  then show "py_round_f64 (Finite x) 2 = Finite (nearest (py_round x 2))" by (simp add: z_def)
  have ne: "\<bar>nearest z - z\<bar> \<le> f64_u * \<bar>z\<bar> + E" unfolding E_def by (rule nearest_error)
  have "f64_u * \<bar>z\<bar> \<le> f64_u * W" using zb u0 by (rule mult_left_mono)
  also have "\<dots> = f64_u + gU + f64_u * aU + f64_u * bE"
    by (simp add: W_def U_def gU_def gF_def algebra_simps)
  finally have r1: "f64_u * \<bar>z\<bar> \<le> f64_u + gU + f64_u * aU + f64_u * bE" .
  have q2: "f64_u * aU \<le> aU" using aU0 u0 u1 by (rule mult_left_le_one_le)
  have q3: "f64_u * bE \<le> bE" using bE0 u0 u1 by (rule mult_left_le_one_le)
  have "\<bar>nearest z - X\<bar> \<le> 1 / 200 + f64_u + gU + 2 * aU + 2 * bE + E"
    using ne r1 q2 q3 e' zx by linarith
  also have "\<dots> = 1 / 200 + f64_u + (g + 2 * a) * U + (1 + 2 * b) * E"
    by (simp add: gU_def aU_def bE_def algebra_simps)
  finally show "\<bar>nearest (py_round x 2) - X\<bar>
      \<le> 1 / 200 + f64_u + (g + 2 * a) * (f64_u * F) + (1 + 2 * b) * f64_eta"
    by (simp only: U_def E_def z_def)
qed

lemma linear_withinI:
  fixes a b g :: real
  assumes q: "q = Finite x" and r: "r = Some (py_round_f64 q 2)"
    and e: "\<bar>x - f * K\<bar> \<le> a * (f64_u * \<bar>f\<bar>) + b * f64_eta" and X: "\<bar>f * K\<bar> \<le> g * \<bar>f\<bar>"
    and a0: "0 \<le> a" and b0: "0 \<le> b" and g0: "0 \<le> g" and F1: "\<bar>f\<bar> \<le> 2 ^ 1000"
    and a1: "a \<le> 175" and b1: "b \<le> 177" and g1: "g + 2 * a \<le> 375"
  shows "linear_within K f q r"
proof -
  define U where "U = f64_u * \<bar>f\<bar>"
  define E where "E = f64_eta"
  have U0: "0 \<le> U" unfolding U_def using f64_u_pos by simp
  have E0: "0 \<le> E" unfolding E_def using f64_eta_pos by simp
  have cap: "1 + g + a + b \<le> 2 ^ 20" using a0 a1 b1 g1 by simp
  note R = round_stage [OF e X a0 b0 g0 abs_ge_zero F1 cap, folded U_def E_def]
  have 1: "a * U \<le> 175 * U" using a1 U0 by (rule mult_right_mono)
  have 2: "b * E \<le> 177 * E" using b1 E0 by (rule mult_right_mono)
  have 3: "(g + 2 * a) * U \<le> 375 * U" using g1 U0 by (rule mult_right_mono)
  have "1 + 2 * b \<le> 355" using b1 by simp
  then have 4: "(1 + 2 * b) * E \<le> 355 * E" using E0 by (rule mult_right_mono)
  have "\<bar>x - f * K\<bar> \<le> 175 * U + 177 * E" using e [folded U_def E_def] 1 2 by linarith
  moreover have "\<bar>nearest (py_round x 2) - f * K\<bar> \<le> 1 / 200 + f64_u + 375 * U + 355 * E"
    using R(2) 3 4 by linarith
  moreover have "r = Some (Finite (nearest (py_round x 2)))" using r R(1) by (simp add: q)
  ultimately show ?thesis unfolding linear_within_def U_def E_def using q by blast
qed

lemma linear_scales:
  assumes "linear_within K f q r" and "linear_within K (k * f) q' r'"
  shows "scales_within (350 * f64_u * \<bar>k * f\<bar> + 177 * (1 + \<bar>k\<bar>) * f64_eta) k q q'"
    and "scales_within ((1 + \<bar>k\<bar>) * (1 / 200 + f64_u) + 750 * f64_u * \<bar>k * f\<bar>
           + 355 * (1 + \<bar>k\<bar>) * f64_eta) k (the r) (the r')"
proof -
  from assms(1) obtain x y where q: "q = Finite x" and r: "r = Some (Finite y)"
    and x: "\<bar>x - f * K\<bar> \<le> 175 * (f64_u * \<bar>f\<bar>) + 177 * f64_eta"
    and y: "\<bar>y - f * K\<bar> \<le> 1 / 200 + f64_u + 375 * (f64_u * \<bar>f\<bar>) + 355 * f64_eta"
    unfolding linear_within_def by blast
  from assms(2) obtain x' y' where q': "q' = Finite x'" and r': "r' = Some (Finite y')"
    and x': "\<bar>x' - k * f * K\<bar> \<le> 175 * (f64_u * \<bar>k * f\<bar>) + 177 * f64_eta"
    and y': "\<bar>y' - k * f * K\<bar> \<le> 1 / 200 + f64_u + 375 * (f64_u * \<bar>k * f\<bar>) + 355 * f64_eta"
    unfolding linear_within_def by blast
  define U where "U = f64_u * \<bar>k * f\<bar>"
  define kE where "kE = \<bar>k\<bar> * f64_eta"
  define ku where "ku = \<bar>k\<bar> * f64_u"
  have sc: "\<bar>k * z - k * f * K\<bar> \<le> \<bar>k\<bar> * B" if "\<bar>z - f * K\<bar> \<le> B" for z B
  proof -
    have "\<bar>k * z - k * f * K\<bar> = \<bar>k\<bar> * \<bar>z - f * K\<bar>"
      by (simp add: abs_mult [symmetric] algebra_simps)
    also have "\<dots> \<le> \<bar>k\<bar> * B" using that by (intro mult_left_mono) simp_all
    finally show ?thesis .
  qed
  have "\<bar>k * x - k * f * K\<bar> \<le> \<bar>k\<bar> * (175 * (f64_u * \<bar>f\<bar>) + 177 * f64_eta)"
    using x by (rule sc)
  also have "\<dots> = 175 * U + 177 * kE" by (simp add: U_def kE_def abs_mult algebra_simps)
  finally have "\<bar>x' - k * x\<bar> \<le> 350 * U + 177 * f64_eta + 177 * kE"
    using x' [folded U_def] by linarith
  also have "\<dots> = 350 * f64_u * \<bar>k * f\<bar> + 177 * (1 + \<bar>k\<bar>) * f64_eta"
    by (simp add: U_def kE_def algebra_simps)
  finally show "scales_within (350 * f64_u * \<bar>k * f\<bar> + 177 * (1 + \<bar>k\<bar>) * f64_eta) k q q'"
    unfolding scales_within_def using q q' by blast
  have "\<bar>k * y - k * f * K\<bar>
      \<le> \<bar>k\<bar> * (1 / 200 + f64_u + 375 * (f64_u * \<bar>f\<bar>) + 355 * f64_eta)"
    using y by (rule sc)
  also have "\<dots> = \<bar>k\<bar> / 200 + ku + 375 * U + 355 * kE"
    by (simp add: U_def kE_def ku_def abs_mult algebra_simps)
  finally have "\<bar>y' - k * y\<bar>
      \<le> 1 / 200 + \<bar>k\<bar> / 200 + f64_u + ku + 750 * U + 355 * f64_eta + 355 * kE"
    using y' [folded U_def] by linarith
  also have "\<dots> = (1 + \<bar>k\<bar>) * (1 / 200 + f64_u) + 750 * f64_u * \<bar>k * f\<bar>
      + 355 * (1 + \<bar>k\<bar>) * f64_eta"
    by (simp add: U_def kE_def ku_def algebra_simps)
  finally show "scales_within ((1 + \<bar>k\<bar>) * (1 / 200 + f64_u) + 750 * f64_u * \<bar>k * f\<bar>
           + 355 * (1 + \<bar>k\<bar>) * f64_eta) k (the r) (the r')"
    unfolding scales_within_def using r r' by simp
qed

lemma moisture_factor:
  assumes "0 \<le> m" and "m \<le> 100"
  defines "b \<equiv> nearest (1 - nearest (m / 100))"
  shows "f64_sub (fin 1) (f64_divide (Finite m) (fin 100)) = Finite b" and "0 \<le> b" and "b \<le> 1"
proof -
  define a where "a = nearest (m / 100)"
  have m: "0 \<le> m / 100" "m / 100 \<le> 1" using assms(1,2) by simp_all
  note A = nearest_unit_interval [OF m, folded a_def]
  have "0 \<le> 1 - a" "1 - a \<le> 1" using A by simp_all
  note B = nearest_unit_interval [OF this, folded b_def [unfolded a_def [symmetric]]]
  show "0 \<le> b" "b \<le> 1" using B by simp_all
  show "f64_sub (fin 1) (f64_divide (Finite m) (fin 100)) = Finite b"
    using A(3) B(3) by (simp add: f64_sub_def fin_1 fin_100)
qed

lemma fin_040: "fin (2 / 5) = Finite (3602879701896397 / 9007199254740992)"
  by (rule fin_eqI [where e = "(- 2)" and k = "7205759403792794"]) (simp_all add: powr_minus)

lemma fin_22: "fin 22 = Finite 22"
  by (rule fin_eqI [where e = "4" and k = "6192449487634432"]) (simp_all add: powr_minus)

lemma fin_25: "fin 25 = Finite 25"
  by (rule fin_eqI [where e = "4" and k = "7036874417766400"]) (simp_all add: powr_minus)

lemma fin_CP_WATER: "fin CP_WATER = Finite (589127126255403 / 140737488355328)"
  unfolding CP_WATER_def
  by (rule fin_eqI [where e = "2" and k = "4713017010043224"]) (simp_all add: powr_minus)

lemma fin_1000: "fin 1000 = Finite 1000"
  by (rule fin_eqI [where e = "9" and k = "8796093022208000"]) (simp_all add: powr_minus)

lemma fin_080: "fin (4 / 5) = Finite (3602879701896397 / 4503599627370496)"
  by (rule fin_eqI [where e = "(- 1)" and k = "7205759403792794"]) (simp_all add: powr_minus)

text \<open>
  Every quantity of the two estimators is, up to a rounding error, the feed rate times
  a factor that depends on the other arguments only.
\<close>

lemma ad_biogas_linear:
  assumes f: "\<bar>f\<bar> \<le> 2 ^ 1000" and m: "0 \<le> m" "m \<le> 100" and vs: "\<bar>vs\<bar> \<le> 1"
  defines "b \<equiv> nearest (1 - nearest (m / 100))"
    and "c40 \<equiv> 3602879701896397 / 9007199254740992"
    and "c60 \<equiv> 5404319552844595 / 9007199254740992"
    and "v \<equiv> ad_biogas_vars (Finite f) (Finite m) (Finite vs)"
    and "y \<equiv> ad_biogas_yield (Finite f) (Finite m) (Finite vs)"
  shows "linear_within b f (ad_vars.dry_mass v) (y ''dry_mass'')"
    and "linear_within (b * vs) f (volatile_solids v) (y ''volatile_solids'')"
    and "linear_within (b * vs * c40) f (biogas_m3_h v) (y ''biogas_m3_h'')"
    and "linear_within (b * vs * c40 * c60) f (methane_m3_h v) (y ''methane_m3_h'')"
    and "linear_within (b * vs * c40 * 22) f (biogas_energy v) (y ''biogas_energy_MJ_h'')"
proof -
  note M = moisture_factor [OF m, folded b_def]
  have f40: "fin (2 / 5) = Finite c40" by (simp add: c40_def fin_040)
  have f60: "fin (3 / 5) = Finite c60" by (simp add: c60_def fin_060)
  have c40: "\<bar>c40\<bar> \<le> 1 / 2" by (simp add: c40_def)
  have c60: "\<bar>c60\<bar> \<le> 1" by (simp add: c60_def)
  have b1: "\<bar>b\<bar> \<le> 1" using M(2,3) by simp
  define d where "d = nearest (f * b)"
  define vo where "vo = nearest (d * vs)"
  define bg where "bg = nearest (vo * c40)"
  define me where "me = nearest (bg * c60)"
  define en where "en = nearest (bg * 22)"
  have e1: "\<bar>f - f\<bar> \<le> 0 * (f64_u * \<bar>f\<bar>) + 0 * f64_eta" by simp
  have X1: "\<bar>f\<bar> \<le> 1 * \<bar>f\<bar>" by simp
  have c1: "\<bar>b :: real\<bar> \<le> 1" by (rule b1)
  have s1: "fin (f * b) = Finite d"
    "\<bar>d - f * b\<bar> \<le> 1 * (f64_u * \<bar>f\<bar>) + 1 * f64_eta"
    "\<bar>f * b\<bar> \<le> 1 * \<bar>f\<bar>"
    using mul_stage [where a = "0" and b = "0" and g = "1" and C = "1" and F = "\<bar>f\<bar>", OF e1 X1 c1] f
    by (simp_all add: d_def)
  have e2: "\<bar>d - f * b\<bar> \<le> 1 * (f64_u * \<bar>f\<bar>) + 1 * f64_eta" using s1(2) by simp
  have X2: "\<bar>f * b\<bar> \<le> 1 * \<bar>f\<bar>" using s1(3) by simp
  have c2: "\<bar>vs :: real\<bar> \<le> 1" by (rule vs)
  have s2: "fin (d * vs) = Finite vo"
    "\<bar>vo - f * b * vs\<bar> \<le> 3 * (f64_u * \<bar>f\<bar>) + 3 * f64_eta"
    "\<bar>f * b * vs\<bar> \<le> 1 * \<bar>f\<bar>"
    using mul_stage [where a = "1" and b = "1" and g = "1" and C = "1" and F = "\<bar>f\<bar>", OF e2 X2 c2] f
    by (simp_all add: vo_def)
  have e3: "\<bar>vo - f * b * vs\<bar> \<le> 3 * (f64_u * \<bar>f\<bar>) + 3 * f64_eta" using s2(2) by simp
  have X3: "\<bar>f * b * vs\<bar> \<le> 1 * \<bar>f\<bar>" using s2(3) by simp
  have c3: "\<bar>c40 :: real\<bar> \<le> (1 / 2)" by (rule c40)
  have s3: "fin (vo * c40) = Finite bg"
    "\<bar>bg - f * b * vs * c40\<bar> \<le> (7 / 2) * (f64_u * \<bar>f\<bar>) + 4 * f64_eta"
    "\<bar>f * b * vs * c40\<bar> \<le> (1 / 2) * \<bar>f\<bar>"
    using mul_stage [where a = "3" and b = "3" and g = "1" and C = "(1 / 2)" and F = "\<bar>f\<bar>", OF e3 X3 c3] f
    by (simp_all add: bg_def)
  have e4: "\<bar>bg - f * b * vs * c40\<bar> \<le> (7 / 2) * (f64_u * \<bar>f\<bar>) + 4 * f64_eta" using s3(2) by simp
  have X4: "\<bar>f * b * vs * c40\<bar> \<le> (1 / 2) * \<bar>f\<bar>" using s3(3) by simp
  have c4: "\<bar>c60 :: real\<bar> \<le> 1" by (rule c60)
  have s4: "fin (bg * c60) = Finite me"
    "\<bar>me - f * b * vs * c40 * c60\<bar> \<le> (15 / 2) * (f64_u * \<bar>f\<bar>) + 9 * f64_eta"
    "\<bar>f * b * vs * c40 * c60\<bar> \<le> (1 / 2) * \<bar>f\<bar>"
    using mul_stage [where a = "(7 / 2)" and b = "4" and g = "(1 / 2)" and C = "1" and F = "\<bar>f\<bar>", OF e4 X4 c4] f
    by (simp_all add: me_def)
  have e5: "\<bar>bg - f * b * vs * c40\<bar> \<le> (7 / 2) * (f64_u * \<bar>f\<bar>) + 4 * f64_eta" using s3(2) by simp
  have X5: "\<bar>f * b * vs * c40\<bar> \<le> (1 / 2) * \<bar>f\<bar>" using s3(3) by simp
  have c5: "\<bar>22 :: real\<bar> \<le> 22" by simp
  have s5: "fin (bg * 22) = Finite en"
    "\<bar>en - f * b * vs * c40 * 22\<bar> \<le> 165 * (f64_u * \<bar>f\<bar>) + 177 * f64_eta"
    "\<bar>f * b * vs * c40 * 22\<bar> \<le> 11 * \<bar>f\<bar>"
    using mul_stage [where a = "(7 / 2)" and b = "4" and g = "(1 / 2)" and C = "22" and F = "\<bar>f\<bar>", OF e5 X5 c5] f
    by (simp_all add: en_def)
  have V: "v = \<lparr>ad_vars.dry_mass = Finite d, volatile_solids = Finite vo, biogas_m3_h = Finite bg,
      methane_m3_h = Finite me, biogas_energy = Finite en\<rparr>"
    by (simp add: v_def ad_biogas_vars_def Let_def M(1) f40 f60 fin_22 BIOGAS_LHV_def
        s1(1) s2(1) s3(1) s4(1) s5(1))
  show "linear_within (b) f (ad_vars.dry_mass v) (y ''dry_mass'')"
  proof (rule linear_withinI [where a = "1" and b = "1" and g = "1" and x = d])
    show "ad_vars.dry_mass v = Finite d" by (simp add: V)
    show "y ''dry_mass'' = Some (py_round_f64 (ad_vars.dry_mass v) 2)"
      by (simp add: y_def v_def ad_biogas_yield_def Let_def)
    show "\<bar>d - f * (b)\<bar> \<le> 1 * (f64_u * \<bar>f\<bar>) + 1 * f64_eta"
      using s1(2) by (simp add: mult.assoc)
    show "\<bar>f * (b)\<bar> \<le> 1 * \<bar>f\<bar>"
      using s1(3) by (simp add: mult.assoc)
  qed (use f in simp_all)
  show "linear_within (b * vs) f (volatile_solids v) (y ''volatile_solids'')"
  proof (rule linear_withinI [where a = "3" and b = "3" and g = "1" and x = vo])
    show "volatile_solids v = Finite vo" by (simp add: V)
    show "y ''volatile_solids'' = Some (py_round_f64 (volatile_solids v) 2)"
      by (simp add: y_def v_def ad_biogas_yield_def Let_def)
    show "\<bar>vo - f * (b * vs)\<bar> \<le> 3 * (f64_u * \<bar>f\<bar>) + 3 * f64_eta"
      using s2(2) by (simp add: mult.assoc)
    show "\<bar>f * (b * vs)\<bar> \<le> 1 * \<bar>f\<bar>"
      using s2(3) by (simp add: mult.assoc)
  qed (use f in simp_all)
  show "linear_within (b * vs * c40) f (biogas_m3_h v) (y ''biogas_m3_h'')"
  proof (rule linear_withinI [where a = "(7 / 2)" and b = "4" and g = "(1 / 2)" and x = bg])
    show "biogas_m3_h v = Finite bg" by (simp add: V)
    show "y ''biogas_m3_h'' = Some (py_round_f64 (biogas_m3_h v) 2)"
      by (simp add: y_def v_def ad_biogas_yield_def Let_def)
    show "\<bar>bg - f * (b * vs * c40)\<bar> \<le> (7 / 2) * (f64_u * \<bar>f\<bar>) + 4 * f64_eta"
      using s3(2) by (simp add: mult.assoc)
    show "\<bar>f * (b * vs * c40)\<bar> \<le> (1 / 2) * \<bar>f\<bar>"
      using s3(3) by (simp add: mult.assoc)
  qed (use f in simp_all)
  show "linear_within (b * vs * c40 * c60) f (methane_m3_h v) (y ''methane_m3_h'')"
  proof (rule linear_withinI [where a = "(15 / 2)" and b = "9" and g = "(1 / 2)" and x = me])
    show "methane_m3_h v = Finite me" by (simp add: V)
    show "y ''methane_m3_h'' = Some (py_round_f64 (methane_m3_h v) 2)"
      by (simp add: y_def v_def ad_biogas_yield_def Let_def)
    show "\<bar>me - f * (b * vs * c40 * c60)\<bar> \<le> (15 / 2) * (f64_u * \<bar>f\<bar>) + 9 * f64_eta"
      using s4(2) by (simp add: mult.assoc)
    show "\<bar>f * (b * vs * c40 * c60)\<bar> \<le> (1 / 2) * \<bar>f\<bar>"
      using s4(3) by (simp add: mult.assoc)
  qed (use f in simp_all)
  show "linear_within (b * vs * c40 * 22) f (biogas_energy v) (y ''biogas_energy_MJ_h'')"
  proof (rule linear_withinI [where a = "165" and b = "177" and g = "11" and x = en])
    show "biogas_energy v = Finite en" by (simp add: V)
    show "y ''biogas_energy_MJ_h'' = Some (py_round_f64 (biogas_energy v) 2)"
      by (simp add: y_def v_def ad_biogas_yield_def Let_def)
    show "\<bar>en - f * (b * vs * c40 * 22)\<bar> \<le> 165 * (f64_u * \<bar>f\<bar>) + 177 * f64_eta"
      using s5(2) by (simp add: mult.assoc)
    show "\<bar>f * (b * vs * c40 * 22)\<bar> \<le> 11 * \<bar>f\<bar>"
      using s5(3) by (simp add: mult.assoc)
  qed (use f in simp_all)
qed

lemma htc_process_linear:
  assumes f: "\<bar>f\<bar> \<le> 2 ^ 1000" and m: "0 \<le> m" "m \<le> 100" and T: "\<bar>Tr\<bar> \<le> 1000"
  defines "b \<equiv> nearest (1 - nearest (m / 100))"
    and "c60 \<equiv> 5404319552844595 / 9007199254740992"
    and "cpw \<equiv> 589127126255403 / 140737488355328"
    and "tt \<equiv> nearest (Tr - 25)"
    and "v \<equiv> htc_process_vars (Finite f) (Finite m) (Finite Tr)"
    and "y \<equiv> htc_process (Finite f) (Finite m) (Finite Tr)"
  shows "linear_within b f (htc_vars.dry_mass v) (y ''dry_mass'')"
    and "linear_within (b * c60) f (hydrochar_yield v) (y ''hydrochar_kg_h'')"
    and "linear_within (1 - b * c60) f (process_water v) (y ''process_water_kg_h'')"
    and "linear_within (b * c60 * 25) f (hydrochar_energy v) (y ''hydrochar_energy_MJ_h'')"
    and "linear_within (cpw * tt / 1000) f (energy_required v) (y ''energy_required_MJ_h'')"
proof -
  note M = moisture_factor [OF m, folded b_def]
  have f60: "fin (3 / 5) = Finite c60" by (simp add: c60_def fin_060)
  have fcp: "fin CP_WATER = Finite cpw" by (simp add: cpw_def fin_CP_WATER)
  have c60: "\<bar>c60\<bar> \<le> 1" by (simp add: c60_def)
  have cpw: "\<bar>cpw\<bar> \<le> 5" by (simp add: cpw_def)
  have b1: "\<bar>b\<bar> \<le> 1" using M(2,3) by simp
  have T25: "\<bar>Tr - 25\<bar> \<le> 1025" using T by linarith
  then have "\<bar>Tr - 25\<bar> \<le> 2 ^ 1020" by (rule order_trans) simp
  then have ftt: "fin (Tr - 25) = Finite tt" unfolding tt_def by (rule fin_bounded)
  have "2 * \<bar>Tr - 25\<bar> + 1 \<le> 2051" using T25 by simp
  with nearest_abs_le [of "Tr - 25"] have tt: "\<bar>tt\<bar> \<le> 2051"
    unfolding tt_def by (rule order_trans)
  define d where "d = nearest (f * b)"
  define hy where "hy = nearest (d * c60)"
  define pw where "pw = nearest (f - hy)"
  define he where "he = nearest (hy * 25)"
  define x1 where "x1 = nearest (f * cpw)"
  define x2 where "x2 = nearest (x1 * tt)"
  define er where "er = nearest (x2 / 1000)"
  have e1: "\<bar>f - f\<bar> \<le> 0 * (f64_u * \<bar>f\<bar>) + 0 * f64_eta" by simp
  have X1: "\<bar>f\<bar> \<le> 1 * \<bar>f\<bar>" by simp
  have c1: "\<bar>b :: real\<bar> \<le> 1" by (rule b1)
  have s1: "fin (f * b) = Finite d"
    "\<bar>d - f * b\<bar> \<le> 1 * (f64_u * \<bar>f\<bar>) + 1 * f64_eta"
    "\<bar>f * b\<bar> \<le> 1 * \<bar>f\<bar>"
    using mul_stage [where a = "0" and b = "0" and g = "1" and C = "1" and F = "\<bar>f\<bar>", OF e1 X1 c1] f
    by (simp_all add: d_def)
  have e2: "\<bar>d - f * b\<bar> \<le> 1 * (f64_u * \<bar>f\<bar>) + 1 * f64_eta" using s1(2) by simp
  have X2: "\<bar>f * b\<bar> \<le> 1 * \<bar>f\<bar>" using s1(3) by simp
  have c2: "\<bar>c60 :: real\<bar> \<le> 1" by (rule c60)
  have s2: "fin (d * c60) = Finite hy"
    "\<bar>hy - f * b * c60\<bar> \<le> 3 * (f64_u * \<bar>f\<bar>) + 3 * f64_eta"
    "\<bar>f * b * c60\<bar> \<le> 1 * \<bar>f\<bar>"
    using mul_stage [where a = "1" and b = "1" and g = "1" and C = "1" and F = "\<bar>f\<bar>", OF e2 X2 c2] f
    by (simp_all add: hy_def)
  have e3: "\<bar>hy - f * b * c60\<bar> \<le> 3 * (f64_u * \<bar>f\<bar>) + 3 * f64_eta" using s2(2) by simp
  have X3: "\<bar>f * b * c60\<bar> \<le> 1 * \<bar>f\<bar>" using s2(3) by simp
  have c3: "\<bar>25 :: real\<bar> \<le> 25" by simp
  have s3: "fin (hy * 25) = Finite he"
    "\<bar>he - f * b * c60 * 25\<bar> \<le> 175 * (f64_u * \<bar>f\<bar>) + 151 * f64_eta"
    "\<bar>f * b * c60 * 25\<bar> \<le> 25 * \<bar>f\<bar>"
    using mul_stage [where a = "3" and b = "3" and g = "1" and C = "25" and F = "\<bar>f\<bar>", OF e3 X3 c3] f
    by (simp_all add: he_def)
  have e4: "\<bar>f - f\<bar> \<le> 0 * (f64_u * \<bar>f\<bar>) + 0 * f64_eta" by simp
  have X4: "\<bar>f\<bar> \<le> 1 * \<bar>f\<bar>" by simp
  have c4: "\<bar>cpw :: real\<bar> \<le> 5" by (rule cpw)
  have s4: "fin (f * cpw) = Finite x1"
    "\<bar>x1 - f * cpw\<bar> \<le> 5 * (f64_u * \<bar>f\<bar>) + 1 * f64_eta"
    "\<bar>f * cpw\<bar> \<le> 5 * \<bar>f\<bar>"
    using mul_stage [where a = "0" and b = "0" and g = "1" and C = "5" and F = "\<bar>f\<bar>", OF e4 X4 c4] f
    by (simp_all add: x1_def)
  have e5: "\<bar>x1 - f * cpw\<bar> \<le> 5 * (f64_u * \<bar>f\<bar>) + 1 * f64_eta" using s4(2) by simp
  have X5: "\<bar>f * cpw\<bar> \<le> 5 * \<bar>f\<bar>" using s4(3) by simp
  have c5: "\<bar>tt :: real\<bar> \<le> 2051" by (rule tt)
  have s5: "fin (x1 * tt) = Finite x2"
    "\<bar>x2 - f * cpw * tt\<bar> \<le> 30765 * (f64_u * \<bar>f\<bar>) + 4103 * f64_eta"
    "\<bar>f * cpw * tt\<bar> \<le> 10255 * \<bar>f\<bar>"
    using mul_stage [where a = "5" and b = "1" and g = "5" and C = "2051" and F = "\<bar>f\<bar>", OF e5 X5 c5] f
    by (simp_all add: x2_def)
  have e6: "\<bar>x2 - f * cpw * tt\<bar> \<le> 30765 * (f64_u * \<bar>f\<bar>) + 4103 * f64_eta" using s5(2) by simp
  have X6: "\<bar>f * cpw * tt\<bar> \<le> 10255 * \<bar>f\<bar>" using s5(3) by simp
  have c6: "\<bar>1 / 1000 :: real\<bar> \<le> (1 / 1000)" by simp
  have s6: "fin (x2 / 1000) = Finite er"
    "\<bar>er - f * cpw * tt / 1000\<bar> \<le> (14357 / 200) * (f64_u * \<bar>f\<bar>) + (4603 / 500) * f64_eta"
    "\<bar>f * cpw * tt / 1000\<bar> \<le> (2051 / 200) * \<bar>f\<bar>"
    using mul_stage [where a = "30765" and b = "4103" and g = "10255" and C = "(1 / 1000)" and F = "\<bar>f\<bar>", OF e6 X6 c6] f
    by (simp_all add: er_def)
  have ep: "\<bar>hy - f * b * c60\<bar> \<le> 3 * (f64_u * \<bar>f\<bar>) + 3 * f64_eta" using s2(2) by simp
  have Xp: "\<bar>f * b * c60\<bar> \<le> 1 * \<bar>f\<bar>" using s2(3) by simp
  have sp: "fin (f - hy) = Finite pw"
    "\<bar>pw - (f - f * b * c60)\<bar> \<le> 8 * (f64_u * \<bar>f\<bar>) + 7 * f64_eta"
    "\<bar>f - f * b * c60\<bar> \<le> 2 * \<bar>f\<bar>"
    using sub_stage [where a = "3" and b = "3" and g = "1" and F = "\<bar>f\<bar>" and f = f, OF ep Xp] f
    by (simp_all add: pw_def)
  have V: "v = \<lparr>htc_vars.dry_mass = Finite d, hydrochar_yield = Finite hy, process_water = Finite pw,
      hydrochar_energy = Finite he, energy_required = Finite er\<rparr>"
    by (simp add: v_def htc_process_vars_def Let_def M(1) [unfolded f64_sub_def] f60 fcp fin_25 fin_1000 HYDROCHAR_HHV_def
        f64_sub_def ftt s1(1) s2(1) s3(1) s4(1) s5(1) s6(1) sp(1))
  show "linear_within (b) f (htc_vars.dry_mass v) (y ''dry_mass'')"
  proof (rule linear_withinI [where a = "1" and b = "1" and g = "1" and x = d])
    show "htc_vars.dry_mass v = Finite d" by (simp add: V)
    show "y ''dry_mass'' = Some (py_round_f64 (htc_vars.dry_mass v) 2)"
      by (simp add: y_def v_def htc_process_def Let_def)
    show "\<bar>d - f * (b)\<bar> \<le> 1 * (f64_u * \<bar>f\<bar>) + 1 * f64_eta"
      using s1(2) by (simp add: mult.assoc)
    show "\<bar>f * (b)\<bar> \<le> 1 * \<bar>f\<bar>"
      using s1(3) by (simp add: mult.assoc)
  qed (use f in simp_all)
  show "linear_within (b * c60) f (hydrochar_yield v) (y ''hydrochar_kg_h'')"
  proof (rule linear_withinI [where a = "3" and b = "3" and g = "1" and x = hy])
    show "hydrochar_yield v = Finite hy" by (simp add: V)
    show "y ''hydrochar_kg_h'' = Some (py_round_f64 (hydrochar_yield v) 2)"
      by (simp add: y_def v_def htc_process_def Let_def)
    show "\<bar>hy - f * (b * c60)\<bar> \<le> 3 * (f64_u * \<bar>f\<bar>) + 3 * f64_eta"
      using s2(2) by (simp add: mult.assoc)
    show "\<bar>f * (b * c60)\<bar> \<le> 1 * \<bar>f\<bar>"
      using s2(3) by (simp add: mult.assoc)
  qed (use f in simp_all)
  show "linear_within (1 - b * c60) f (process_water v) (y ''process_water_kg_h'')"
  proof (rule linear_withinI [where a = "8" and b = "7" and g = "2" and x = pw])
    show "process_water v = Finite pw" by (simp add: V)
    show "y ''process_water_kg_h'' = Some (py_round_f64 (process_water v) 2)"
      by (simp add: y_def v_def htc_process_def Let_def)
    show "\<bar>pw - f * (1 - b * c60)\<bar> \<le> 8 * (f64_u * \<bar>f\<bar>) + 7 * f64_eta"
      using sp(2) by (simp add: algebra_simps)
    show "\<bar>f * (1 - b * c60)\<bar> \<le> 2 * \<bar>f\<bar>"
      using sp(3) by (simp add: algebra_simps)
  qed (use f in simp_all)
  show "linear_within (b * c60 * 25) f (hydrochar_energy v) (y ''hydrochar_energy_MJ_h'')"
  proof (rule linear_withinI [where a = "175" and b = "151" and g = "25" and x = he])
    show "hydrochar_energy v = Finite he" by (simp add: V)
    show "y ''hydrochar_energy_MJ_h'' = Some (py_round_f64 (hydrochar_energy v) 2)"
      by (simp add: y_def v_def htc_process_def Let_def)
    show "\<bar>he - f * (b * c60 * 25)\<bar> \<le> 175 * (f64_u * \<bar>f\<bar>) + 151 * f64_eta"
      using s3(2) by (simp add: mult.assoc)
    show "\<bar>f * (b * c60 * 25)\<bar> \<le> 25 * \<bar>f\<bar>"
      using s3(3) by (simp add: mult.assoc)
  qed (use f in simp_all)
  show "linear_within (cpw * tt / 1000) f (energy_required v) (y ''energy_required_MJ_h'')"
  proof (rule linear_withinI [where a = "(14357 / 200)" and b = "(4603 / 500)" and g = "(2051 / 200)" and x = er])
    show "energy_required v = Finite er" by (simp add: V)
    show "y ''energy_required_MJ_h'' = Some (py_round_f64 (energy_required v) 2)"
      by (simp add: y_def v_def htc_process_def Let_def)
    show "\<bar>er - f * (cpw * tt / 1000)\<bar> \<le> (14357 / 200) * (f64_u * \<bar>f\<bar>) + (4603 / 500) * f64_eta"
      using s6(2) by (simp add: mult.assoc)
    show "\<bar>f * (cpw * tt / 1000)\<bar> \<le> (2051 / 200) * \<bar>f\<bar>"
      using s6(3) by (simp add: mult.assoc)
  qed (use f in simp_all)
qed

text \<open>
  Claim C8, as amended. Let the feed rates \<open>feed_rate\<close> and \<open>k * feed_rate\<close> be at most
  \<open>2 ^ 1000\<close> in magnitude, \<open>moisture_pct\<close> in \<open>[0, 100]\<close>, \<open>\<bar>vs_fraction\<bar> \<le> 1\<close> and
  \<open>\<bar>T_reactor\<bar> \<le> 1000\<close>. Every quantity that \<^verbatim>\<open>ad_biogas_yield\<close> and \<^verbatim>\<open>htc_process\<close>
  compute before rounding is a finite double at both feed rates, and its value at
  \<open>k * feed_rate\<close> is \<open>k\<close> times its value at \<open>feed_rate\<close> up to
  \<open>350 * f64_u * \<bar>k * feed_rate\<bar> + 177 * (1 + \<bar>k\<bar>) * f64_eta\<close>. Every returned field is
  a finite double at both feed rates, and its value at \<open>k * feed_rate\<close> is \<open>k\<close> times its
  value at \<open>feed_rate\<close> up to
  \<open>(1 + \<bar>k\<bar>) * (0.005 + f64_u) + 750 * f64_u * \<bar>k * feed_rate\<bar> + 355 * (1 + \<bar>k\<bar>) * f64_eta\<close>,
  the first term being the rounding to two decimals. Neither the unrounded quantities
  nor the returned fields are scaled by \<open>k\<close> exactly.
\<close>

theorem feed_rate_scaling:
  assumes "\<bar>feed_rate\<bar> \<le> 2 ^ 1000" and "\<bar>k * feed_rate\<bar> \<le> 2 ^ 1000"
    and "0 \<le> moisture_pct" and "moisture_pct \<le> 100"
    and "\<bar>vs_fraction\<bar> \<le> 1" and "\<bar>T_reactor\<bar> \<le> 1000"
  defines "tol \<equiv> 350 * f64_u * \<bar>k * feed_rate\<bar> + 177 * (1 + \<bar>k\<bar>) * f64_eta"
    and "rtol \<equiv> (1 + \<bar>k\<bar>) * (1 / 200 + f64_u) + 750 * f64_u * \<bar>k * feed_rate\<bar>
           + 355 * (1 + \<bar>k\<bar>) * f64_eta"
  shows
   "scales_within tol k (ad_vars.dry_mass (ad_biogas_vars (Finite feed_rate) (Finite moisture_pct) (Finite vs_fraction)))
      (ad_vars.dry_mass (ad_biogas_vars (Finite (k * feed_rate)) (Finite moisture_pct) (Finite vs_fraction))) \<and>
    scales_within tol k (volatile_solids (ad_biogas_vars (Finite feed_rate) (Finite moisture_pct) (Finite vs_fraction)))
      (volatile_solids (ad_biogas_vars (Finite (k * feed_rate)) (Finite moisture_pct) (Finite vs_fraction))) \<and>
    scales_within tol k (biogas_m3_h (ad_biogas_vars (Finite feed_rate) (Finite moisture_pct) (Finite vs_fraction)))
      (biogas_m3_h (ad_biogas_vars (Finite (k * feed_rate)) (Finite moisture_pct) (Finite vs_fraction))) \<and>
    scales_within tol k (methane_m3_h (ad_biogas_vars (Finite feed_rate) (Finite moisture_pct) (Finite vs_fraction)))
      (methane_m3_h (ad_biogas_vars (Finite (k * feed_rate)) (Finite moisture_pct) (Finite vs_fraction))) \<and>
    scales_within tol k (biogas_energy (ad_biogas_vars (Finite feed_rate) (Finite moisture_pct) (Finite vs_fraction)))
      (biogas_energy (ad_biogas_vars (Finite (k * feed_rate)) (Finite moisture_pct) (Finite vs_fraction))) \<and>
    scales_within tol k (htc_vars.dry_mass (htc_process_vars (Finite feed_rate) (Finite moisture_pct) (Finite T_reactor)))
      (htc_vars.dry_mass (htc_process_vars (Finite (k * feed_rate)) (Finite moisture_pct) (Finite T_reactor))) \<and>
    scales_within tol k (hydrochar_yield (htc_process_vars (Finite feed_rate) (Finite moisture_pct) (Finite T_reactor)))
      (hydrochar_yield (htc_process_vars (Finite (k * feed_rate)) (Finite moisture_pct) (Finite T_reactor))) \<and>
    scales_within tol k (process_water (htc_process_vars (Finite feed_rate) (Finite moisture_pct) (Finite T_reactor)))
      (process_water (htc_process_vars (Finite (k * feed_rate)) (Finite moisture_pct) (Finite T_reactor))) \<and>
    scales_within tol k (hydrochar_energy (htc_process_vars (Finite feed_rate) (Finite moisture_pct) (Finite T_reactor)))
      (hydrochar_energy (htc_process_vars (Finite (k * feed_rate)) (Finite moisture_pct) (Finite T_reactor))) \<and>
    scales_within tol k (energy_required (htc_process_vars (Finite feed_rate) (Finite moisture_pct) (Finite T_reactor)))
      (energy_required (htc_process_vars (Finite (k * feed_rate)) (Finite moisture_pct) (Finite T_reactor))) \<and>
    scales_within rtol k (the (ad_biogas_yield (Finite feed_rate) (Finite moisture_pct) (Finite vs_fraction) ''dry_mass''))
      (the (ad_biogas_yield (Finite (k * feed_rate)) (Finite moisture_pct) (Finite vs_fraction) ''dry_mass'')) \<and>
    scales_within rtol k (the (ad_biogas_yield (Finite feed_rate) (Finite moisture_pct) (Finite vs_fraction) ''volatile_solids''))
      (the (ad_biogas_yield (Finite (k * feed_rate)) (Finite moisture_pct) (Finite vs_fraction) ''volatile_solids'')) \<and>
    scales_within rtol k (the (ad_biogas_yield (Finite feed_rate) (Finite moisture_pct) (Finite vs_fraction) ''biogas_m3_h''))
      (the (ad_biogas_yield (Finite (k * feed_rate)) (Finite moisture_pct) (Finite vs_fraction) ''biogas_m3_h'')) \<and>
    scales_within rtol k (the (ad_biogas_yield (Finite feed_rate) (Finite moisture_pct) (Finite vs_fraction) ''methane_m3_h''))
      (the (ad_biogas_yield (Finite (k * feed_rate)) (Finite moisture_pct) (Finite vs_fraction) ''methane_m3_h'')) \<and>
    scales_within rtol k (the (ad_biogas_yield (Finite feed_rate) (Finite moisture_pct) (Finite vs_fraction) ''biogas_energy_MJ_h''))
      (the (ad_biogas_yield (Finite (k * feed_rate)) (Finite moisture_pct) (Finite vs_fraction) ''biogas_energy_MJ_h'')) \<and>
    scales_within rtol k (the (htc_process (Finite feed_rate) (Finite moisture_pct) (Finite T_reactor) ''dry_mass''))
      (the (htc_process (Finite (k * feed_rate)) (Finite moisture_pct) (Finite T_reactor) ''dry_mass'')) \<and>
    scales_within rtol k (the (htc_process (Finite feed_rate) (Finite moisture_pct) (Finite T_reactor) ''hydrochar_kg_h''))
      (the (htc_process (Finite (k * feed_rate)) (Finite moisture_pct) (Finite T_reactor) ''hydrochar_kg_h'')) \<and>
    scales_within rtol k (the (htc_process (Finite feed_rate) (Finite moisture_pct) (Finite T_reactor) ''process_water_kg_h''))
      (the (htc_process (Finite (k * feed_rate)) (Finite moisture_pct) (Finite T_reactor) ''process_water_kg_h'')) \<and>
    scales_within rtol k (the (htc_process (Finite feed_rate) (Finite moisture_pct) (Finite T_reactor) ''hydrochar_energy_MJ_h''))
      (the (htc_process (Finite (k * feed_rate)) (Finite moisture_pct) (Finite T_reactor) ''hydrochar_energy_MJ_h'')) \<and>
    scales_within rtol k (the (htc_process (Finite feed_rate) (Finite moisture_pct) (Finite T_reactor) ''energy_required_MJ_h''))
      (the (htc_process (Finite (k * feed_rate)) (Finite moisture_pct) (Finite T_reactor) ''energy_required_MJ_h''))"
proof -
  note A = ad_biogas_linear [OF assms(1) assms(3,4,5)]
  note A' = ad_biogas_linear [OF assms(2) assms(3,4,5)]
  note H = htc_process_linear [OF assms(1) assms(3,4,6)]
  note H' = htc_process_linear [OF assms(2) assms(3,4,6)]
  note L = linear_scales [OF A(1) A'(1)] linear_scales [OF A(2) A'(2)]
    linear_scales [OF A(3) A'(3)] linear_scales [OF A(4) A'(4)] linear_scales [OF A(5) A'(5)]
    linear_scales [OF H(1) H'(1)] linear_scales [OF H(2) H'(2)]
    linear_scales [OF H(3) H'(3)] linear_scales [OF H(4) H'(4)] linear_scales [OF H(5) H'(5)]
  show ?thesis unfolding tol_def rtol_def by (intro conjI L)
qed

text \<open>
  Feed rate 100 scaled by 3 at moisture 52, volatile-solids fraction 0.8 and reactor
  temperature 200 satisfies the hypotheses and the bounds.
\<close>

theorem feed_rate_scaling_witness:
  "scales_within (350 * f64_u * \<bar>3 * 100\<bar> + 177 * (1 + \<bar>3\<bar>) * f64_eta) 3 (ad_vars.dry_mass (ad_biogas_vars (Finite 100) (Finite 52) (fin 0.8)))
     (ad_vars.dry_mass (ad_biogas_vars (Finite (3 * 100)) (Finite 52) (fin 0.8))) \<and>
   scales_within (350 * f64_u * \<bar>3 * 100\<bar> + 177 * (1 + \<bar>3\<bar>) * f64_eta) 3 (volatile_solids (ad_biogas_vars (Finite 100) (Finite 52) (fin 0.8)))
     (volatile_solids (ad_biogas_vars (Finite (3 * 100)) (Finite 52) (fin 0.8))) \<and>
   scales_within (350 * f64_u * \<bar>3 * 100\<bar> + 177 * (1 + \<bar>3\<bar>) * f64_eta) 3 (biogas_m3_h (ad_biogas_vars (Finite 100) (Finite 52) (fin 0.8)))
     (biogas_m3_h (ad_biogas_vars (Finite (3 * 100)) (Finite 52) (fin 0.8))) \<and>
   scales_within (350 * f64_u * \<bar>3 * 100\<bar> + 177 * (1 + \<bar>3\<bar>) * f64_eta) 3 (methane_m3_h (ad_biogas_vars (Finite 100) (Finite 52) (fin 0.8)))
     (methane_m3_h (ad_biogas_vars (Finite (3 * 100)) (Finite 52) (fin 0.8))) \<and>
   scales_within (350 * f64_u * \<bar>3 * 100\<bar> + 177 * (1 + \<bar>3\<bar>) * f64_eta) 3 (biogas_energy (ad_biogas_vars (Finite 100) (Finite 52) (fin 0.8)))
     (biogas_energy (ad_biogas_vars (Finite (3 * 100)) (Finite 52) (fin 0.8))) \<and>
   scales_within (350 * f64_u * \<bar>3 * 100\<bar> + 177 * (1 + \<bar>3\<bar>) * f64_eta) 3 (htc_vars.dry_mass (htc_process_vars (Finite 100) (Finite 52) (Finite 200)))
     (htc_vars.dry_mass (htc_process_vars (Finite (3 * 100)) (Finite 52) (Finite 200))) \<and>
   scales_within (350 * f64_u * \<bar>3 * 100\<bar> + 177 * (1 + \<bar>3\<bar>) * f64_eta) 3 (hydrochar_yield (htc_process_vars (Finite 100) (Finite 52) (Finite 200)))
     (hydrochar_yield (htc_process_vars (Finite (3 * 100)) (Finite 52) (Finite 200))) \<and>
   scales_within (350 * f64_u * \<bar>3 * 100\<bar> + 177 * (1 + \<bar>3\<bar>) * f64_eta) 3 (process_water (htc_process_vars (Finite 100) (Finite 52) (Finite 200)))
     (process_water (htc_process_vars (Finite (3 * 100)) (Finite 52) (Finite 200))) \<and>
   scales_within (350 * f64_u * \<bar>3 * 100\<bar> + 177 * (1 + \<bar>3\<bar>) * f64_eta) 3 (hydrochar_energy (htc_process_vars (Finite 100) (Finite 52) (Finite 200)))
     (hydrochar_energy (htc_process_vars (Finite (3 * 100)) (Finite 52) (Finite 200))) \<and>
   scales_within (350 * f64_u * \<bar>3 * 100\<bar> + 177 * (1 + \<bar>3\<bar>) * f64_eta) 3 (energy_required (htc_process_vars (Finite 100) (Finite 52) (Finite 200)))
     (energy_required (htc_process_vars (Finite (3 * 100)) (Finite 52) (Finite 200))) \<and>
   scales_within ((1 + \<bar>3\<bar>) * (1 / 200 + f64_u) + 750 * f64_u * \<bar>3 * 100\<bar>
       + 355 * (1 + \<bar>3\<bar>) * f64_eta) 3 (the (ad_biogas_yield (Finite 100) (Finite 52) (fin 0.8) ''dry_mass''))
     (the (ad_biogas_yield (Finite (3 * 100)) (Finite 52) (fin 0.8) ''dry_mass'')) \<and>
   scales_within ((1 + \<bar>3\<bar>) * (1 / 200 + f64_u) + 750 * f64_u * \<bar>3 * 100\<bar>
       + 355 * (1 + \<bar>3\<bar>) * f64_eta) 3 (the (ad_biogas_yield (Finite 100) (Finite 52) (fin 0.8) ''volatile_solids''))
     (the (ad_biogas_yield (Finite (3 * 100)) (Finite 52) (fin 0.8) ''volatile_solids'')) \<and>
   scales_within ((1 + \<bar>3\<bar>) * (1 / 200 + f64_u) + 750 * f64_u * \<bar>3 * 100\<bar>
       + 355 * (1 + \<bar>3\<bar>) * f64_eta) 3 (the (ad_biogas_yield (Finite 100) (Finite 52) (fin 0.8) ''biogas_m3_h''))
     (the (ad_biogas_yield (Finite (3 * 100)) (Finite 52) (fin 0.8) ''biogas_m3_h'')) \<and>
   scales_within ((1 + \<bar>3\<bar>) * (1 / 200 + f64_u) + 750 * f64_u * \<bar>3 * 100\<bar>
       + 355 * (1 + \<bar>3\<bar>) * f64_eta) 3 (the (ad_biogas_yield (Finite 100) (Finite 52) (fin 0.8) ''methane_m3_h''))
     (the (ad_biogas_yield (Finite (3 * 100)) (Finite 52) (fin 0.8) ''methane_m3_h'')) \<and>
   scales_within ((1 + \<bar>3\<bar>) * (1 / 200 + f64_u) + 750 * f64_u * \<bar>3 * 100\<bar>
       + 355 * (1 + \<bar>3\<bar>) * f64_eta) 3 (the (ad_biogas_yield (Finite 100) (Finite 52) (fin 0.8) ''biogas_energy_MJ_h''))
     (the (ad_biogas_yield (Finite (3 * 100)) (Finite 52) (fin 0.8) ''biogas_energy_MJ_h'')) \<and>
   scales_within ((1 + \<bar>3\<bar>) * (1 / 200 + f64_u) + 750 * f64_u * \<bar>3 * 100\<bar>
       + 355 * (1 + \<bar>3\<bar>) * f64_eta) 3 (the (htc_process (Finite 100) (Finite 52) (Finite 200) ''dry_mass''))
     (the (htc_process (Finite (3 * 100)) (Finite 52) (Finite 200) ''dry_mass'')) \<and>
   scales_within ((1 + \<bar>3\<bar>) * (1 / 200 + f64_u) + 750 * f64_u * \<bar>3 * 100\<bar>
       + 355 * (1 + \<bar>3\<bar>) * f64_eta) 3 (the (htc_process (Finite 100) (Finite 52) (Finite 200) ''hydrochar_kg_h''))
     (the (htc_process (Finite (3 * 100)) (Finite 52) (Finite 200) ''hydrochar_kg_h'')) \<and>
   scales_within ((1 + \<bar>3\<bar>) * (1 / 200 + f64_u) + 750 * f64_u * \<bar>3 * 100\<bar>
       + 355 * (1 + \<bar>3\<bar>) * f64_eta) 3 (the (htc_process (Finite 100) (Finite 52) (Finite 200) ''process_water_kg_h''))
     (the (htc_process (Finite (3 * 100)) (Finite 52) (Finite 200) ''process_water_kg_h'')) \<and>
   scales_within ((1 + \<bar>3\<bar>) * (1 / 200 + f64_u) + 750 * f64_u * \<bar>3 * 100\<bar>
       + 355 * (1 + \<bar>3\<bar>) * f64_eta) 3 (the (htc_process (Finite 100) (Finite 52) (Finite 200) ''hydrochar_energy_MJ_h''))
     (the (htc_process (Finite (3 * 100)) (Finite 52) (Finite 200) ''hydrochar_energy_MJ_h'')) \<and>
   scales_within ((1 + \<bar>3\<bar>) * (1 / 200 + f64_u) + 750 * f64_u * \<bar>3 * 100\<bar>
       + 355 * (1 + \<bar>3\<bar>) * f64_eta) 3 (the (htc_process (Finite 100) (Finite 52) (Finite 200) ''energy_required_MJ_h''))
     (the (htc_process (Finite (3 * 100)) (Finite 52) (Finite 200) ''energy_required_MJ_h''))"
  using feed_rate_scaling [of 100 3 52 "3602879701896397 / 4503599627370496" 200]
  by (simp add: fin_080)

lemma ad_volatile_solids_100_52:
  "ad_vars.volatile_solids (ad_biogas_vars (Finite (100)) (Finite 52) (fin (4 / 5))) = Finite (1351079888211149 / 35184372088832)"
proof -
  have f1: "fin (13 / 25) = Finite (1170935903116329 / 2251799813685248)"
    by (rule fin_eqI [where e = "(- 1)" and k = "4683743612465316"]) (simp_all add: powr_minus)
  have f2: "fin (1080863910568919 / 2251799813685248) = Finite (1080863910568919 / 2251799813685248)"
    by (rule fin_eqI [where e = "(- 2)" and k = "8646911284551352"]) (simp_all add: powr_minus)
  have f3: "fin (27021597764222975 / 562949953421312) = Finite (48)"
    by (rule fin_eqI [where e = "5" and k = "6755399441055744"]) (simp_all add: powr_minus)
  have f4: "fin (10808639105689191 / 281474976710656) = Finite (1351079888211149 / 35184372088832)"
    by (rule fin_tie_eqI [where e = "5" and f = "5404319552844595"]) (simp_all add: powr_minus)
  have f5: "fin (2 / 5) = Finite (3602879701896397 / 9007199254740992)"
    by (rule fin_eqI [where e = "(- 2)" and k = "7205759403792794"]) (simp_all add: powr_minus)
  have f6: "fin (4867778304876401892539258330153 / 316912650057057350374175801344) = Finite (4323455642275677 / 281474976710656)"
    by (rule fin_eqI [where e = "3" and k = "8646911284551354"]) (simp_all add: powr_minus)
  have f7: "fin (3 / 5) = Finite (5404319552844595 / 9007199254740992)"
    by (rule fin_eqI [where e = "(- 1)" and k = "5404319552844595"]) (simp_all add: powr_minus)
  have f8: "fin (23365335863406728003324529415815 / 2535301200456458802993406410752) = Finite (1297036692682703 / 140737488355328)"
    by (rule fin_eqI [where e = "3" and k = "5188146770730812"]) (simp_all add: powr_minus)
  have f9: "fin (47558012065032447 / 140737488355328) = Finite (185773484629033 / 549755813888)"
    by (rule fin_eqI [where e = "8" and k = "5944751508129056"]) (simp_all add: powr_minus)
  show ?thesis
    by (simp add: ad_biogas_vars_def Let_def f64_sub_def fin_0 fin_1 fin_100 fin_080 fin_040 fin_060
        fin_22 BIOGAS_LHV_def f1 f2 f3 f4 f5 f6 f7 f8 f9)
qed

lemma ad_volatile_solids_300_52:
  "ad_vars.volatile_solids (ad_biogas_vars (Finite (300)) (Finite 52) (fin (4 / 5))) = Finite (8106479329266893 / 70368744177664)"
proof -
  have f1: "fin (13 / 25) = Finite (1170935903116329 / 2251799813685248)"
    by (rule fin_eqI [where e = "(- 1)" and k = "4683743612465316"]) (simp_all add: powr_minus)
  have f2: "fin (1080863910568919 / 2251799813685248) = Finite (1080863910568919 / 2251799813685248)"
    by (rule fin_eqI [where e = "(- 2)" and k = "8646911284551352"]) (simp_all add: powr_minus)
  have f3: "fin (81064793292668925 / 562949953421312) = Finite (144)"
    by (rule fin_eqI [where e = "7" and k = "5066549580791808"]) (simp_all add: powr_minus)
  have f4: "fin (32425917317067573 / 281474976710656) = Finite (8106479329266893 / 70368744177664)"
    by (rule fin_eqI [where e = "6" and k = "8106479329266893"]) (simp_all add: powr_minus)
  have f5: "fin (2 / 5) = Finite (3602879701896397 / 9007199254740992)"
    by (rule fin_eqI [where e = "(- 2)" and k = "7205759403792794"]) (simp_all add: powr_minus)
  have f6: "fin (29206669829258407752355848084521 / 633825300114114700748351602688) = Finite (6485183463413515 / 140737488355328)"
    by (rule fin_eqI [where e = "5" and k = "6485183463413515"]) (simp_all add: powr_minus)
  have f7: "fin (3 / 5) = Finite (5404319552844595 / 9007199254740992)"
    by (rule fin_eqI [where e = "(- 1)" and k = "5404319552844595"]) (simp_all add: powr_minus)
  have f8: "fin (35048003795110089302827017701425 / 1267650600228229401496703205376) = Finite (3891110078048109 / 140737488355328)"
    by (rule fin_eqI [where e = "4" and k = "7782220156096218"]) (simp_all add: powr_minus)
  have f9: "fin (71337018097548665 / 70368744177664) = Finite (8917127262193583 / 8796093022208)"
    by (rule fin_eqI [where e = "9" and k = "8917127262193583"]) (simp_all add: powr_minus)
  show ?thesis
    by (simp add: ad_biogas_vars_def Let_def f64_sub_def fin_0 fin_1 fin_100 fin_080 fin_040 fin_060
        fin_22 BIOGAS_LHV_def f1 f2 f3 f4 f5 f6 f7 f8 f9)
qed

lemma ad_methane_1_0:
  "ad_vars.methane_m3_h (ad_biogas_vars (Finite (1)) (Finite 0) (fin (4 / 5))) = Finite (6917529027641083 / 36028797018963968)"
proof -
  have f1: "fin (1) = Finite (1)"
    by (rule fin_eqI [where e = "0" and k = "4503599627370496"]) (simp_all add: powr_minus)
  have f2: "fin (3602879701896397 / 4503599627370496) = Finite (3602879701896397 / 4503599627370496)"
    by (rule fin_eqI [where e = "(- 1)" and k = "7205759403792794"]) (simp_all add: powr_minus)
  have f3: "fin (2 / 5) = Finite (3602879701896397 / 9007199254740992)"
    by (rule fin_eqI [where e = "(- 2)" and k = "7205759403792794"]) (simp_all add: powr_minus)
  have f4: "fin (12980742146337070512478121581609 / 40564819207303340847894502572032) = Finite (1441151880758559 / 4503599627370496)"
    by (rule fin_eqI [where e = "(- 2)" and k = "5764607523034236"]) (simp_all add: powr_minus)
  have f5: "fin (3 / 5) = Finite (5404319552844595 / 9007199254740992)"
    by (rule fin_eqI [where e = "(- 1)" and k = "5404319552844595"]) (simp_all add: powr_minus)
  have f6: "fin (7788445287802242667774843138605 / 40564819207303340847894502572032) = Finite (6917529027641083 / 36028797018963968)"
    by (rule fin_eqI [where e = "(- 3)" and k = "6917529027641083"]) (simp_all add: powr_minus)
  have f7: "fin (15852670688344149 / 2251799813685248) = Finite (3963167672086037 / 562949953421312)"
    by (rule fin_tie_eqI [where e = "2" and f = "7926335344172074"]) (simp_all add: powr_minus)
  show ?thesis
    by (simp add: ad_biogas_vars_def Let_def f64_sub_def fin_0 fin_1 fin_100 fin_080 fin_040 fin_060
        fin_22 BIOGAS_LHV_def f1 f2 f3 f4 f5 f6 f7)
qed

lemma ad_methane_half_0:
  "ad_vars.methane_m3_h (ad_biogas_vars (Finite (1 / 2)) (Finite 0) (fin (4 / 5))) = Finite (6917529027641083 / 72057594037927936)"
proof -
  have f1: "fin (1) = Finite (1)"
    by (rule fin_eqI [where e = "0" and k = "4503599627370496"]) (simp_all add: powr_minus)
  have f2: "fin (1 / 2) = Finite (1 / 2)"
    by (rule fin_eqI [where e = "(- 1)" and k = "4503599627370496"]) (simp_all add: powr_minus)
  have f3: "fin (3602879701896397 / 9007199254740992) = Finite (3602879701896397 / 9007199254740992)"
    by (rule fin_eqI [where e = "(- 2)" and k = "7205759403792794"]) (simp_all add: powr_minus)
  have f4: "fin (2 / 5) = Finite (3602879701896397 / 9007199254740992)"
    by (rule fin_eqI [where e = "(- 2)" and k = "7205759403792794"]) (simp_all add: powr_minus)
  have f5: "fin (12980742146337070512478121581609 / 81129638414606681695789005144064) = Finite (1441151880758559 / 9007199254740992)"
    by (rule fin_eqI [where e = "(- 3)" and k = "5764607523034236"]) (simp_all add: powr_minus)
  have f6: "fin (3 / 5) = Finite (5404319552844595 / 9007199254740992)"
    by (rule fin_eqI [where e = "(- 1)" and k = "5404319552844595"]) (simp_all add: powr_minus)
  have f7: "fin (7788445287802242667774843138605 / 81129638414606681695789005144064) = Finite (6917529027641083 / 72057594037927936)"
    by (rule fin_eqI [where e = "(- 4)" and k = "6917529027641083"]) (simp_all add: powr_minus)
  have f8: "fin (15852670688344149 / 4503599627370496) = Finite (3963167672086037 / 1125899906842624)"
    by (rule fin_tie_eqI [where e = "1" and f = "7926335344172074"]) (simp_all add: powr_minus)
  show ?thesis
    by (simp add: ad_biogas_vars_def Let_def f64_sub_def fin_0 fin_1 fin_100 fin_080 fin_040 fin_060
        fin_22 BIOGAS_LHV_def f1 f2 f3 f4 f5 f6 f7 f8)
qed

lemma py_round_0192: "py_round (6917529027641083 / 36028797018963968) 2 = 19 / 100"
proof -
  have "py_round (6917529027641083 / 36028797018963968) 2 = of_int 19 / 10 ^ 2"
    by (rule py_round_eqI) simp_all
  then show ?thesis by simp
qed

lemma py_round_0096: "py_round (6917529027641083 / 72057594037927936) 2 = 1 / 10"
proof -
  have "py_round (6917529027641083 / 72057594037927936) 2 = of_int 10 / 10 ^ 2"
    by (rule py_round_eqI) simp_all
  then show ?thesis by simp
qed

text \<open>
  The unrounded volatile solids of \<^verbatim>\<open>ad_biogas_yield(100, 52, 0.8)\<close> are
  38.400000000000006 and those of \<^verbatim>\<open>ad_biogas_yield(300, 52, 0.8)\<close> are 115.2, which is
  not three times as much, taken exactly or in doubles (115.20000000000002). The
  returned \<^verbatim>\<open>methane_m3_h\<close> of \<^verbatim>\<open>ad_biogas_yield(1, 0, 0.8)\<close> is 0.19 and that of
  \<^verbatim>\<open>ad_biogas_yield(0.5, 0, 0.8)\<close> is 0.1, which is not half as much (0.095).
\<close>

theorem feed_rate_scaling_counterexample:
  "ad_vars.volatile_solids (ad_biogas_vars (Finite 100) (Finite 52) (fin 0.8)) =
     Finite (1351079888211149 / 35184372088832) \<and>
   ad_vars.volatile_solids (ad_biogas_vars (Finite (3 * 100)) (Finite 52) (fin 0.8)) =
     Finite (8106479329266893 / 70368744177664) \<and>
   (8106479329266893 / 70368744177664 :: real) \<noteq> 3 * (1351079888211149 / 35184372088832) \<and>
   f64_mul (Finite 3) (Finite (1351079888211149 / 35184372088832)) = Finite (4053239664633447 / 35184372088832) \<and>
   (8106479329266893 / 70368744177664 :: real) \<noteq> 4053239664633447 / 35184372088832 \<and>
   ad_biogas_yield (Finite 1) (Finite 0) (fin 0.8) ''methane_m3_h'' =
     Some (Finite (3422735716801577 / 18014398509481984)) \<and>
   ad_biogas_yield (Finite (1 / 2 * 1)) (Finite 0) (fin 0.8) ''methane_m3_h'' =
     Some (Finite (3602879701896397 / 36028797018963968)) \<and>
   (3602879701896397 / 36028797018963968 :: real) \<noteq> 1 / 2 * (3422735716801577 / 18014398509481984) \<and>
   f64_mul (Finite (1 / 2)) (Finite (3422735716801577 / 18014398509481984)) = Finite (3422735716801577 / 36028797018963968) \<and>
   (3602879701896397 / 36028797018963968 :: real) \<noteq> 3422735716801577 / 36028797018963968"
proof -
  have g1: "fin (19 / 100) = Finite (3422735716801577 / 18014398509481984)"
    by (rule fin_eqI [where e = "(- 3)" and k = "6845471433603154"]) (simp_all add: powr_minus)
  have g2: "fin (1 / 10) = Finite (3602879701896397 / 36028797018963968)"
    by (rule fin_eqI [where e = "(- 4)" and k = "7205759403792794"]) (simp_all add: powr_minus)
  have g3: "fin (4053239664633447 / 35184372088832) = Finite (4053239664633447 / 35184372088832)"
    by (rule fin_eqI [where e = "6" and k = "8106479329266894"]) (simp_all add: powr_minus)
  have g4: "fin (3422735716801577 / 36028797018963968) = Finite (3422735716801577 / 36028797018963968)"
    by (rule fin_eqI [where e = "(- 4)" and k = "6845471433603154"]) (simp_all add: powr_minus)
  have y: "ad_biogas_yield x y z ''methane_m3_h'' =
      Some (py_round_f64 (ad_vars.methane_m3_h (ad_biogas_vars x y z)) 2)" for x y z
    by (simp add: ad_biogas_yield_def Let_def)
  show ?thesis
    by (simp add: y ad_volatile_solids_100_52 ad_volatile_solids_300_52 ad_methane_1_0
        ad_methane_half_0 py_round_0192 py_round_0096 g1 g2 g3 g4)
qed

end
